theory Spec2Isabelle
  imports Complex_Main "HOL-Library.Sublist"
begin

section \<open>Data model of \<open>anlffr.spectral\<close>\<close>

text \<open>
  The module works on dense NumPy arrays. An input array is kept as NumPy keeps it: a shape
  and the row-major sequence of its entries. Floating-point numbers are idealised as real
  (and complex) numbers; the one floating-point effect that the estimators can show on exact
  data, the undefined value \<open>nan\<close> produced by \<open>0/0\<close> and by the mean of an empty axis, is
  modelled by \<open>None\<close> in an \<open>option\<close> type. Exceptions are values of the type \<open>pyerror\<close>.
\<close>

record 'a ndarray =
  shape :: "nat list"
  flat :: "'a list"

datatype pyerror =
    UnboundLocalError
  | ZeroDivisionError
  | OverflowError
  | ValueError
  | KeyError
  | IndexError

text \<open>
  The parameter dictionary. Keys that the code tests for presence (\<open>'nfft' in params\<close>,
  the \<open>try ... except KeyError\<close> around \<open>bootstrapMode\<close>, \<open>returnEigenvectors\<close>,
  \<open>pcaComponentNumber\<close>) are optional fields; the others are read unconditionally.
  \<open>tapers\<close> is the pair \<open>[TW, ntaps]\<close>, \<open>fpass\<close> the pair \<open>[flo, fhi]\<close>.
\<close>

record params =
  Fs :: real
  nfft :: "int option"
  tapers :: "real \<times> nat"
  fpass :: "real \<times> real"
  itc :: bool
  Npairs :: nat
  bootstrapMode :: "bool option"
  returnEigenvectors :: "bool option"
  pcaComponentNumber :: "nat list option"

section \<open>Rank dispatch\<close>

text \<open>\<open>x.squeeze()\<close>: every axis of length one is removed; the entries are untouched.\<close>

definition squeeze :: "'a ndarray \<Rightarrow> 'a ndarray" where
  "squeeze x = x\<lparr>shape := filter (\<lambda>d. d \<noteq> 1) (shape x)\<rparr>"

text \<open>Row \<open>i\<close> of a row-major block of rows of length \<open>n\<close>, and the first \<open>r\<close> rows.\<close>

definition rows :: "nat \<Rightarrow> nat \<Rightarrow> 'a list \<Rightarrow> 'a list list" where
  "rows r n xs = map (\<lambda>i. take n (drop (i * n) xs)) [0..<r]"

text \<open>
  What the \<open>if len(x.shape) == 3 ... elif len(x.shape) == 2 ... else\<close> chain binds:
  \<open>timedim\<close>, \<open>trialdim\<close>, \<open>nchans\<close>, \<open>ntrials\<close>, and the data seen as
  channel \<open>\<times>\<close> trial \<open>\<times>\<close> time (a two-dimensional array is one channel).
\<close>

record layout =
  timedim :: nat
  trialdim :: nat
  nchans :: nat
  ntrials :: nat
  ntime :: nat
  chans :: "real list list list"

text \<open>
  The per-channel estimators accept rank 3 and rank 2. In the \<open>else\<close> branch the code only
  logs an error (\<open>logger.error\<close> does not raise); the next statement reads the unbound
  local \<open>timedim\<close>, which raises \<open>UnboundLocalError\<close>. \<open>mtppc\<close> has no \<open>else\<close> branch and
  fails on the same read.
\<close>

definition per_channel_layout :: "real ndarray \<Rightarrow> pyerror + layout" where
  "per_channel_layout x =
     (case shape (squeeze x) of
        [c, t, n] \<Rightarrow>
          Inr \<lparr>timedim = 2, trialdim = 1, nchans = c, ntrials = t, ntime = n,
               chans = map (rows t n) (rows c (t * n) (flat x))\<rparr>
      | [t, n] \<Rightarrow>
          Inr \<lparr>timedim = 1, trialdim = 0, nchans = 1, ntrials = t, ntime = n,
               chans = [rows t n (flat x)]\<rparr>
      | _ \<Rightarrow> Inl UnboundLocalError)"

text \<open>The cPCA estimators accept rank 3 only.\<close>

definition cpca_layout :: "real ndarray \<Rightarrow> pyerror + layout" where
  "cpca_layout x =
     (case shape (squeeze x) of
        [c, t, n] \<Rightarrow>
          Inr \<lparr>timedim = 2, trialdim = 1, nchans = c, ntrials = t, ntime = n,
               chans = map (rows t n) (rows c (t * n) (flat x))\<rparr>
      | _ \<Rightarrow> Inl UnboundLocalError)"

section \<open>Floating-point rounding\<close>

text \<open>
  The frequency axis is computed in binary64 and compared with the passband edges, so its
  rounding is part of the model. \<open>fl64 x\<close> is the binary64 number nearest to the real \<open>x\<close>,
  ties going to the even significand: \<open>x\<close> is scaled by a power of two to a significand
  between \<open>2^52\<close> and \<open>2^53\<close>, which is rounded to an integer by \<open>rne\<close>. The exponent
  range is not limited: there is no overflow to infinity and there are no subnormal
  numbers.
\<close>

definition rne :: "real \<Rightarrow> int" where
  "rne x = (let f = \<lfloor>x\<rfloor>; r = x - of_int f
            in if r < 1 / 2 then f else if 1 / 2 < r then f + 1 else if even f then f else f + 1)"

definition fl64 :: "real \<Rightarrow> real" where
  "fl64 x = (if x = 0 then 0
             else let e = \<lfloor>log 2 \<bar>x\<bar>\<rfloor> - 52 in of_int (rne (x / 2 powi e)) * 2 powi e)"

section \<open>Frequency grid\<close>

text \<open>
  \<open>np.fft.fftfreq(n, d)\<close>: with \<open>val = 1.0 / (n * d)\<close>, the integers \<open>0 .. (n-1)//2\<close>
  followed by \<open>-(n//2) .. -1\<close>, each times \<open>val\<close>; every product and quotient is rounded.
  The integers themselves are converted exactly: an array that fits in memory has fewer
  than \<open>2^53\<close> entries.
\<close>

definition fftfreq :: "nat \<Rightarrow> real \<Rightarrow> real list" where
  "fftfreq n d =
     map (\<lambda>i. fl64 ((if i < (n - 1) div 2 + 1 then real i else real_of_int (int i - int n))
                     * fl64 (1 / fl64 (real n * d)))) [0..<n]"

definition maxIdx :: "nat \<Rightarrow> nat" where
  "maxIdx n = (if n mod 2 \<noteq> 0 then (n + 1) div 2 else n div 2 + 1)"

text \<open>
  The axis before masking: \<open>np.abs(f[0:maxIdx])\<close> of \<open>np.fft.fftfreq(nfft, 1/params['Fs'])\<close>,
  the spacing \<open>1/params['Fs']\<close> being rounded as well.
\<close>

definition full_freqs :: "nat \<Rightarrow> real \<Rightarrow> real list" where
  "full_freqs n fs = map abs (take (maxIdx n) (fftfreq n (fl64 (1 / fs))))"

text \<open>Boolean-mask indexing \<open>a[fInd]\<close> along one axis.\<close>

definition bool_index :: "bool list \<Rightarrow> 'a list \<Rightarrow> 'a list" where
  "bool_index m xs = map fst (filter snd (zip xs m))"

text \<open>\<open>int(2.0 ** ceil(np.log2(n)))\<close>; \<open>ceil\<close> of \<open>-inf\<close> raises for \<open>n = 0\<close>.\<close>

definition default_nfft :: "nat \<Rightarrow> pyerror + nat" where
  "default_nfft n =
     (if n = 0 then Inl OverflowError else Inr (2 ^ nat \<lceil>log 2 (real n)\<rceil>))"

text \<open>
  \<open>_get_freq_vector\<close>, given \<open>x.shape[timeDim]\<close>. \<open>1/params['Fs']\<close> raises for a zero
  sample rate and \<open>fftfreq\<close> divides by \<open>n*d\<close>.
\<close>

definition get_freq_vector :: "nat \<Rightarrow> params \<Rightarrow> pyerror + (nat \<times> real list \<times> bool list)" where
  "get_freq_vector nt p =
     (let badNfft = (case nfft p of Some k \<Rightarrow> k < int nt | None \<Rightarrow> False);
          n_or_err = (if nfft p = None \<or> badNfft then default_nfft nt
                      else Inr (nat (the (nfft p))))
      in case n_or_err of
           Inl e \<Rightarrow> Inl e
         | Inr n \<Rightarrow>
             if Fs p = 0 \<or> n = 0 then Inl ZeroDivisionError
             else
               let f = full_freqs n (Fs p);
                   fInd = map (\<lambda>v. fst (fpass p) \<le> v \<and> v \<le> snd (fpass p)) f
               in Inr (n, bool_index fInd f, fInd))"

section \<open>Tapering and the real-input transform\<close>

text \<open>
  \<open>np.fft.rfft(a, n)\<close> along the time axis: the input is cropped or zero-padded to \<open>n\<close>
  samples and the bins \<open>0 .. n//2\<close> of its discrete Fourier transform are returned.
\<close>

definition rfft :: "nat \<Rightarrow> real list \<Rightarrow> complex list" where
  "rfft n xs =
     (let ys = take n xs @ replicate (n - length xs) 0
      in map (\<lambda>k. sum_list (map (\<lambda>j. complex_of_real (ys ! j)
                                       * cis (- (2 * pi * real k * real j / real n))) [0..<n]))
             [0..<n div 2 + 1])"

text \<open>
  \<open>xw = np.fft.rfft(tap * x, n=nfft, axis=timedim)\<close>. The taper provider
  \<open>dpss_windows\<close> is not part of this file of the repository; it is a parameter of every
  estimator. By its contract it returns \<open>ntaps\<close> windows of the length of the time axis, so
  \<open>tap * x\<close> is the product along the time axis and each row of the zero-initialised
  result arrays is written exactly once; the model builds those arrays from the rows.
\<close>

type_synonym dpss = "nat \<Rightarrow> real \<Rightarrow> nat \<Rightarrow> real list list"

definition taper_rfft :: "nat \<Rightarrow> real list \<Rightarrow> real list list list \<Rightarrow> complex list list list" where
  "taper_rfft n tap X = map (map (\<lambda>tr. rfft n (map2 (*) tap tr))) X"

section \<open>Arithmetic with undefined values\<close>

text \<open>
  \<open>None\<close> is a value that is not a finite number. Division by zero gives it (\<open>nan\<close> for
  \<open>0/0\<close>; every division of the module has a zero numerator whenever its denominator is
  zero, or is followed by the finiteness check of the eigen-solver), so does the mean of an
  empty axis, and every operation on it returns it.
\<close>

definition fdiv :: "'a::field \<Rightarrow> 'a \<Rightarrow> 'a option" where
  "fdiv a b = (if b = 0 then None else Some (a / b))"

text \<open>\<open>a.mean(axis)\<close> of one line of the array along that axis.\<close>

definition fmean :: "'a::field_char_0 option list \<Rightarrow> 'a option" where
  "fmean xs =
     (case those xs of
        None \<Rightarrow> None
      | Some ys \<Rightarrow> if ys = [] then None else Some (sum_list ys / of_nat (length ys)))"

text \<open>\<open>xw / abs(xw)\<close> at one coefficient.\<close>

definition unit_phase :: "complex \<Rightarrow> complex option" where
  "unit_phase x = fdiv x (complex_of_real (cmod x))"

text \<open>
  A reduction along the trial axis, bin by bin: \<open>g\<close> receives the coefficients of all trials
  of one channel at one bin. \<open>nb\<close> is the number of bins of \<open>xw\<close>.
\<close>

definition over_trials :: "nat \<Rightarrow> ('a list \<Rightarrow> 'b) \<Rightarrow> 'a list list \<Rightarrow> 'b list" where
  "over_trials nb g T = map (\<lambda>fi. g (map (\<lambda>tr. tr ! fi) T)) [0..<nb]"

text \<open>\<open>a.mean(axis=0)\<close> of a taper \<open>\<times>\<close> channel \<open>\<times>\<close> bin array.\<close>

definition mean_tapers :: "nat \<Rightarrow> nat \<Rightarrow> 'a::field_char_0 option list list list \<Rightarrow> 'a option list list" where
  "mean_tapers nc nb A =
     map (\<lambda>c. map (\<lambda>fi. fmean (map (\<lambda>S. S ! c ! fi) A)) [0..<nb]) [0..<nc]"

section \<open>Trial-aggregated statistics at one channel and bin\<close>

text \<open>\<open>abs((xw/abs(xw)).mean(axis=trialdim))**2\<close>\<close>

definition plv_stat :: "complex list \<Rightarrow> real option" where
  "plv_stat xs = map_option (\<lambda>m. (cmod m)\<^sup>2) (fmean (map unit_phase xs))"

text \<open>\<open>(abs(xw.mean(axis=trialdim))**2) / ((abs(xw)**2).mean(axis=trialdim))\<close>\<close>

definition itc_stat :: "complex list \<Rightarrow> real option" where
  "itc_stat xs =
     (case (fmean (map Some xs), fmean (map (\<lambda>x. Some ((cmod x)\<^sup>2)) xs)) of
        (Some m, Some q) \<Rightarrow> fdiv ((cmod m)\<^sup>2) q
      | _ \<Rightarrow> None)"

text \<open>\<open>abs(xw.mean(axis=trialdim))\<close>\<close>

definition spec_stat :: "complex list \<Rightarrow> real option" where
  "spec_stat xs = map_option cmod (fmean (map Some xs))"

text \<open>
  \<open>abs((xw*sci.exp(1j*randph)).mean(axis=trialdim))\<close> with
  \<open>randph = np.random.random_sample(xw.shape) * 2 * sci.pi\<close>; \<open>us\<close> are the numbers
  drawn for the trials of this channel and bin, and \<open>exp(1j*t)\<close> is \<open>cis t\<close>.
\<close>

definition noise_stat :: "(complex \<times> real) list \<Rightarrow> real option" where
  "noise_stat xus = spec_stat (map (\<lambda>(x, u). x * cis (u * 2 * pi)) xus)"

text \<open>\<open>np.angle(xw.mean(axis=trialdim))\<close>\<close>

definition phase_stat :: "complex list \<Rightarrow> real option" where
  "phase_stat xs = map_option Arg (fmean (map Some xs))"

text \<open>\<open>(abs(xw)**2).mean(axis=trialdim)\<close>\<close>

definition raw_stat :: "complex list \<Rightarrow> real option" where
  "raw_stat xs = fmean (map (\<lambda>x. Some ((cmod x)\<^sup>2)) xs)"

text \<open>
  Pairwise phase consistency over the drawn index pairs. PLV mode:
  \<open>np.real((xw_1*xw_2.conj()).mean(axis=trialdim))\<close> of the unit-normalised coefficients;
  ITC mode: the same of the raw coefficients, divided by
  \<open>abs(xw_1).mean(trialdim) * abs(xw_2).mean(trialdim)\<close>.
\<close>

definition ppc_stat :: "bool \<Rightarrow> (nat \<times> nat) list \<Rightarrow> complex list \<Rightarrow> real option" where
  "ppc_stat itcflag prs xs =
     (if \<not> itcflag then
        map_option Re
          (fmean (map (\<lambda>(i, j). case (unit_phase (xs ! i), unit_phase (xs ! j)) of
                                  (Some a, Some b) \<Rightarrow> Some (a * cnj b)
                                | _ \<Rightarrow> None) prs))
      else
        (case (fmean (map (\<lambda>(i, j). Some (xs ! i * cnj (xs ! j))) prs),
               fmean (map (\<lambda>(i, j). Some (cmod (xs ! i))) prs),
               fmean (map (\<lambda>(i, j). Some (cmod (xs ! j))) prs)) of
           (Some m, Some a, Some b) \<Rightarrow> fdiv (Re m) (a * b)
         | _ \<Rightarrow> None))"

text \<open>
  Pairwise raw power: pairs of equal indices are dropped
  (\<open>trial_pairs[np.not_equal(trial_pairs[:, 0], trial_pairs[:, 1])]\<close>), then
  \<open>np.real((xw_1*xw_2.conj()).mean(axis=0))\<close>.
\<close>

definition pspec_stat :: "(nat \<times> nat) list \<Rightarrow> complex list \<Rightarrow> real option" where
  "pspec_stat prs xs =
     map_option Re
       (fmean (map (\<lambda>(i, j). Some (xs ! i * cnj (xs ! j))) (filter (\<lambda>(i, j). i \<noteq> j) prs)))"

section \<open>Results\<close>

text \<open>
  What an estimator returns: arrays, packed in a tuple (normal mode) or in a dictionary
  (bootstrap mode). A dictionary keeps its keys in insertion order.
\<close>

datatype pyval =
    RArray "real option ndarray"
  | CArray "complex option ndarray"
  | Tuple "pyval list"
  | Dict "(string \<times> pyval) list"

text \<open>An array of the given dimensions after \<open>.squeeze()\<close>.\<close>

definition squeezed :: "nat list \<Rightarrow> 'a list \<Rightarrow> 'a ndarray" where
  "squeezed dims xs = squeeze \<lparr>shape = dims, flat = xs\<rparr>"

definition freq_array :: "real list \<Rightarrow> pyval" where
  "freq_array f = RArray \<lparr>shape = [length f], flat = map Some f\<rparr>"

text \<open>
  \<open>try: bootstrapMode = params['bootstrapMode'] except KeyError: bootstrapMode = False\<close>
\<close>

definition bootstrap :: "params \<Rightarrow> bool" where
  "bootstrap p = (case bootstrapMode p of Some b \<Rightarrow> b | None \<Rightarrow> False)"

text \<open>The two shapes of a result with one statistic.\<close>

definition pack :: "params \<Rightarrow> string \<Rightarrow> pyval \<Rightarrow> real list \<Rightarrow> pyval" where
  "pack p key a f =
     (if bootstrap p then Dict [(key, a), (''f'', freq_array f)] else Tuple [a, freq_array f])"

section \<open>Per-channel estimators\<close>

text \<open>
  Each estimator is the composition the source writes: rank dispatch, frequency grid,
  tapers, the per-taper statistic over every bin of \<open>xw\<close>, the mean over tapers, the
  passband mask, \<open>.squeeze()\<close>, packing. The per-taper arrays (\<open>plvtap\<close>, \<open>S\<close>, \<open>N\<close>,
  \<open>Ph\<close>, \<open>ppc\<close>, \<open>Sraw\<close>, \<open>pspec\<close> before \<open>.mean(axis=0)\<close>) are definitions of their
  own.
\<close>

definition windows :: "dpss \<Rightarrow> layout \<Rightarrow> params \<Rightarrow> real list list" where
  "windows dpss_windows L p = dpss_windows (ntime L) (fst (tapers p)) (snd (tapers p))"

definition masked_rows :: "nat list \<Rightarrow> bool list \<Rightarrow> 'a list list \<Rightarrow> 'a ndarray" where
  "masked_rows dims fInd A = squeezed dims (concat (map (bool_index fInd) A))"

definition mtplv_tapers :: "dpss \<Rightarrow> layout \<Rightarrow> params \<Rightarrow> nat \<Rightarrow> nat \<Rightarrow> real option list list list" where
  "mtplv_tapers dpss_windows L p n nb =
     map (\<lambda>tap. map (over_trials nb (if itc p then itc_stat else plv_stat))
                    (taper_rfft n tap (chans L)))
         (windows dpss_windows L p)"

definition mtplv :: "dpss \<Rightarrow> real ndarray \<Rightarrow> params \<Rightarrow> pyerror + pyval" where
  "mtplv dpss_windows x p =
     (case per_channel_layout x of
        Inl e \<Rightarrow> Inl e
      | Inr L \<Rightarrow>
          (case get_freq_vector (ntime L) p of
             Inl e \<Rightarrow> Inl e
           | Inr (n, f, fInd) \<Rightarrow>
               let plvtap = mtplv_tapers dpss_windows L p n (length fInd);
                   plvavg = mean_tapers (nchans L) (length fInd) plvtap
               in Inr (pack p ''mtplv''
                         (RArray (masked_rows [nchans L, length f] fInd plvavg)) f)))"

text \<open>
  \<open>mtspec\<close>. \<open>random_sample k\<close> is the array that the \<open>k\<close>-th call of
  \<open>np.random.random_sample(xw.shape)\<close> returns (channel \<open>\<times>\<close> trial \<open>\<times>\<close> bin).
\<close>

definition mtspec_S :: "dpss \<Rightarrow> layout \<Rightarrow> params \<Rightarrow> nat \<Rightarrow> nat \<Rightarrow> real option list list list" where
  "mtspec_S dpss_windows L p n nb =
     map (\<lambda>tap. map (over_trials nb spec_stat) (taper_rfft n tap (chans L)))
         (windows dpss_windows L p)"

definition mtspec_N :: "dpss \<Rightarrow> (nat \<Rightarrow> real list list list) \<Rightarrow> layout \<Rightarrow> params \<Rightarrow> nat \<Rightarrow> nat
    \<Rightarrow> real option list list list" where
  "mtspec_N dpss_windows random_sample L p n nb =
     map (\<lambda>(k, tap). map (\<lambda>(xc, uc). over_trials nb noise_stat (map2 zip xc uc))
                         (zip (taper_rfft n tap (chans L)) (random_sample k)))
         (List.enumerate 0 (windows dpss_windows L p))"

definition mtspec :: "dpss \<Rightarrow> (nat \<Rightarrow> real list list list) \<Rightarrow> real ndarray \<Rightarrow> params
    \<Rightarrow> pyerror + pyval" where
  "mtspec dpss_windows random_sample x p =
     (case per_channel_layout x of
        Inl e \<Rightarrow> Inl e
      | Inr L \<Rightarrow>
          (case get_freq_vector (ntime L) p of
             Inl e \<Rightarrow> Inl e
           | Inr (n, f, fInd) \<Rightarrow>
               let S = mean_tapers (nchans L) (length fInd)
                         (mtspec_S dpss_windows L p n (length fInd));
                   N = mean_tapers (nchans L) (length fInd)
                         (mtspec_N dpss_windows random_sample L p n (length fInd));
                   Sm = RArray (masked_rows [nchans L, length f] fInd S);
                   Nm = RArray (masked_rows [nchans L, length f] fInd N)
               in Inr (if bootstrap p
                       then Dict [(''mtspec'', Sm), (''mtspec_noise'', Nm), (''f'', freq_array f)]
                       else Tuple [Sm, Nm, freq_array f])))"

text \<open>\<open>mtphase\<close>: \<open>Ph[:, :, fInd].mean(axis=0).squeeze()\<close> masks each taper's phases first.\<close>

definition mtphase_tapers :: "dpss \<Rightarrow> layout \<Rightarrow> params \<Rightarrow> nat \<Rightarrow> nat \<Rightarrow> real option list list list" where
  "mtphase_tapers dpss_windows L p n nb =
     map (\<lambda>tap. map (over_trials nb phase_stat) (taper_rfft n tap (chans L)))
         (windows dpss_windows L p)"

definition mtphase :: "dpss \<Rightarrow> real ndarray \<Rightarrow> params \<Rightarrow> pyerror + pyval" where
  "mtphase dpss_windows x p =
     (case per_channel_layout x of
        Inl e \<Rightarrow> Inl e
      | Inr L \<Rightarrow>
          (case get_freq_vector (ntime L) p of
             Inl e \<Rightarrow> Inl e
           | Inr (n, f, fInd) \<Rightarrow>
               let Ph = mtphase_tapers dpss_windows L p n (length fInd);
                   Phm = map (map (bool_index fInd)) Ph;
                   Phavg = mean_tapers (nchans L) (length f) Phm
               in Inr (pack p ''mtphase''
                         (RArray (squeezed [nchans L, length f] (concat Phavg))) f)))"

text \<open>\<open>mtspecraw\<close>\<close>

definition mtspecraw_tapers :: "dpss \<Rightarrow> layout \<Rightarrow> params \<Rightarrow> nat \<Rightarrow> nat \<Rightarrow> real option list list list" where
  "mtspecraw_tapers dpss_windows L p n nb =
     map (\<lambda>tap. map (over_trials nb raw_stat) (taper_rfft n tap (chans L)))
         (windows dpss_windows L p)"

definition mtspecraw :: "dpss \<Rightarrow> real ndarray \<Rightarrow> params \<Rightarrow> pyerror + pyval" where
  "mtspecraw dpss_windows x p =
     (case per_channel_layout x of
        Inl e \<Rightarrow> Inl e
      | Inr L \<Rightarrow>
          (case get_freq_vector (ntime L) p of
             Inl e \<Rightarrow> Inl e
           | Inr (n, f, fInd) \<Rightarrow>
               let Sraw = mean_tapers (nchans L) (length fInd)
                            (mtspecraw_tapers dpss_windows L p n (length fInd))
               in Inr (pack p ''mtspecraw''
                         (RArray (masked_rows [nchans L, length f] fInd Sraw)) f)))"

text \<open>
  \<open>mtppc\<close> and \<open>mtpspec\<close>. \<open>randint k\<close> is the list of index pairs that the \<open>k\<close>-th call
  of \<open>np.random.randint(0, ntrials, (npairs, 2))\<close> returns; the call raises when
  \<open>ntrials\<close> is zero. \<open>mtppc\<close> draws once per taper; \<open>mtpspec\<close> loops over the channels
  outside the tapers and draws once per channel and taper. In \<open>mtppc\<close> the tapers are
  computed before the frequency grid.
\<close>

definition mtppc_tapers :: "dpss \<Rightarrow> (nat \<Rightarrow> (nat \<times> nat) list) \<Rightarrow> layout \<Rightarrow> params \<Rightarrow> nat \<Rightarrow> nat
    \<Rightarrow> real option list list list" where
  "mtppc_tapers dpss_windows randint L p n nb =
     map (\<lambda>(k, tap). map (over_trials nb (ppc_stat (itc p) (randint k)))
                         (taper_rfft n tap (chans L)))
         (List.enumerate 0 (windows dpss_windows L p))"

definition mtppc :: "dpss \<Rightarrow> (nat \<Rightarrow> (nat \<times> nat) list) \<Rightarrow> real ndarray \<Rightarrow> params
    \<Rightarrow> pyerror + pyval" where
  "mtppc dpss_windows randint x p =
     (case per_channel_layout x of
        Inl e \<Rightarrow> Inl e
      | Inr L \<Rightarrow>
          (case get_freq_vector (ntime L) p of
             Inl e \<Rightarrow> Inl e
           | Inr (n, f, fInd) \<Rightarrow>
               if windows dpss_windows L p \<noteq> [] \<and> ntrials L = 0 then Inl ValueError
               else
                 let ppc = mean_tapers (nchans L) (length fInd)
                             (mtppc_tapers dpss_windows randint L p n (length fInd))
                 in Inr (pack p ''mtppc''
                           (RArray (masked_rows [nchans L, length f] fInd ppc)) f)))"

definition mtpspec_tapers :: "dpss \<Rightarrow> (nat \<Rightarrow> (nat \<times> nat) list) \<Rightarrow> layout \<Rightarrow> params \<Rightarrow> nat \<Rightarrow> nat
    \<Rightarrow> real option list list list" where
  "mtpspec_tapers dpss_windows randint L p n nb =
     (let w = windows dpss_windows L p
      in map (\<lambda>(k, tap).
                map (\<lambda>(ch, xc). over_trials nb (pspec_stat (randint (ch * length w + k))) xc)
                    (List.enumerate 0 (taper_rfft n tap (chans L))))
             (List.enumerate 0 w))"

definition mtpspec :: "dpss \<Rightarrow> (nat \<Rightarrow> (nat \<times> nat) list) \<Rightarrow> real ndarray \<Rightarrow> params
    \<Rightarrow> pyerror + pyval" where
  "mtpspec dpss_windows randint x p =
     (case per_channel_layout x of
        Inl e \<Rightarrow> Inl e
      | Inr L \<Rightarrow>
          (case get_freq_vector (ntime L) p of
             Inl e \<Rightarrow> Inl e
           | Inr (n, f, fInd) \<Rightarrow>
               if windows dpss_windows L p \<noteq> [] \<and> nchans L \<noteq> 0 \<and> ntrials L = 0
               then Inl ValueError
               else
                 let pspec = mean_tapers (nchans L) (length fInd)
                               (mtpspec_tapers dpss_windows randint L p n (length fInd))
                 in Inr (pack p ''pspec''
                           (RArray (masked_rows [nchans L, length f] fInd pspec)) f)))"

section \<open>Cross-channel estimators (cPCA)\<close>

text \<open>
  \<open>scipy.linalg.eigh\<close> is a library routine and a parameter of the model: for a matrix it
  returns the eigenvalues in ascending order and the eigenvectors, \<open>snd (eigh M) ! i\<close>
  being the column \<open>i\<close> of the returned matrix. With its default \<open>check_finite=True\<close> it
  raises \<open>ValueError\<close> when the matrix has an entry that is not finite; that check is part of
  the model, so the parameter only sees finite matrices.
\<close>

type_synonym eigh_solver = "complex list list \<Rightarrow> real list \<times> complex list list"

fun mapE :: "('a \<Rightarrow> 'e + 'b) \<Rightarrow> 'a list \<Rightarrow> 'e + 'b list" where
  "mapE g [] = Inr []"
| "mapE g (x # xs) =
     (case g x of
        Inl e \<Rightarrow> Inl e
      | Inr y \<Rightarrow> (case mapE g xs of Inl e \<Rightarrow> Inl e | Inr ys \<Rightarrow> Inr (y # ys)))"

text \<open>\<open>np.outer(a, b)\<close> and the cross-spectral matrix \<open>np.outer(c, c.conj())\<close>.\<close>

definition outer :: "complex list \<Rightarrow> complex list \<Rightarrow> complex list list" where
  "outer a b = map (\<lambda>x. map (\<lambda>y. x * y) b) a"

definition csd :: "complex list \<Rightarrow> complex list list" where
  "csd c = outer c (map cnj c)"

text \<open>\<open>a[-c]\<close> for \<open>c \<ge> 0\<close>: the \<open>c\<close>-th entry from the end, and \<open>a[0]\<close> for \<open>c = 0\<close>.\<close>

definition neg_index :: "'a list \<Rightarrow> nat \<Rightarrow> pyerror + 'a" where
  "neg_index xs c =
     (if c = 0 then (if xs = [] then Inl IndexError else Inr (xs ! 0))
      else if c \<le> length xs then Inr (xs ! (length xs - c))
      else Inl IndexError)"

text \<open>
  The solver applied to the matrix of one bin; \<open>col\<close> is \<open>C[:, fi]\<close>.
\<close>

definition eigh_csd :: "eigh_solver \<Rightarrow> complex option list \<Rightarrow> pyerror + (real list \<times> complex list list)" where
  "eigh_csd eigh col =
     (case those col of None \<Rightarrow> Inl ValueError | Some c \<Rightarrow> Inr (eigh (csd c)))"

text \<open>\<open>vals[-1] / nchans\<close>\<close>

definition top_eigenvalue :: "eigh_solver \<Rightarrow> nat \<Rightarrow> complex option list \<Rightarrow> pyerror + real option" where
  "top_eigenvalue eigh nc col =
     (case eigh_csd eigh col of
        Inl e \<Rightarrow> Inl e
      | Inr (vals, vecs) \<Rightarrow>
          (case neg_index vals 1 of Inl e \<Rightarrow> Inl e | Inr v \<Rightarrow> Inr (fdiv v (real nc))))"

text \<open>
  The three channel statistics at one channel and bin:
  \<open>xw.mean(axis=trialdim)\<close>, \<open>(xw / abs(xw)).mean(axis=trialdim)\<close> and
  \<open>xw.mean(axis=trialdim) / abs(xw).mean(axis=trialdim)\<close>.
\<close>

definition mean_coef :: "complex list \<Rightarrow> complex option" where
  "mean_coef xs = fmean (map Some xs)"

definition plv_coef :: "complex list \<Rightarrow> complex option" where
  "plv_coef xs = fmean (map unit_phase xs)"

definition itc_coef :: "complex list \<Rightarrow> complex option" where
  "itc_coef xs =
     (case (fmean (map Some xs), fmean (map (\<lambda>x. Some (cmod x)) xs)) of
        (Some m, Some a) \<Rightarrow> fdiv m (complex_of_real a)
      | _ \<Rightarrow> None)"

text \<open>
  The loop \<open>for fi in np.arange(0, C.shape[1])\<close> of one taper. \<open>C\<close> has been squeezed: with
  a single bin it is one-dimensional and \<open>C.shape[1]\<close> raises.
\<close>

definition cpca_bins :: "eigh_solver \<Rightarrow> nat \<Rightarrow> nat \<Rightarrow> complex option list list \<Rightarrow> pyerror + real option list" where
  "cpca_bins eigh nc nb C =
     (if nb = 1 then Inl IndexError
      else mapE (\<lambda>fi. top_eigenvalue eigh nc (map (\<lambda>row. row ! fi) C)) [0..<nb])"

definition mtcpca_tapers :: "dpss \<Rightarrow> eigh_solver \<Rightarrow> layout \<Rightarrow> params \<Rightarrow> nat \<Rightarrow> nat
    \<Rightarrow> pyerror + real option list list" where
  "mtcpca_tapers dpss_windows eigh L p n nb =
     mapE (\<lambda>tap. cpca_bins eigh (nchans L) nb
                    (map (over_trials nb (if itc p then itc_coef else plv_coef))
                         (taper_rfft n tap (chans L))))
          (windows dpss_windows L p)"

definition mtcpca :: "dpss \<Rightarrow> eigh_solver \<Rightarrow> real ndarray \<Rightarrow> params \<Rightarrow> pyerror + pyval" where
  "mtcpca dpss_windows eigh x p =
     (case cpca_layout x of
        Inl e \<Rightarrow> Inl e
      | Inr L \<Rightarrow>
          (case get_freq_vector (ntime L) p of
             Inl e \<Rightarrow> Inl e
           | Inr (n, f, fInd) \<Rightarrow>
               (case mtcpca_tapers dpss_windows eigh L p n (length fInd) of
                  Inl e \<Rightarrow> Inl e
                | Inr plv \<Rightarrow>
                    let plvavg = over_trials (length fInd) fmean plv
                    in Inr (pack p ''mtcplv''
                              (RArray \<lparr>shape = [length f], flat = bool_index fInd plvavg\<rparr>) f))))"

definition mtcspec_tapers :: "dpss \<Rightarrow> eigh_solver \<Rightarrow> layout \<Rightarrow> params \<Rightarrow> nat \<Rightarrow> nat
    \<Rightarrow> pyerror + real option list list" where
  "mtcspec_tapers dpss_windows eigh L p n nb =
     mapE (\<lambda>tap. cpca_bins eigh (nchans L) nb
                    (map (over_trials nb mean_coef) (taper_rfft n tap (chans L))))
          (windows dpss_windows L p)"

definition mtcspec :: "dpss \<Rightarrow> eigh_solver \<Rightarrow> real ndarray \<Rightarrow> params \<Rightarrow> pyerror + pyval" where
  "mtcspec dpss_windows eigh x p =
     (case cpca_layout x of
        Inl e \<Rightarrow> Inl e
      | Inr L \<Rightarrow>
          (case get_freq_vector (ntime L) p of
             Inl e \<Rightarrow> Inl e
           | Inr (n, f, fInd) \<Rightarrow>
               (case mtcspec_tapers dpss_windows eigh L p n (length fInd) of
                  Inl e \<Rightarrow> Inl e
                | Inr cspec \<Rightarrow>
                    let cavg = over_trials (length fInd) fmean cspec
                    in Inr (pack p ''mtcspec''
                              (RArray \<lparr>shape = [length f], flat = bool_index fInd cavg\<rparr>) f))))"

subsection \<open>\<open>mtcpca_all\<close>\<close>

text \<open>
  \<open>pc\<close>: the requested component ranks, negated by the source to index from the top. The
  rank list is a Python list; an absent or empty one means the dominant component.
\<close>

definition pc_ranks :: "params \<Rightarrow> nat list" where
  "pc_ranks p = (case pcaComponentNumber p of Some cs \<Rightarrow> if cs \<noteq> [] then cs else [1] | None \<Rightarrow> [1])"

text \<open>
  One of the three decompositions of a bin: the solver's result and \<open>vals[pc] / nchans\<close>.
\<close>

definition eigh_select :: "eigh_solver \<Rightarrow> nat \<Rightarrow> nat list \<Rightarrow> complex option list
    \<Rightarrow> pyerror + (real option list \<times> complex list list)" where
  "eigh_select eigh nc pc col =
     (case eigh_csd eigh col of
        Inl e \<Rightarrow> Inl e
      | Inr (vals, vecs) \<Rightarrow>
          (case mapE (neg_index vals) pc of
             Inl e \<Rightarrow> Inl e
           | Inr vs \<Rightarrow> Inr (map (\<lambda>v. fdiv v (real nc)) vs, vecs)))"

record bin_result =
  b_spectrum :: "real option list"
  b_plv :: "real option list"
  b_itc :: "real option list"
  b_spectrumV :: "complex list list"
  b_plvV :: "complex list list"
  b_itcV :: "complex list list"

text \<open>
  The body of \<open>for fi in np.arange(0, len(f))\<close>. The test
  \<open>if params['returnEigenvectors']\<close> inside the loop reads the key unconditionally; when it
  holds, the columns \<open>vecs[:, pc].T\<close> are stored as the solver returned them.
\<close>

definition mtcpca_all_bin :: "eigh_solver \<Rightarrow> nat \<Rightarrow> params
    \<Rightarrow> complex option list \<Rightarrow> complex option list \<Rightarrow> complex option list \<Rightarrow> pyerror + bin_result" where
  "mtcpca_all_bin eigh nc p c plvc itcc =
     (case eigh_select eigh nc (pc_ranks p) c of
        Inl e \<Rightarrow> Inl e
      | Inr (sv, powEigenvec) \<Rightarrow>
     (case eigh_select eigh nc (pc_ranks p) plvc of
        Inl e \<Rightarrow> Inl e
      | Inr (pv, plvEigenvec) \<Rightarrow>
     (case eigh_select eigh nc (pc_ranks p) itcc of
        Inl e \<Rightarrow> Inl e
      | Inr (iv, itcEigenvec) \<Rightarrow>
     (case returnEigenvectors p of
        None \<Rightarrow> Inl KeyError
      | Some False \<Rightarrow>
          Inr \<lparr>b_spectrum = sv, b_plv = pv, b_itc = iv,
               b_spectrumV = [], b_plvV = [], b_itcV = []\<rparr>
      | Some True \<Rightarrow>
     (case mapE (neg_index powEigenvec) (pc_ranks p) of
        Inl e \<Rightarrow> Inl e
      | Inr su \<Rightarrow>
     (case mapE (neg_index plvEigenvec) (pc_ranks p) of
        Inl e \<Rightarrow> Inl e
      | Inr pu \<Rightarrow>
     (case mapE (neg_index itcEigenvec) (pc_ranks p) of
        Inl e \<Rightarrow> Inl e
      | Inr iu \<Rightarrow>
          Inr \<lparr>b_spectrum = sv, b_plv = pv, b_itc = iv,
               b_spectrumV = su, b_plvV = pu, b_itcV = iu\<rparr>)))))))"

text \<open>
  One taper: the coefficients are masked right after the transform
  (\<open>xw = xw[:, :, fInd]\<close>), the three channel statistics are taken over the masked bins and
  squeezed, and the bins are decomposed one by one.
\<close>

definition mtcpca_all_xw :: "nat \<Rightarrow> bool list \<Rightarrow> real list \<Rightarrow> layout \<Rightarrow> complex list list list" where
  "mtcpca_all_xw n fInd tap L = map (map (bool_index fInd)) (taper_rfft n tap (chans L))"

definition mtcpca_all_taper :: "eigh_solver \<Rightarrow> layout \<Rightarrow> params \<Rightarrow> nat \<Rightarrow> complex list list list
    \<Rightarrow> pyerror + bin_result list" where
  "mtcpca_all_taper eigh L p nbm xw =
     (let C = map (over_trials nbm mean_coef) xw;
          itcC = map (over_trials nbm itc_coef) xw;
          plvC = map (over_trials nbm plv_coef) xw
      in if nbm = 1 then Inl IndexError
         else mapE (\<lambda>fi. mtcpca_all_bin eigh (nchans L) p
                           (map (\<lambda>row. row ! fi) C)
                           (map (\<lambda>row. row ! fi) plvC)
                           (map (\<lambda>row. row ! fi) itcC)) [0..<nbm])"

text \<open>
  \<open>a.mean(axis=0).squeeze()\<close> of a taper \<open>\<times>\<close> component \<open>\<times>\<close> bin array, and the
  squeezed taper \<open>\<times>\<close> component \<open>\<times>\<close> channel \<open>\<times>\<close> bin array of eigenvectors.
\<close>

definition component_means :: "nat \<Rightarrow> nat \<Rightarrow> (bin_result \<Rightarrow> real option list) \<Rightarrow> bin_result list list
    \<Rightarrow> real option ndarray" where
  "component_means npc nbm sel B =
     squeezed [npc, nbm]
       (concat (map (\<lambda>ci. map (\<lambda>fi. fmean (map (\<lambda>Bk. sel (Bk ! fi) ! ci) B)) [0..<nbm]) [0..<npc]))"

definition eigenvector_array :: "nat \<Rightarrow> nat \<Rightarrow> nat \<Rightarrow> (bin_result \<Rightarrow> complex list list)
    \<Rightarrow> bin_result list list \<Rightarrow> complex option ndarray" where
  "eigenvector_array npc nc nbm sel B =
     squeezed [length B, npc, nc, nbm]
       (concat (map (\<lambda>Bk. concat (map (\<lambda>ci. concat (map (\<lambda>ch.
            map (\<lambda>fi. Some (sel (Bk ! fi) ! ci ! ch)) [0..<nbm]) [0..<nc])) [0..<npc])) B))"

text \<open>
  The result of \<open>mtcpca_all\<close>: the dictionary \<open>out\<close> with the three statistics, the three
  eigenvector arrays when they were requested, and the frequency axis inside the
  dictionary (bootstrap mode) or beside it (normal mode).
\<close>

definition mtcpca_all_result :: "params \<Rightarrow> nat \<Rightarrow> real list \<Rightarrow> bin_result list list \<Rightarrow> pyval" where
  "mtcpca_all_result p nc f B =
     (let npc = length (pc_ranks p);
          stats = [(''spectrum'', RArray (component_means npc (length f) b_spectrum B)),
                   (''plv'', RArray (component_means npc (length f) b_plv B)),
                   (''itc'', RArray (component_means npc (length f) b_itc B))];
          vecs = (if returnEigenvectors p = Some True
                  then [(''spectrumV'', CArray (eigenvector_array npc nc (length f) b_spectrumV B)),
                        (''plvV'', CArray (eigenvector_array npc nc (length f) b_plvV B)),
                        (''itcV'', CArray (eigenvector_array npc nc (length f) b_itcV B))]
                  else [])
      in if bootstrap p then Dict (stats @ vecs @ [(''f'', freq_array f)])
         else Tuple [Dict (stats @ vecs), freq_array f])"

definition mtcpca_all :: "dpss \<Rightarrow> eigh_solver \<Rightarrow> real ndarray \<Rightarrow> params \<Rightarrow> pyerror + pyval" where
  "mtcpca_all dpss_windows eigh x p =
     (case cpca_layout x of
        Inl e \<Rightarrow> Inl e
      | Inr L \<Rightarrow>
          (case get_freq_vector (ntime L) p of
             Inl e \<Rightarrow> Inl e
           | Inr (n, f, fInd) \<Rightarrow>
               (case mapE (\<lambda>tap. mtcpca_all_taper eigh L p (length f)
                                    (mtcpca_all_xw n fInd tap L))
                          (windows dpss_windows L p) of
                  Inl e \<Rightarrow> Inl e
                | Inr B \<Rightarrow> Inr (mtcpca_all_result p (nchans L) f B))))"

subsection \<open>\<open>mtcpca_timeDomain\<close>\<close>

text \<open>
  \<open>np.fft.irfft(a)\<close>: the real signal of length \<open>2*(len(a)-1)\<close> whose transform is \<open>a\<close>;
  the imaginary parts of the first and last bin are ignored, and a length of zero raises.
\<close>

definition irfft :: "complex list \<Rightarrow> pyerror + real list" where
  "irfft X =
     (let m = length X; n = 2 * (m - 1)
      in if n = 0 then Inl ValueError
         else Inr (map (\<lambda>j. (Re (X ! 0)
                              + 2 * sum_list (map (\<lambda>k. Re (X ! k * cis (2 * pi * real k * real j / real n)))
                                                  [1..<m - 1])
                              + Re (X ! (m - 1) * cis (pi * real j))) / real n)
                       [0..<n]))"

text \<open>An undefined entry of the input of a transform makes every entry of its output undefined.\<close>

definition all_or_none :: "nat \<Rightarrow> 'a list option \<Rightarrow> 'a option list" where
  "all_or_none k r = (case r of None \<Rightarrow> replicate k None | Some ys \<Rightarrow> map Some ys)"

text \<open>\<open>a ** 0.5\<close> of a real entry.\<close>

definition fsqrt :: "real \<Rightarrow> real option" where
  "fsqrt v = (if v < 0 then None else Some (sqrt v))"

text \<open>
  \<open>np.cov(x_ave)\<close>: rows are variables, the normalisation is \<open>N - 1\<close>, replaced by zero
  when it is not positive.
\<close>

definition cov :: "nat \<Rightarrow> real list list \<Rightarrow> real option list list" where
  "cov nt X =
     (let fact = (if nt \<le> 1 then 0 else real nt - 1);
          D = map (\<lambda>r. map (\<lambda>v. v - sum_list r / real nt) r) X
      in map (\<lambda>a. map (\<lambda>b. fdiv (sum_list (map2 (*) a b)) fact) D) D)"

text \<open>
  The statistics of one channel and bin when the coefficients themselves may be undefined:
  \<open>C = xw.mean(axis=trialdim)\<close> and \<open>Cnorm = C / abs(xw).mean(axis=trialdim)\<close>.
\<close>

definition Cnorm_coef :: "complex option list \<Rightarrow> complex option" where
  "Cnorm_coef xs =
     (case (fmean xs, fmean (map (map_option cmod) xs)) of
        (Some m, Some a) \<Rightarrow> fdiv m (complex_of_real a)
      | _ \<Rightarrow> None)"

text \<open>
  The body of \<open>for fi in np.arange(0, Cnorm.shape[1])\<close>: the dominant eigenvalue and
  \<open>cwts = vecs[:, -1] / np.abs(vecs[:, -1]).sum()\<close>,
  \<open>cpc_freq[fi] = (cwts.conjugate() * C[:, fi]).sum()\<close>.
\<close>

definition cwts :: "complex list \<Rightarrow> complex option list" where
  "cwts v = map (\<lambda>z. fdiv z (complex_of_real (sum_list (map cmod v)))) v"

definition timeDomain_bin :: "eigh_solver \<Rightarrow> complex option list \<Rightarrow> complex option list
    \<Rightarrow> pyerror + (real \<times> complex option)" where
  "timeDomain_bin eigh cn c =
     (case eigh_csd eigh cn of
        Inl e \<Rightarrow> Inl e
      | Inr (vals, vecs) \<Rightarrow>
          (case neg_index vals 1 of
             Inl e \<Rightarrow> Inl e
           | Inr v \<Rightarrow>
               (case neg_index vecs 1 of
                  Inl e \<Rightarrow> Inl e
                | Inr u \<Rightarrow>
                    Inr (v, map_option sum_list
                              (those (map2 (\<lambda>wt z. case (wt, z) of
                                                     (Some a, Some b) \<Rightarrow> Some (cnj a * b)
                                                   | _ \<Rightarrow> None) (cwts u) c))))))"

text \<open>
  Time-domain PCA: \<open>np.dot(vecs[:, -1].T, x_ave) / vecs[:, -1].sum()\<close>. On the real
  matrix \<open>C_td\<close> the solver returns real eigenvectors; \<open>eigh_real\<close> is that case of the
  library routine.
\<close>

type_synonym eigh_real_solver = "real list list \<Rightarrow> real list \<times> real list list"

definition time_pca :: "eigh_real_solver \<Rightarrow> nat \<Rightarrow> real option list list \<Rightarrow> pyerror + real option list" where
  "time_pca eigh_real nt x_ave =
     (case those (map those x_ave) of
        None \<Rightarrow> Inl ValueError
      | Some X \<Rightarrow>
          (case those (map those (cov nt X)) of
             None \<Rightarrow> Inl ValueError
           | Some C_td \<Rightarrow>
               (case neg_index (snd (eigh_real C_td)) 1 of
                  Inl e \<Rightarrow> Inl e
                | Inr u \<Rightarrow>
                    Inr (map (\<lambda>t. fdiv (sum_list (map2 (\<lambda>a r. a * r ! t) u X)) (sum_list u))
                             [0..<nt]))))"

text \<open>
  \<open>xw = np.fft.rfft(w * x, n=nfft, axis=timedim)\<close> with \<open>w = w.squeeze() / w.max()\<close>: every
  coefficient is undefined when the scaled taper is.
\<close>

definition timeDomain_xw :: "real list \<Rightarrow> nat \<Rightarrow> nat \<Rightarrow> layout \<Rightarrow> complex option list list list" where
  "timeDomain_xw w0 n nb L =
     (case those (map (\<lambda>v. fdiv v (Max (set w0))) w0) of
        None \<Rightarrow> map (map (\<lambda>tr. replicate nb None)) (chans L)
      | Some tap \<Rightarrow> map (map (map Some)) (taper_rfft n tap (chans L)))"

text \<open>
  \<open>cscale = cspec ** 0.5\<close>, \<open>cscale = cscale / cscale.max()\<close> and the filtered spectrum
  \<open>cpc_freq * cscale\<close>, undefined as a whole when one of its entries is.
\<close>

definition timeDomain_filter :: "nat \<Rightarrow> (real \<times> complex option) list \<Rightarrow> complex list option" where
  "timeDomain_filter nb bins =
     (let cspec = map fst bins;
          cpc_freq = map snd bins;
          cscale0 = those (map fsqrt cspec);
          cscale = (case cscale0 of
                      None \<Rightarrow> replicate nb None
                    | Some cs \<Rightarrow> map (\<lambda>c. fdiv c (Max (set cs))) cs)
      in those (map2 (\<lambda>a b. case (a, b) of
                               (Some z, Some c) \<Rightarrow> Some (z * complex_of_real c)
                             | _ \<Rightarrow> None) cpc_freq cscale))"

definition mtcpca_timeDomain :: "dpss \<Rightarrow> eigh_solver \<Rightarrow> eigh_real_solver \<Rightarrow> real ndarray \<Rightarrow> params
    \<Rightarrow> pyerror + pyval" where
  "mtcpca_timeDomain dpss_windows eigh eigh_real x p =
     (case cpca_layout x of
        Inl e \<Rightarrow> Inl e
      | Inr L \<Rightarrow>
     (case get_freq_vector (ntime L) p of
        Inl e \<Rightarrow> Inl e
      | Inr (n, f, fInd) \<Rightarrow>
     (let w0 = concat (dpss_windows (ntime L) 1 1);
          nb = length fInd
      in if w0 = [] then Inl ValueError
         else
           let xw = timeDomain_xw w0 n nb L;
               C = map (over_trials nb fmean) xw;
               Cnorm = map (over_trials nb Cnorm_coef) xw
           in if nb = 1 then Inl IndexError
              else
     (case mapE (\<lambda>fi. timeDomain_bin eigh (map (\<lambda>row. row ! fi) Cnorm) (map (\<lambda>row. row ! fi) C))
                [0..<nb] of
        Inl e \<Rightarrow> Inl e
      | Inr bins \<Rightarrow>
     (let filtered = timeDomain_filter nb bins
      in
     (case irfft (case filtered of None \<Rightarrow> replicate nb 0 | Some X \<Rightarrow> X) of
        Inl e \<Rightarrow> Inl e
      | Inr y \<Rightarrow>
     (let y_cpc = take (ntime L) (all_or_none (length y) (map_option (\<lambda>X. y) filtered));
          x_ave = map (over_trials (ntime L) (\<lambda>col. fmean (map Some col))) (chans L)
      in
     (case time_pca eigh_real (ntime L) x_ave of
        Inl e \<Rightarrow> Inl e
      | Inr y_pc \<Rightarrow>
          let a = RArray \<lparr>shape = [length y_cpc], flat = y_cpc\<rparr>;
              b = RArray \<lparr>shape = [length y_pc], flat = y_pc\<rparr>
          in Inr (if bootstrap p then Dict [(''y_cpc'', a), (''y_pc'', b)]
                  else Tuple [a, b])))))))))"

section \<open>What the eigen-solver is required to return\<close>




text \<open>The squared Euclidean norm of a channel vector.\<close>

definition norm2 :: "complex list \<Rightarrow> real" where
  "norm2 v = sum_list (map (\<lambda>z. (cmod z)\<^sup>2) v)"


text \<open>
  The spectrum statistic as the specification words it, the mean over trials of the
  moduli, for comparison with \<open>spec_stat\<close>.
\<close>

definition mean_abs_stat :: "complex list \<Rightarrow> real option" where
  "mean_abs_stat xs = fmean (map (\<lambda>x. Some (cmod x)) xs)"

text \<open>
  A result carries the frequency axis \<open>f\<close> alongside at least one statistic: as the last
  element of a tuple of at least two elements in normal mode, under the key \<open>f\<close> of a
  dictionary of at least two items in bootstrap mode.
\<close>

definition returns_freq :: "params \<Rightarrow> real list \<Rightarrow> pyval \<Rightarrow> bool" where
  "returns_freq p f r =
     (if bootstrap p
      then (case r of Dict items \<Rightarrow> 2 \<le> length items \<and> map_of items ''f'' = Some (freq_array f)
            | _ \<Rightarrow> False)
      else (case r of Tuple vs \<Rightarrow> 2 \<le> length vs \<and> last vs = freq_array f | _ \<Rightarrow> False))"

text \<open>
  The field \<open>key\<close> of the dictionary \<open>out\<close> in a result of \<open>mtcpca_all\<close>: the result is the
  dictionary itself in bootstrap mode and the pair \<open>(out, f)\<close> in normal mode.
\<close>

definition result_field :: "string \<Rightarrow> pyval \<Rightarrow> pyval option" where
  "result_field key r =
     (case r of
        Dict items \<Rightarrow> map_of items key
      | Tuple vs \<Rightarrow> (case vs of Dict items # rest \<Rightarrow> map_of items key | _ \<Rightarrow> None)
      | _ \<Rightarrow> None)"

section \<open>Example inputs\<close>

text \<open>
  Concrete inputs for the instances below: parameters with a transform of four points at a
  sample rate of four (bins at 0, 1 and 2, the passband keeping 1 and 2), a taper provider
  that returns rectangular windows, and an exact eigen-solver for the matrices of the
  examples: a one-by-one matrix, and the two-by-two matrices of rank one
  \<open>[[p, q], [cnj q, r]]\<close> that two-channel data produce, with eigenvalues \<open>0\<close> and
  \<open>p + r\<close> and the unit eigenvectors that are the normalised \<open>(-q, p)\<close> and \<open>(p, cnj q)\<close>.
  On a real matrix the eigenvectors are real.
\<close>

definition ex_params :: params where
  "ex_params = \<lparr>Fs = 4, nfft = Some 4, tapers = (1, 1), fpass = (1, 2), itc = False, Npairs = 2,
                 bootstrapMode = None, returnEigenvectors = Some False,
                 pcaComponentNumber = None\<rparr>"

definition ex_dpss :: dpss where
  "ex_dpss N TW K = replicate K (replicate N 1)"

definition eigh_exact :: eigh_solver where
  "eigh_exact M =
     (case M of
        [[p]] \<Rightarrow> ([Re p], [[1]])
      | [[p, q], [q', r]] \<Rightarrow>
          (let t = Re p + Re r; s = complex_of_real (sqrt (Re p * t))
           in if Re p = 0 then ([0, t], [[1, 0], [0, 1]])
              else ([0, t], [[- q / s, p / s], [p / s, q' / s]]))
      | _ \<Rightarrow> ([], []))"

definition eigh_real_exact :: eigh_real_solver where
  "eigh_real_exact M =
     (let r = eigh_exact (map (map complex_of_real) M) in (fst r, map (map Re) (snd r)))"

text \<open>The layout of two trials of opposite sign, \<open>[1, 0]\<close> and \<open>[-1, 0]\<close>, of one channel.\<close>

definition opp_layout :: layout where
  "opp_layout = \<lparr>timedim = 1, trialdim = 0, nchans = 1, ntrials = 2, ntime = 2,
             chans = [[[1, 0], [- 1, 0 :: real]]]\<rparr>"

text \<open>
  The layouts of a recording whose second trial is blank: trials \<open>[1, 0]\<close> and \<open>[0, 0]\<close>, of
  one channel and of two channels.
\<close>

definition blank_layout :: layout where
  "blank_layout = \<lparr>timedim = 1, trialdim = 0, nchans = 1, ntrials = 2, ntime = 2,
             chans = [[[1, 0], [0, 0 :: real]]]\<rparr>"

definition blank_layout2 :: layout where
  "blank_layout2 = \<lparr>timedim = 2, trialdim = 1, nchans = 2, ntrials = 2, ntime = 2,
             chans = [[[1, 0], [0, 0]], [[1, 0], [0, 0 :: real]]]\<rparr>"

text \<open>
  The example parameters with a passband of the single bin at 2, and with eigenvector
  retention. The recording of ones: trials \<open>[1, 0]\<close> in two channels. The recording
  \<open>x34\<close>: trials \<open>[3, 0]\<close> in the first and \<open>[4, 0]\<close> in the second channel.
\<close>

definition ex_params_nyq :: params where
  "ex_params_nyq = ex_params\<lparr>fpass := (2, 2)\<rparr>"

definition ex_params_vec :: params where
  "ex_params_vec = ex_params\<lparr>returnEigenvectors := Some True\<rparr>"

text \<open>The example parameters in bootstrap mode.\<close>

definition ex_params_boot :: params where
  "ex_params_boot = ex_params\<lparr>bootstrapMode := Some True\<rparr>"

definition ones_layout2 :: layout where
  "ones_layout2 = \<lparr>timedim = 2, trialdim = 1, nchans = 2, ntrials = 2, ntime = 2,
             chans = [[[1, 0], [1, 0]], [[1, 0], [1, 0 :: real]]]\<rparr>"

definition ones_layout :: layout where
  "ones_layout = \<lparr>timedim = 1, trialdim = 0, nchans = 1, ntrials = 2, ntime = 2,
             chans = [[[1, 0], [1, 0 :: real]]]\<rparr>"

definition x34 :: "real ndarray" where
  "x34 = \<lparr>shape = [2, 2, 2], flat = [3, 0, 3, 0, 4, 0, 4, 0]\<rparr>"

definition x34_layout :: layout where
  "x34_layout = \<lparr>timedim = 2, trialdim = 1, nchans = 2, ntrials = 2, ntime = 2,
             chans = [[[3, 0], [3, 0]], [[4, 0], [4, 0 :: real]]]\<rparr>"

text \<open>What \<open>mtcpca_all\<close> computes at each passband bin of \<open>x34\<close>.\<close>

definition bin34 :: bin_result where
  "bin34 = \<lparr>b_spectrum = [Some (25 / 2)], b_plv = [Some 1], b_itc = [Some 1],
            b_spectrumV = [[3 / 5, 4 / 5]],
            b_plvV = [[1 / complex_of_real (sqrt 2), 1 / complex_of_real (sqrt 2)]],
            b_itcV = [[1 / complex_of_real (sqrt 2), 1 / complex_of_real (sqrt 2)]]\<rparr>"


section \<open>Properties of the rounding\<close>


lemma rne_of_int: "rne (of_int k) = k"
  by (simp add: rne_def)

lemma two_powi_pos: "0 < (2 :: real) powi e"
  by (simp add: zero_less_power_int)

lemma floor_log2_bounds:
  assumes "x \<noteq> 0"
  shows "2 powi \<lfloor>log 2 \<bar>x\<bar>\<rfloor> \<le> \<bar>x\<bar>" and "\<bar>x\<bar> < 2 powi (\<lfloor>log 2 \<bar>x\<bar>\<rfloor> + 1)"
proof -
  have p: "0 < \<bar>x\<bar>" using assms by simp
  have "2 powr real_of_int \<lfloor>log 2 \<bar>x\<bar>\<rfloor> \<le> \<bar>x\<bar>
        \<and> \<bar>x\<bar> < 2 powr (real_of_int \<lfloor>log 2 \<bar>x\<bar>\<rfloor> + 1)"
    using floor_log_eq_powr_iff[of "\<bar>x\<bar>" 2 "\<lfloor>log 2 \<bar>x\<bar>\<rfloor>"] p by simp
  then show "2 powi \<lfloor>log 2 \<bar>x\<bar>\<rfloor> \<le> \<bar>x\<bar>" and "\<bar>x\<bar> < 2 powi (\<lfloor>log 2 \<bar>x\<bar>\<rfloor> + 1)"
    using powr_real_of_int'[of 2 "\<lfloor>log 2 \<bar>x\<bar>\<rfloor>"] powr_real_of_int'[of 2 "\<lfloor>log 2 \<bar>x\<bar>\<rfloor> + 1"]
    by simp_all
qed

lemma floor_log2_unique:
  assumes "2 powi k \<le> \<bar>x\<bar>" "\<bar>x\<bar> < 2 powi (k + 1)"
  shows "\<lfloor>log 2 \<bar>x\<bar>\<rfloor> = k"
proof -
  have p: "0 < \<bar>x\<bar>" using assms(1) two_powi_pos[of k] by linarith
  have "2 powr real_of_int k \<le> \<bar>x\<bar> \<and> \<bar>x\<bar> < 2 powr (real_of_int k + 1)"
    using assms powr_real_of_int'[of 2 k] powr_real_of_int'[of 2 "k + 1"] by simp
  then show ?thesis using floor_log_eq_powr_iff[of "\<bar>x\<bar>" 2 k] p by simp
qed

lemma fl64_at:
  assumes "2 ^ 52 \<le> \<bar>x\<bar> / 2 powi e" "\<bar>x\<bar> / 2 powi e < 2 ^ 53"
  shows "fl64 x = of_int (rne (x / 2 powi e)) * 2 powi e"
proof -
  have pe: "0 < (2 :: real) powi e" by (rule two_powi_pos)
  have a: "2 powi (e + 52) \<le> \<bar>x\<bar>"
  proof -
    have "2 ^ 52 * 2 powi e \<le> \<bar>x\<bar>" using assms(1) pe by (simp add: pos_le_divide_eq)
    then show ?thesis by (simp add: power_int_add mult.commute)
  qed
  have b: "\<bar>x\<bar> < 2 powi (e + 52 + 1)"
  proof -
    have "\<bar>x\<bar> < 2 ^ 53 * 2 powi e" using assms(2) pe by (simp add: pos_divide_less_eq)
    moreover have "(2 :: real) powi (e + 52 + 1) = 2 ^ 53 * 2 powi e"
      by (simp add: power_int_add)
    ultimately show ?thesis by simp
  qed
  have "0 < \<bar>x\<bar>" using a two_powi_pos[of "e + 52"] by linarith
  then have x: "x \<noteq> 0" by simp
  have "\<lfloor>log 2 \<bar>x\<bar>\<rfloor> = e + 52" by (rule floor_log2_unique[OF a b])
  then show ?thesis using x by (simp add: fl64_def Let_def)
qed

lemma fl64_up:
  assumes "2 ^ 52 \<le> \<bar>x\<bar> * 2 ^ k" "\<bar>x\<bar> * 2 ^ k < 2 ^ 53"
  shows "fl64 x = of_int (rne (x * 2 ^ k)) / 2 ^ k"
  using fl64_at[of x "- int k"] assms by (simp add: power_int_minus field_simps)

lemma fl64_down:
  assumes "2 ^ 52 \<le> \<bar>x\<bar> / 2 ^ k" "\<bar>x\<bar> / 2 ^ k < 2 ^ 53"
  shows "fl64 x = of_int (rne (x / 2 ^ k)) * 2 ^ k"
  using fl64_at[of x "int k"] assms by simp


lemma fl64_zero: "fl64 0 = 0"
  by (simp add: fl64_def)



lemma fl64_1: "fl64 1 = 1"
  using fl64_up[of 1 52] by (simp add: rne_def)

lemma fl64_quarter: "fl64 (1 / 4) = 1 / 4"
  using fl64_up[of "1 / 4" 54] by (simp add: rne_def)

lemma fl64_2: "fl64 2 = 2" and fl64_m2: "fl64 (- 2) = - 2"
  using fl64_up[of 2 51] fl64_up[of "- 2" 51] by (simp_all add: rne_def)



text \<open>Rounding is odd, keeps the sign, and keeps every dyadic number of at most 53 bits.\<close>

lemma rne_minus: "rne (- x) = - rne x"
proof (cases "x \<in> \<int>")
  case True
  then obtain k where "x = of_int k" by (auto elim: Ints_cases)
  then show ?thesis using rne_of_int[of k] rne_of_int[of "- k"] by simp
next
  case False
  have "x \<noteq> of_int \<lfloor>x\<rfloor>" using False by (metis Ints_of_int)
  then have lo: "of_int \<lfloor>x\<rfloor> < x" using of_int_floor_le[of x] by linarith
  have hi: "x < of_int \<lfloor>x\<rfloor> + 1" by linarith
  have "real_of_int (- \<lfloor>x\<rfloor> - 1) \<le> - x"
    unfolding of_int_diff of_int_minus of_int_1 using hi by linarith
  moreover have "- x < real_of_int (- \<lfloor>x\<rfloor> - 1) + 1"
    unfolding of_int_diff of_int_minus of_int_1 using lo by linarith
  ultimately have f: "\<lfloor>- x\<rfloor> = - \<lfloor>x\<rfloor> - 1" by (rule floor_unique)
  show ?thesis unfolding rne_def Let_def f by (auto simp: algebra_simps)
qed

lemma rne_nonneg: "0 \<le> x \<Longrightarrow> 0 \<le> rne x"
  unfolding rne_def Let_def by auto

lemma fl64_minus: "fl64 (- x) = - fl64 x"
  by (simp add: fl64_def Let_def rne_minus)

lemma fl64_nonneg: "0 \<le> x \<Longrightarrow> 0 \<le> fl64 x"
  unfolding fl64_def Let_def using rne_nonneg[of "x / 2 powi (\<lfloor>log 2 \<bar>x\<bar>\<rfloor> - 52)"] two_powi_pos
  by (auto simp: less_imp_le)

lemma fl64_dyadic_up:
  assumes "m \<noteq> 0" "\<bar>m\<bar> < 2 ^ 53"
  shows "fl64 (of_int m / 2 ^ k) = of_int m / 2 ^ k"
proof -
  define x :: real where "x = of_int m / 2 ^ k"
  have x0: "x \<noteq> 0" using assms(1) by (simp add: x_def)
  define l where "l = \<lfloor>log 2 \<bar>x\<bar>\<rfloor>"
  have lo: "2 powi l \<le> \<bar>x\<bar>" unfolding l_def by (rule floor_log2_bounds(1)[OF x0])
  have "(of_int \<bar>m\<bar> :: real) < of_int (2 ^ 53)" using assms(2) by (simp only: of_int_less_iff)
  then have am: "\<bar>real_of_int m\<bar> < 2 ^ 53" by simp
  have "\<bar>x\<bar> = \<bar>real_of_int m\<bar> / 2 ^ k" by (simp add: x_def)
  also have "\<dots> < 2 ^ 53 / 2 ^ k" using am by (simp add: divide_strict_right_mono)
  also have "\<dots> = 2 powi (53 - int k)" by (simp add: power_int_diff)
  finally have "(2 :: real) powi l < 2 powi (53 - int k)" using lo by simp
  then have "l < 53 - int k" using power_int_increasing[of "53 - int k" l "2 :: real"] by (cases "l < 53 - int k") auto
  then have "0 \<le> 52 - l - int k" by simp
  define j where "j = nat (52 - l - int k)"
  have e: "l - 52 = - int (j + k)" using \<open>0 \<le> 52 - l - int k\<close> by (simp add: j_def)
  have "(2 :: real) powi (- int (j + k)) = inverse (2 powi int (j + k))" by (rule power_int_minus)
  then have p: "(2 :: real) powi (l - 52) = 1 / 2 ^ (j + k)"
    unfolding e power_int_of_nat by (simp only: inverse_eq_divide)
  have "x / 2 powi (l - 52) = of_int (m * 2 ^ j)" unfolding p x_def by (simp add: power_add)
  then have "rne (x / 2 powi (l - 52)) = m * 2 ^ j" by (simp only: rne_of_int)
  then have "fl64 x = of_int (m * 2 ^ j) * (1 / 2 ^ (j + k))"
    using x0 by (simp add: fl64_def Let_def l_def[symmetric] p)
  then show ?thesis unfolding x_def by (simp add: power_add)
qed

lemma fl64_dyadic: "\<bar>m\<bar> < 2 ^ 53 \<Longrightarrow> fl64 (of_int m / 2 ^ k) = of_int m / 2 ^ k"
  using fl64_dyadic_up[of m k] by (cases "m = 0") (simp_all add: fl64_zero)

lemma fl64_of_int: "\<bar>m\<bar> < 2 ^ 53 \<Longrightarrow> fl64 (of_int m) = of_int m"
  using fl64_dyadic[of m 0] by simp

lemma fl64_numeral:
  "numeral w < (2 ^ 53 :: int) \<Longrightarrow> fl64 (numeral w) = numeral w"
  "numeral w < (2 ^ 53 :: int) \<Longrightarrow> fl64 (- numeral w) = - numeral w"
  using fl64_of_int[of "numeral w"] fl64_of_int[of "- numeral w"] by simp_all

text \<open>The rounded square root, from a bracket of the radicand.\<close>

lemma fl64_sqrt:
  assumes m: "2 ^ 52 < m" "m < 2 ^ 53"
    and lo: "(of_int m - 1 / 2)\<^sup>2 < y * 4 ^ k" and hi: "y * 4 ^ k < (of_int m + 1 / 2)\<^sup>2"
  shows "fl64 (sqrt y) = of_int m / 2 ^ k"
proof -
  have mr: "(2 :: real) ^ 52 < of_int m" "real_of_int m < 2 ^ 53"
    using m of_int_less_iff[of "2 ^ 52" m, where ?'a = real] of_int_less_iff[of m "2 ^ 53", where ?'a = real]
    by simp_all
  have mp: "0 \<le> real_of_int m - 1 / 2" using mr by simp
  have s: "sqrt (y * 4 ^ k) = sqrt y * 2 ^ k"
    using real_sqrt_power[of 4 k] by (simp add: real_sqrt_mult)
  have a: "real_of_int m - 1 / 2 < sqrt y * 2 ^ k"
    using real_sqrt_less_mono[OF lo] mp unfolding s by simp
  have b: "sqrt y * 2 ^ k < real_of_int m + 1 / 2"
    using real_sqrt_less_mono[OF hi] mp unfolding s by simp
  have r: "rne (sqrt y * 2 ^ k) = m"
  proof -
    consider "sqrt y * 2 ^ k < of_int m" | "of_int m \<le> sqrt y * 2 ^ k" by linarith
    then show ?thesis
    proof cases
      case 1
      then have "\<lfloor>sqrt y * 2 ^ k\<rfloor> = m - 1" using a by (intro floor_unique) simp_all
      then show ?thesis using a 1 by (simp add: rne_def Let_def)
    next
      case 2
      then have "\<lfloor>sqrt y * 2 ^ k\<rfloor> = m" using b by (intro floor_unique) simp_all
      then show ?thesis using b 2 by (simp add: rne_def Let_def)
    qed
  qed
  have p: "0 \<le> sqrt y * 2 ^ k" using a mp by linarith
  have "0 < sqrt y * 2 ^ k" using a mp by linarith
  then have "0 < sqrt y" by (rule zero_less_mult_pos2) simp
  then have "0 \<le> sqrt y" by simp
  then have ab: "\<bar>sqrt y\<bar> * 2 ^ k = sqrt y * 2 ^ k" by simp
  have g1: "2 ^ 52 \<le> \<bar>sqrt y\<bar> * 2 ^ k" unfolding ab using a mr
  proof -
    have "(2 :: real) ^ 52 + 1 \<le> of_int m"
      using m(1) of_int_le_iff[of "2 ^ 52 + 1" m, where ?'a = real] by simp
    then show "2 ^ 52 \<le> sqrt y * 2 ^ k" using a by linarith
  qed
  have g2: "\<bar>sqrt y\<bar> * 2 ^ k < 2 ^ 53" unfolding ab
  proof -
    have "real_of_int m + 1 \<le> 2 ^ 53"
      using m(2) of_int_le_iff[of "m + 1" "2 ^ 53", where ?'a = real] by simp
    then show "sqrt y * 2 ^ k < 2 ^ 53" using b by linarith
  qed
  show ?thesis using fl64_up[OF g1 g2] r by simp
qed
section \<open>The frequency grid\<close>

lemma length_fftfreq: "length (fftfreq n d) = n"
  by (simp add: fftfreq_def)

lemma maxIdx_eq: "maxIdx n = n div 2 + 1"
  unfolding maxIdx_def by presburger

lemma fftfreq_nth_lo:
  assumes "i < n" "i < (n - 1) div 2 + 1"
  shows "fftfreq n d ! i = fl64 (real i * fl64 (1 / fl64 (real n * d)))"
  using assms unfolding fftfreq_def by (simp del: upt_Suc)

lemma fftfreq_nth_hi:
  assumes "i < n" "\<not> i < (n - 1) div 2 + 1"
  shows "fftfreq n d ! i = fl64 (real_of_int (int i - int n) * fl64 (1 / fl64 (real n * d)))"
  using assms unfolding fftfreq_def by (simp del: upt_Suc)

lemma full_freqs_nth_abs:
  assumes "0 < n" "i < n div 2 + 1"
  shows "full_freqs n fs ! i = \<bar>fftfreq n (fl64 (1 / fs)) ! i\<bar>"
proof -
  have le: "n div 2 + 1 \<le> n" using assms(1) by presburger
  then have iln: "i < n" using assms(2) by linarith
  show ?thesis using assms(2) iln by (simp add: full_freqs_def maxIdx_eq length_fftfreq)
qed

lemma full_freqs_nth_lo:
  assumes "0 < n" "i < (n - 1) div 2 + 1"
  shows "full_freqs n fs ! i = \<bar>fl64 (real i * fl64 (1 / fl64 (real n * fl64 (1 / fs))))\<bar>"
proof -
  have i2: "i < n div 2 + 1" using assms by presburger
  have "n div 2 + 1 \<le> n" using assms(1) by presburger
  then have iln: "i < n" using i2 by linarith
  show ?thesis
    unfolding full_freqs_nth_abs[OF assms(1) i2] fftfreq_nth_lo[OF iln assms(2)] by (rule refl)
qed

lemma nyquist_bin:
  assumes "0 < n" "even n"
  shows "fftfreq n d ! (n div 2) = fl64 (- real (n div 2) * fl64 (1 / fl64 (real n * d)))"
proof -
  have a: "n div 2 < n" using assms by presburger
  have b: "\<not> n div 2 < (n - 1) div 2 + 1" using assms by presburger
  have "2 * (n div 2) = n" using assms by presburger
  then have "real n = 2 * real (n div 2)" by (metis of_nat_mult of_nat_numeral)
  then have e: "real_of_int (int (n div 2) - int n) = - real (n div 2)" by simp
  show ?thesis unfolding fftfreq_nth_hi[OF a b] e by (rule refl)
qed

lemma full_freqs_nth_hi:
  assumes "0 < n" "even n"
  shows "full_freqs n fs ! (n div 2) = \<bar>fl64 (- real (n div 2) * fl64 (1 / fl64 (real n * fl64 (1 / fs))))\<bar>"
  unfolding full_freqs_nth_abs[OF assms(1), of "n div 2", simplified] nyquist_bin[OF assms]
  by (rule refl)



lemma length_full_freqs: "0 < n \<Longrightarrow> length (full_freqs n fs) = n div 2 + 1"
proof -
  assume "0 < n"
  then have "n div 2 + 1 \<le> n" by presburger
  then show ?thesis by (simp add: full_freqs_def maxIdx_eq length_fftfreq)
qed



lemma bool_index_map: "bool_index (map P xs) xs = filter P xs"
  by (induction xs) (simp_all add: bool_index_def)


lemma get_freq_vector_InrD:
  assumes "get_freq_vector nt p = Inr (n, f, fInd)"
  shows "0 < n \<and> Fs p \<noteq> 0
         \<and> f = filter (\<lambda>v. fst (fpass p) \<le> v \<and> v \<le> snd (fpass p)) (full_freqs n (Fs p))
         \<and> fInd = map (\<lambda>v. fst (fpass p) \<le> v \<and> v \<le> snd (fpass p)) (full_freqs n (Fs p))"
  using assms
  by (auto simp: get_freq_vector_def Let_def bool_index_map split: sum.splits if_splits)

lemma length_fInd:
  "get_freq_vector nt p = Inr (n, f, fInd) \<Longrightarrow> length fInd = n div 2 + 1"
  using get_freq_vector_InrD[of nt p n f fInd] by (simp add: length_full_freqs)


lemma full_freqs_4:
  "full_freqs 4 fs = [\<bar>fl64 (real 0 * fl64 (1 / fl64 (real 4 * fl64 (1 / fs))))\<bar>,
                      \<bar>fl64 (real 1 * fl64 (1 / fl64 (real 4 * fl64 (1 / fs))))\<bar>,
                      \<bar>fl64 (- real (4 div 2) * fl64 (1 / fl64 (real 4 * fl64 (1 / fs))))\<bar>]"
proof (rule nth_equalityI)
  show "length (full_freqs 4 fs)
        = length [\<bar>fl64 (real 0 * fl64 (1 / fl64 (real 4 * fl64 (1 / fs))))\<bar>,
                      \<bar>fl64 (real 1 * fl64 (1 / fl64 (real 4 * fl64 (1 / fs))))\<bar>,
                      \<bar>fl64 (- real (4 div 2) * fl64 (1 / fl64 (real 4 * fl64 (1 / fs))))\<bar>]"
    by (simp add: length_full_freqs)
next
  fix i assume "i < length (full_freqs 4 fs)"
  then have "i < 3" by (simp add: length_full_freqs)
  then consider "i = 0" | "i = 1" | "i = 2" by linarith
  then show "full_freqs 4 fs ! i
        = [\<bar>fl64 (real 0 * fl64 (1 / fl64 (real 4 * fl64 (1 / fs))))\<bar>,
                      \<bar>fl64 (real 1 * fl64 (1 / fl64 (real 4 * fl64 (1 / fs))))\<bar>,
                      \<bar>fl64 (- real (4 div 2) * fl64 (1 / fl64 (real 4 * fl64 (1 / fs))))\<bar>] ! i"
  proof cases
    case 1
    show ?thesis unfolding 1 using full_freqs_nth_lo[of 4 0 fs] by simp
  next
    case 2
    show ?thesis unfolding 2 using full_freqs_nth_lo[of 4 1 fs] by simp
  next
    case 3
    show ?thesis unfolding 3 using full_freqs_nth_hi[of 4 fs] by simp
  qed
qed

lemma full_freqs_4_4: "full_freqs 4 4 = [0, 1, 2]"
  unfolding full_freqs_4 by (simp add: fl64_quarter fl64_1 fl64_zero fl64_m2)







section \<open>Rank dispatch of the estimators\<close>

lemma shape_squeeze: "shape (squeeze x) = filter (\<lambda>d. d \<noteq> 1) (shape x)"
  and flat_squeeze: "flat (squeeze x) = flat x"
  by (simp_all add: squeeze_def)

lemma squeeze_idem: "squeeze (squeeze x) = squeeze x"
  by (simp add: squeeze_def)

lemma per_channel_layout_squeeze: "per_channel_layout (squeeze x) = per_channel_layout x"
  by (simp add: per_channel_layout_def squeeze_idem flat_squeeze split: list.splits)

lemma cpca_layout_squeeze: "cpca_layout (squeeze x) = cpca_layout x"
  by (simp add: cpca_layout_def squeeze_idem flat_squeeze split: list.splits)

lemma single_channel_layout:
  assumes "shape x = [1, t, n]" "t \<noteq> 1" "n \<noteq> 1"
  shows "per_channel_layout x =
           Inr \<lparr>timedim = 1, trialdim = 0, nchans = 1, ntrials = t, ntime = n,
                chans = [rows t n (flat x)]\<rparr>"
    and "per_channel_layout x = per_channel_layout \<lparr>shape = [t, n], flat = flat x\<rparr>"
    and "cpca_layout x = Inl UnboundLocalError"
  using assms by (simp_all add: per_channel_layout_def cpca_layout_def shape_squeeze)

text \<open>
  Claim C10, as amended. Every estimator sees its input only through \<open>x.squeeze()\<close>.
  A three-dimensional input whose channel axis has length one, and whose trial and time
  axes have lengths other than one, is laid out as two-dimensional single-channel data;
  the per-channel estimators return on it what they return on the two-dimensional array,
  and the four cPCA estimators fail in their shape branch.
\<close>

theorem squeeze_before_dispatch:
  "mtplv d (squeeze x) p = mtplv d x p
   \<and> mtspec d rs (squeeze x) p = mtspec d rs x p
   \<and> mtphase d (squeeze x) p = mtphase d x p
   \<and> mtppc d ri (squeeze x) p = mtppc d ri x p
   \<and> mtspecraw d (squeeze x) p = mtspecraw d x p
   \<and> mtpspec d ri (squeeze x) p = mtpspec d ri x p
   \<and> mtcpca d eigh (squeeze x) p = mtcpca d eigh x p
   \<and> mtcspec d eigh (squeeze x) p = mtcspec d eigh x p
   \<and> mtcpca_timeDomain d eigh eighr (squeeze x) p = mtcpca_timeDomain d eigh eighr x p
   \<and> mtcpca_all d eigh (squeeze x) p = mtcpca_all d eigh x p
   \<and> (shape x = [1, t, n] \<and> t \<noteq> 1 \<and> n \<noteq> 1 \<longrightarrow>
        per_channel_layout x =
           Inr \<lparr>timedim = 1, trialdim = 0, nchans = 1, ntrials = t, ntime = n,
                chans = [rows t n (flat x)]\<rparr>
      \<and> mtplv d x p = mtplv d \<lparr>shape = [t, n], flat = flat x\<rparr> p
      \<and> mtspec d rs x p = mtspec d rs \<lparr>shape = [t, n], flat = flat x\<rparr> p
      \<and> mtphase d x p = mtphase d \<lparr>shape = [t, n], flat = flat x\<rparr> p
      \<and> mtppc d ri x p = mtppc d ri \<lparr>shape = [t, n], flat = flat x\<rparr> p
      \<and> mtspecraw d x p = mtspecraw d \<lparr>shape = [t, n], flat = flat x\<rparr> p
      \<and> mtpspec d ri x p = mtpspec d ri \<lparr>shape = [t, n], flat = flat x\<rparr> p
      \<and> mtcpca d eigh x p = Inl UnboundLocalError
      \<and> mtcspec d eigh x p = Inl UnboundLocalError
      \<and> mtcpca_timeDomain d eigh eighr x p = Inl UnboundLocalError
      \<and> mtcpca_all d eigh x p = Inl UnboundLocalError)"
proof -
  have sq: "mtplv d (squeeze x) p = mtplv d x p"
    "mtspec d rs (squeeze x) p = mtspec d rs x p"
    "mtphase d (squeeze x) p = mtphase d x p"
    "mtppc d ri (squeeze x) p = mtppc d ri x p"
    "mtspecraw d (squeeze x) p = mtspecraw d x p"
    "mtpspec d ri (squeeze x) p = mtpspec d ri x p"
    unfolding mtplv_def mtspec_def mtphase_def mtppc_def mtspecraw_def mtpspec_def
      per_channel_layout_squeeze by (rule refl)+
  have sqc: "mtcpca d eigh (squeeze x) p = mtcpca d eigh x p"
    "mtcspec d eigh (squeeze x) p = mtcspec d eigh x p"
    "mtcpca_timeDomain d eigh eighr (squeeze x) p = mtcpca_timeDomain d eigh eighr x p"
    "mtcpca_all d eigh (squeeze x) p = mtcpca_all d eigh x p"
    unfolding mtcpca_def mtcspec_def mtcpca_timeDomain_def mtcpca_all_def
      cpca_layout_squeeze by (rule refl)+
  have one: "per_channel_layout x =
           Inr \<lparr>timedim = 1, trialdim = 0, nchans = 1, ntrials = t, ntime = n,
                chans = [rows t n (flat x)]\<rparr>
      \<and> mtplv d x p = mtplv d \<lparr>shape = [t, n], flat = flat x\<rparr> p
      \<and> mtspec d rs x p = mtspec d rs \<lparr>shape = [t, n], flat = flat x\<rparr> p
      \<and> mtphase d x p = mtphase d \<lparr>shape = [t, n], flat = flat x\<rparr> p
      \<and> mtppc d ri x p = mtppc d ri \<lparr>shape = [t, n], flat = flat x\<rparr> p
      \<and> mtspecraw d x p = mtspecraw d \<lparr>shape = [t, n], flat = flat x\<rparr> p
      \<and> mtpspec d ri x p = mtpspec d ri \<lparr>shape = [t, n], flat = flat x\<rparr> p
      \<and> mtcpca d eigh x p = Inl UnboundLocalError
      \<and> mtcspec d eigh x p = Inl UnboundLocalError
      \<and> mtcpca_timeDomain d eigh eighr x p = Inl UnboundLocalError
      \<and> mtcpca_all d eigh x p = Inl UnboundLocalError"
    if h: "shape x = [1, t, n] \<and> t \<noteq> 1 \<and> n \<noteq> 1"
  proof -
    note l = single_channel_layout[of x t n]
    have a: "per_channel_layout x = per_channel_layout \<lparr>shape = [t, n], flat = flat x\<rparr>"
      using h l(2) by blast
    have c: "cpca_layout x = Inl UnboundLocalError" using h l(3) by blast
    have per: "mtplv d x p = mtplv d \<lparr>shape = [t, n], flat = flat x\<rparr> p"
      "mtspec d rs x p = mtspec d rs \<lparr>shape = [t, n], flat = flat x\<rparr> p"
      "mtphase d x p = mtphase d \<lparr>shape = [t, n], flat = flat x\<rparr> p"
      "mtppc d ri x p = mtppc d ri \<lparr>shape = [t, n], flat = flat x\<rparr> p"
      "mtspecraw d x p = mtspecraw d \<lparr>shape = [t, n], flat = flat x\<rparr> p"
      "mtpspec d ri x p = mtpspec d ri \<lparr>shape = [t, n], flat = flat x\<rparr> p"
      unfolding mtplv_def mtspec_def mtphase_def mtppc_def mtspecraw_def mtpspec_def a
      by (rule refl)+
    have cp: "mtcpca d eigh x p = Inl UnboundLocalError"
      "mtcspec d eigh x p = Inl UnboundLocalError"
      "mtcpca_timeDomain d eigh eighr x p = Inl UnboundLocalError"
      "mtcpca_all d eigh x p = Inl UnboundLocalError"
      unfolding mtcpca_def mtcspec_def mtcpca_timeDomain_def mtcpca_all_def c by simp_all
    show ?thesis using h l(1) per cp by blast
  qed
  show ?thesis using sq sqc one by blast
qed

theorem squeeze_before_dispatch_witness:
  "shape \<lparr>shape = [1, 2, 2], flat = [1, 2, 3, 4 :: real]\<rparr> = [1, 2, 2]
   \<and> per_channel_layout \<lparr>shape = [1, 2, 2], flat = [1, 2, 3, 4]\<rparr> =
         Inr \<lparr>timedim = 1, trialdim = 0, nchans = 1, ntrials = 2, ntime = 2,
              chans = [rows 2 2 [1, 2, 3, 4]]\<rparr>
   \<and> mtplv ex_dpss \<lparr>shape = [1, 2, 2], flat = [1, 2, 3, 4]\<rparr> ex_params =
       mtplv ex_dpss \<lparr>shape = [2, 2], flat = [1, 2, 3, 4]\<rparr> ex_params
   \<and> mtcpca ex_dpss eigh_exact \<lparr>shape = [1, 2, 2], flat = [1, 2, 3, 4]\<rparr> ex_params =
       Inl UnboundLocalError"
  using squeeze_before_dispatch[of ex_dpss "\<lparr>shape = [1, 2, 2], flat = [1, 2, 3, 4]\<rparr>"
      ex_params "\<lambda>k. []" "\<lambda>k. []" eigh_exact "\<lambda>M. ([], [])" 2 2]
  by simp

text \<open>
  Claim C10 as stated fails when the trial axis has length one as well: the squeezed
  array is one-dimensional and the per-channel estimator fails in its shape branch.
\<close>

theorem single_trial_counterexample:
  "per_channel_layout \<lparr>shape = [1, 1, 2], flat = [1, 2]\<rparr> = Inl UnboundLocalError
   \<and> mtplv ex_dpss \<lparr>shape = [1, 1, 2], flat = [1, 2]\<rparr> ex_params = Inl UnboundLocalError"
  by (simp add: mtplv_def per_channel_layout_def squeeze_def)

section \<open>The spectrum of a cross-spectral matrix\<close>














lemma neg_index_last: "xs \<noteq> [] \<Longrightarrow> neg_index xs (Suc 0) = Inr (last xs)"
  by (cases xs rule: rev_cases) (simp_all add: neg_index_def)


lemma Re_mult_cnj: "Re (a * cnj a) = (cmod a)\<^sup>2"
  unfolding cmod_power2 by (simp add: power2_eq_square)

lemma csd_2: "csd [a, b] = [[a * cnj a, a * cnj b], [b * cnj a, b * cnj b]]"
  by (simp add: csd_def outer_def)

lemma fst_eigh_exact: "fst (eigh_exact [[p, q], [q', r]]) = [0, Re p + Re r]"
  by (simp add: eigh_exact_def Let_def)

lemma eigh_exact_vals: "fst (eigh_exact (csd [a, b])) = [0, norm2 [a, b]]"
  unfolding csd_2 fst_eigh_exact Re_mult_cnj norm2_def by simp




section \<open>Bounds on the phase-locking statistics\<close>

subsection \<open>Means\<close>

lemma those_map_Some: "those (map Some xs) = Some xs"
  by (induction xs) simp_all

lemma those_Some_iff:
  "those xs = Some ys \<longleftrightarrow> xs = map Some ys"
proof (induction xs arbitrary: ys)
  case Nil
  then show ?case by auto
next
  case (Cons x xs)
  then show ?case by (cases x) (auto split: option.splits)
qed

lemma those_None_iff: "those xs = None \<longleftrightarrow> None \<in> set xs"
proof (induction xs)
  case Nil
  then show ?case by simp
next
  case (Cons x xs)
  then show ?case by (cases x) (auto split: option.splits)
qed



lemma fmean_None_iff: "fmean xs = None \<longleftrightarrow> xs = [] \<or> None \<in> set xs"
  by (auto simp: fmean_def those_None_iff those_Some_iff split: option.splits)




subsection \<open>The phase-locking statistics\<close>


lemma unit_phase_None_iff: "unit_phase x = None \<longleftrightarrow> x = 0"
  by (simp add: unit_phase_def fdiv_def)


lemma plv_stat_conv: "plv_stat xs = map_option (\<lambda>m. (cmod m)\<^sup>2) (plv_coef xs)"
  by (simp add: plv_stat_def plv_coef_def)


lemma None_in_unit_phase: "None \<in> set (map unit_phase xs) \<longleftrightarrow> 0 \<in> set xs"
  by (induction xs) (auto simp: unit_phase_def fdiv_def)

lemma plv_stat_None_iff: "plv_stat xs = None \<longleftrightarrow> xs = [] \<or> 0 \<in> set xs"
  unfolding plv_stat_def by (simp add: fmean_None_iff None_in_unit_phase del: set_map)










lemma length_rows: "length (rows r n xs) = r"
  by (simp add: rows_def)

lemma per_channel_layout_chans:
  "per_channel_layout x = Inr L \<Longrightarrow> length (chans L) = nchans L"
  by (auto simp: per_channel_layout_def length_rows split: list.splits)

lemma cpca_layout_chans:
  "cpca_layout x = Inr L \<Longrightarrow> length (chans L) = nchans L"
  by (auto simp: cpca_layout_def length_rows split: list.splits)

lemma length_taper_rfft: "length (taper_rfft n tap X) = length X"
  by (simp add: taper_rfft_def)


lemma over_trials_nth:
  "fi < nb \<Longrightarrow> over_trials nb g T ! fi = g (map (\<lambda>tr. tr ! fi) T)"
  by (simp add: over_trials_def del: upt_Suc)


lemma set_over_trials: "v \<in> set (over_trials nb g T) \<Longrightarrow> \<exists>xs. v = g xs"
  by (auto simp: over_trials_def)





lemma mapE_Inr:
  "mapE g xs = Inr ys \<Longrightarrow> length ys = length xs \<and> (\<forall>i < length xs. g (xs ! i) = Inr (ys ! i))"
proof (induction xs arbitrary: ys)
  case Nil
  then show ?case by simp
next
  case (Cons x xs)
  from Cons.prems obtain y ys' where y: "g x = Inr y" and ys': "mapE g xs = Inr ys'"
    and ys: "ys = y # ys'"
    by (auto split: sum.splits)
  from Cons.IH[OF ys'] y show ?case unfolding ys by (auto simp: nth_Cons split: nat.splits)
qed







section \<open>Indexing masked and concatenated lists\<close>

lemma bool_index_Cons:
  "bool_index (b # m) (x # xs) = (if b then x # bool_index m xs else bool_index m xs)"
  by (simp add: bool_index_def)

lemma bool_index_nth:
  assumes "length xs = length m" "fi < length m" "m ! fi"
  shows "length (filter (\<lambda>b. b) (take fi m)) < length (bool_index m xs)
         \<and> bool_index m xs ! length (filter (\<lambda>b. b) (take fi m)) = xs ! fi"
  using assms
proof (induction xs arbitrary: m fi)
  case Nil
  then show ?case by simp
next
  case (Cons x xs)
  then obtain b m' where m: "m = b # m'" by (cases m) auto
  show ?case
  proof (cases fi)
    case 0
    then show ?thesis using Cons.prems unfolding m by (simp add: bool_index_def)
  next
    case (Suc fj)
    from Cons.prems have "length xs = length m'" "fj < length m'" "m' ! fj"
      unfolding m Suc by simp_all
    from Cons.IH[OF this] show ?thesis unfolding m Suc by (simp add: bool_index_Cons)
  qed
qed

lemma concat_nth_uniform:
  assumes "\<forall>r \<in> set R. length r = w" "c < length R" "j < w"
  shows "concat R ! (c * w + j) = R ! c ! j"
  using assms
proof (induction R arbitrary: c)
  case Nil
  then show ?case by simp
next
  case (Cons r R)
  show ?case
  proof (cases c)
    case 0
    then show ?thesis using Cons.prems by (simp add: nth_append)
  next
    case (Suc c')
    have "concat R ! (c' * w + j) = R ! c' ! j"
      using Cons.prems Suc by (intro Cons.IH) simp_all
    moreover have "length r = w" using Cons.prems by simp
    ultimately show ?thesis unfolding Suc by (simp add: nth_append)
  qed
qed

lemma length_concat_uniform:
  "\<forall>r \<in> set R. length r = w \<Longrightarrow> length (concat R) = length R * w"
  by (induction R) simp_all

lemma concat_upt_nth:
  assumes "\<forall>i < m. length (g i) = w" "i < m" "j < w"
  shows "concat (map g [0..<m]) ! (i * w + j) = g i ! j"
  using concat_nth_uniform[of "map g [0..<m]" w i j] assms by simp

lemma index_bound:
  fixes i j m w :: nat
  assumes "i < m" "j < w"
  shows "i * w + j < m * w"
proof -
  have "i * w + j < i * w + w" using assms(2) by simp
  also have "\<dots> = (i + 1) * w" by simp
  also have "\<dots> \<le> m * w" using assms(1) by (intro mult_le_mono1) simp
  finally show ?thesis .
qed


section \<open>Evaluating the estimators on the example inputs\<close>

lemma upt_4: "[0..<4] = [0, 1, 2, 3]" by (simp add: upt_rec)
lemma upt_3: "[0..<3] = [0, 1, 2]" by (simp add: upt_rec)
lemma upt_2: "[0..<2] = [0, 1]" by (simp add: upt_rec)

lemma cis_minus_pi: "cis (- pi) = - 1"
  using cis_cnj[of pi] by simp

lemma rfft_4_pair:
  "rfft 4 [a, b] = [complex_of_real a + complex_of_real b,
                    complex_of_real a - \<i> * complex_of_real b,
                    complex_of_real a - complex_of_real b]"
proof -
  have c1: "cis (- (2 * pi / 4)) = - \<i>"
    using cis_minus_pi_half by (simp add: field_simps)
  show ?thesis
    by (simp add: rfft_def Let_def upt_4 upt_3 c1 cis_minus_pi nth_append)
qed

lemma ex_freq_vector2: "get_freq_vector 2 ex_params = Inr (4, [1, 2], [False, True, True])"
  by (simp add: get_freq_vector_def ex_params_def Let_def full_freqs_4_4 bool_index_def)

lemma rows_2_2: "rows 2 2 [a, b, c, d] = [[a, b], [c, d]]"
  by (simp add: rows_def upt_2)

lemma ex_windows: "ntime L = 2 \<Longrightarrow> windows ex_dpss L ex_params = [[1, 1]]"
  by (simp add: windows_def ex_dpss_def ex_params_def numeral_2_eq_2)

lemma taper_rfft_ones: "taper_rfft n [1, 1] [[[a, b], [c, d]]] = [[rfft n [a, b], rfft n [c, d]]]"
  by (simp add: taper_rfft_def)

lemma over_trials_3:
  "over_trials 3 g [r, s] = [g [r ! 0, s ! 0], g [r ! 1, s ! 1], g [r ! 2, s ! 2]]"
  by (simp add: over_trials_def upt_3)

lemma mean_tapers_1_3:
  "mean_tapers (Suc 0) 3 [S] = [[fmean [S ! 0 ! 0], fmean [S ! 0 ! 1], fmean [S ! 0 ! 2]]]"
  by (simp add: mean_tapers_def upt_3)

lemma fmean_single: "fmean [v] = v"
  by (cases v) (simp_all add: fmean_def)

lemma bool_index_ex: "bool_index [False, True, True] [a, b, c] = [b, c]"
  by (simp add: bool_index_def)


lemma mtplv_eval:
  assumes "per_channel_layout x = Inr L"
    and "get_freq_vector (ntime L) p = Inr (n, f, fInd)"
    and "length fInd = nb"
    and "mtplv_tapers d L p n nb = T"
    and "mean_tapers (nchans L) nb T = A"
    and "masked_rows [nchans L, length f] fInd A = R"
  shows "mtplv d x p = Inr (pack p ''mtplv'' (RArray R) f)"
  using assms by (simp add: mtplv_def)

lemma pack_normal: "bootstrapMode p = None \<Longrightarrow> pack p key a f = Tuple [a, freq_array f]"
  by (simp add: pack_def bootstrap_def)


lemma taper_rfft_ones2:
  "taper_rfft n [1, 1] [[[a, b], [c, d]], [[a', b'], [c', d']]]
     = [[rfft n [a, b], rfft n [c, d]], [rfft n [a', b'], rfft n [c', d']]]"
  by (simp add: taper_rfft_def)

lemma rows_2_4: "rows 2 4 [a, b, c, d, a', b', c', d'] = [[a, b, c, d], [a', b', c', d']]"
  by (simp add: rows_def upt_2)

lemma cpca_layout_222:
  "cpca_layout \<lparr>shape = [2, 2, 2], flat = [a, b, c, d, a', b', c', d']\<rparr>
     = Inr \<lparr>timedim = 2, trialdim = 1, nchans = 2, ntrials = 2, ntime = 2,
            chans = [[[a, b], [c, d]], [[a', b'], [c', d']]]\<rparr>"
  by (simp add: cpca_layout_def squeeze_def rows_2_4 rows_2_2)

lemma per_channel_layout_22:
  "per_channel_layout \<lparr>shape = [2, 2], flat = [a, b, c, d]\<rparr>
     = Inr \<lparr>timedim = 1, trialdim = 0, nchans = 1, ntrials = 2, ntime = 2,
            chans = [[[a, b], [c, d]]]\<rparr>"
  by (simp add: per_channel_layout_def squeeze_def rows_2_2)

lemma mapE_3: "mapE g [0..<3] =
   (case g 0 of Inl e \<Rightarrow> Inl e | Inr a \<Rightarrow>
     (case g 1 of Inl e \<Rightarrow> Inl e | Inr b \<Rightarrow>
       (case g 2 of Inl e \<Rightarrow> Inl e | Inr c \<Rightarrow> Inr [a, b, c])))"
  by (simp add: upt_3 split: sum.splits)

lemma plv_coef_ones: "plv_coef [1, 1] = Some 1"
  by (simp add: plv_coef_def unit_phase_def fdiv_def fmean_def)

lemma plv_stat_ones: "plv_stat [1, 1] = Some 1"
  by (simp add: plv_stat_conv plv_coef_ones)

lemma top_eigenvalue_ones: "top_eigenvalue eigh_exact 2 [Some 1, Some 1] = Inr (Some 1)"
proof -
  have "fst (eigh_exact (csd [1, 1])) = [0, 2]" by (simp add: eigh_exact_vals norm2_def)
  then obtain vecs where e: "eigh_exact (csd [1, 1]) = ([0, 2], vecs)"
    by (cases "eigh_exact (csd [1, 1])") simp
  show ?thesis
    by (simp add: top_eigenvalue_def eigh_csd_def e neg_index_def fdiv_def)
qed

lemma rfft_4_one: "rfft 4 [1, 0] = [1, 1, 1]"
  by (simp add: rfft_4_pair)

lemma over_trials_3_ones: "over_trials 3 g [[1, 1, 1], [1, 1, 1]] = [g [1, 1], g [1, 1], g [1, 1]]"
  by (simp add: over_trials_3)

lemma ones_mtplv:
  "mtplv ex_dpss \<lparr>shape = [2, 2], flat = [1, 0, 1, 0]\<rparr> ex_params
     = Inr (Tuple [RArray \<lparr>shape = [2], flat = [Some 1, Some 1]\<rparr>, freq_array [1, 2]])"
proof -
  define L where "L = \<lparr>timedim = 1, trialdim = 0, nchans = 1, ntrials = 2, ntime = 2,
             chans = [[[1, 0], [1, 0 :: real]]]\<rparr>"
  have L: "per_channel_layout \<lparr>shape = [2, 2], flat = [1, 0, 1, 0]\<rparr> = Inr L"
    by (simp add: per_channel_layout_22 L_def)
  have f: "get_freq_vector (ntime L) ex_params = Inr (4, [1, 2], [False, True, True])"
    using ex_freq_vector2 by (simp add: L_def)
  have w: "windows ex_dpss L ex_params = [[1, 1]]" by (rule ex_windows) (simp add: L_def)
  have i: "itc ex_params = False" by (simp add: ex_params_def)
  have t: "mtplv_tapers ex_dpss L ex_params 4 3 = [[[Some 1, Some 1, Some 1]]]"
    unfolding mtplv_tapers_def w
    by (simp add: L_def taper_rfft_ones rfft_4_one over_trials_3_ones i plv_stat_ones)
  have m: "mean_tapers (nchans L) 3 [[[Some 1, Some 1, Some 1]]]
             = [[Some 1, Some 1, Some (1 :: real)]]"
    by (simp add: L_def mean_tapers_1_3 fmean_single)
  have r: "masked_rows [nchans L, length [1, 2 :: real]] [False, True, True]
             [[Some 1, Some 1, Some (1 :: real)]] = \<lparr>shape = [2], flat = [Some 1, Some 1]\<rparr>"
    by (simp add: masked_rows_def bool_index_ex squeezed_def squeeze_def L_def)
  have "mtplv ex_dpss \<lparr>shape = [2, 2], flat = [1, 0, 1, 0]\<rparr> ex_params
      = Inr (pack ex_params ''mtplv'' (RArray \<lparr>shape = [2], flat = [Some 1, Some 1]\<rparr>) [1, 2])"
    by (rule mtplv_eval[OF L f _ t m r]) simp
  then show ?thesis by (simp add: pack_normal ex_params_def)
qed


section \<open>The phase-locking outputs\<close>




section \<open>The spectrum and its noise floor\<close>

lemma spec_stat_eq:
  "spec_stat xs = (if xs = [] then None else Some (cmod (sum_list xs / of_nat (length xs))))"
  by (simp add: spec_stat_def fmean_def those_map_Some)

lemma noise_stat_eq:
  "noise_stat xus =
     (if xus = [] then None
      else Some (cmod (sum_list (map (\<lambda>(x, u). x * cis (u * 2 * pi)) xus) / of_nat (length xus))))"
  by (simp add: noise_stat_def spec_stat_eq)

lemma nth_enumerate_0: "k < length w \<Longrightarrow> List.enumerate 0 w ! k = (k, w ! k)"
  by (simp add: nth_enumerate_eq)

lemma mtspec_S_entry:
  assumes "k < length (windows d L p)" "c < length (chans L)" "fi < nb"
  shows "mtspec_S d L p n nb ! k ! c ! fi
         = spec_stat (map (\<lambda>tr. tr ! fi) (taper_rfft n (windows d L p ! k) (chans L) ! c))"
  using assms by (simp add: mtspec_S_def length_taper_rfft over_trials_nth)

lemma zip_column:
  assumes "length xc = length uc" "\<forall>xr \<in> set xc. fi < length xr" "\<forall>ur \<in> set uc. fi < length ur"
  shows "map (\<lambda>tr. tr ! fi) (map2 zip xc uc) = zip (map (\<lambda>tr. tr ! fi) xc) (map (\<lambda>ur. ur ! fi) uc)"
  using assms
proof (induction xc uc rule: list_induct2)
  case Nil
  then show ?case by simp
next
  case (Cons x xs y ys)
  then show ?case by simp
qed

lemma mtspec_N_entry:
  assumes "k < length (windows d L p)" "c < length (chans L)" "fi < nb"
    and "c < length (rnd k)"
    and "length (rnd k ! c) = length (chans L ! c)"
    and "\<forall>xr \<in> set (taper_rfft n (windows d L p ! k) (chans L) ! c). fi < length xr"
    and "\<forall>ur \<in> set (rnd k ! c). fi < length ur"
  shows "mtspec_N d rnd L p n nb ! k ! c ! fi
         = noise_stat (zip (map (\<lambda>tr. tr ! fi) (taper_rfft n (windows d L p ! k) (chans L) ! c))
                           (map (\<lambda>ur. ur ! fi) (rnd k ! c)))"
proof -
  let ?xw = "taper_rfft n (windows d L p ! k) (chans L)"
  have l: "length (?xw ! c) = length (rnd k ! c)"
    using assms(2,5) by (simp add: taper_rfft_def)
  have "mtspec_N d rnd L p n nb ! k ! c
        = over_trials nb noise_stat (map2 zip (?xw ! c) (rnd k ! c))"
    using assms(1,2,4)
    by (simp add: mtspec_N_def nth_enumerate_0 length_taper_rfft)
  then show ?thesis
    using assms(3) zip_column[OF l assms(6,7)] by (simp add: over_trials_nth)
qed

lemma length_rfft: "length (rfft n xs) = n div 2 + 1"
  by (simp add: rfft_def Let_def)

lemma taper_rfft_row_length:
  assumes "c < length X" "xr \<in> set (taper_rfft n tap X ! c)"
  shows "length xr = n div 2 + 1"
  using assms by (auto simp: taper_rfft_def length_rfft)

lemma per_channel_layout_trials:
  assumes "per_channel_layout x = Inr L" "c < nchans L"
  shows "length (chans L ! c) = ntrials L"
  using assms
  by (auto simp: per_channel_layout_def length_rows rows_def split: list.splits simp del: upt_Suc)

lemma mtspec_result:
  assumes "mtspec d rnd x p = Inr r"
  shows "\<exists>L n f fInd. per_channel_layout x = Inr L
           \<and> get_freq_vector (ntime L) p = Inr (n, f, fInd)
           \<and> r = (let Sm = RArray (masked_rows [nchans L, length f] fInd
                               (mean_tapers (nchans L) (length fInd)
                                  (mtspec_S d L p n (length fInd))));
                      Nm = RArray (masked_rows [nchans L, length f] fInd
                               (mean_tapers (nchans L) (length fInd)
                                  (mtspec_N d rnd L p n (length fInd))))
                  in if bootstrap p
                     then Dict [(''mtspec'', Sm), (''mtspec_noise'', Nm), (''f'', freq_array f)]
                     else Tuple [Sm, Nm, freq_array f])"
  using assms by (auto simp: mtspec_def Let_def split: sum.splits)

text \<open>
  Claim C2, as amended. In \<open>mtspec\<close> the per-taper spectrum is the modulus of the mean
  over trials of the coefficients, and the per-taper noise floor is the modulus of the mean
  over trials of the coefficients times \<open>exp(i t)\<close>, where \<open>t\<close> is \<open>2 pi\<close> times a number
  drawn in \<open>[0, 1)\<close> for this taper, channel, trial and bin; both are averaged over the
  tapers and masked to the passband before they are returned.
\<close>

theorem mtspec_statistics:
  "(\<forall>xs. spec_stat xs
          = (if xs = [] then None else Some (cmod (sum_list xs / of_nat (length xs)))))
   \<and> (\<forall>xus. noise_stat xus
          = (if xus = [] then None
             else Some (cmod (sum_list (map (\<lambda>(x, u). x * cis (u * 2 * pi)) xus)
                              / of_nat (length xus)))))
   \<and> (\<forall>u :: real. 0 \<le> u \<and> u < 1 \<longrightarrow> 0 \<le> u * 2 * pi \<and> u * 2 * pi < 2 * pi)
   \<and> (\<forall>r. mtspec d rnd x p = Inr r \<longrightarrow>
        (\<exists>L n f fInd. per_channel_layout x = Inr L
           \<and> get_freq_vector (ntime L) p = Inr (n, f, fInd)
           \<and> r = (let Sm = RArray (masked_rows [nchans L, length f] fInd
                               (mean_tapers (nchans L) (length fInd)
                                  (mtspec_S d L p n (length fInd))));
                      Nm = RArray (masked_rows [nchans L, length f] fInd
                               (mean_tapers (nchans L) (length fInd)
                                  (mtspec_N d rnd L p n (length fInd))))
                  in if bootstrap p
                     then Dict [(''mtspec'', Sm), (''mtspec_noise'', Nm), (''f'', freq_array f)]
                     else Tuple [Sm, Nm, freq_array f])
           \<and> (\<forall>k c fi. k < length (windows d L p) \<and> c < nchans L \<and> fi < length fInd \<longrightarrow>
                 mtspec_S d L p n (length fInd) ! k ! c ! fi
                 = spec_stat (map (\<lambda>tr. tr ! fi) (taper_rfft n (windows d L p ! k) (chans L) ! c)))
           \<and> (\<forall>k c fi. k < length (windows d L p) \<and> c < nchans L \<and> fi < length fInd
                 \<and> c < length (rnd k) \<and> length (rnd k ! c) = ntrials L
                 \<and> (\<forall>ur \<in> set (rnd k ! c). length ur = length fInd) \<longrightarrow>
                 mtspec_N d rnd L p n (length fInd) ! k ! c ! fi
                 = noise_stat (zip (map (\<lambda>tr. tr ! fi) (taper_rfft n (windows d L p ! k) (chans L) ! c))
                                   (map (\<lambda>ur. ur ! fi) (rnd k ! c))))))"
proof (intro conjI allI impI)
  fix xs show "spec_stat xs
          = (if xs = [] then None else Some (cmod (sum_list xs / of_nat (length xs))))"
    by (rule spec_stat_eq)
next
  fix xus show "noise_stat xus
          = (if xus = [] then None
             else Some (cmod (sum_list (map (\<lambda>(x, u). x * cis (u * 2 * pi)) xus)
                              / of_nat (length xus))))"
    by (rule noise_stat_eq)
next
  fix u :: real assume "0 \<le> u \<and> u < 1"
  then show "0 \<le> u * 2 * pi" "u * 2 * pi < 2 * pi" by simp_all
next
  fix r assume "mtspec d rnd x p = Inr r"
  from mtspec_result[OF this] obtain L n f fInd where
    L: "per_channel_layout x = Inr L" and f: "get_freq_vector (ntime L) p = Inr (n, f, fInd)"
    and r: "r = (let Sm = RArray (masked_rows [nchans L, length f] fInd
                               (mean_tapers (nchans L) (length fInd)
                                  (mtspec_S d L p n (length fInd))));
                      Nm = RArray (masked_rows [nchans L, length f] fInd
                               (mean_tapers (nchans L) (length fInd)
                                  (mtspec_N d rnd L p n (length fInd))))
                  in if bootstrap p
                     then Dict [(''mtspec'', Sm), (''mtspec_noise'', Nm), (''f'', freq_array f)]
                     else Tuple [Sm, Nm, freq_array f])"
    by blast
  note lc = per_channel_layout_chans[OF L]
  note lf = length_fInd[OF f]
  have S: "\<forall>k c fi. k < length (windows d L p) \<and> c < nchans L \<and> fi < length fInd \<longrightarrow>
                 mtspec_S d L p n (length fInd) ! k ! c ! fi
                 = spec_stat (map (\<lambda>tr. tr ! fi) (taper_rfft n (windows d L p ! k) (chans L) ! c))"
    using mtspec_S_entry[of _ d L p _ _ "length fInd" n] lc by simp
  have N: "\<forall>k c fi. k < length (windows d L p) \<and> c < nchans L \<and> fi < length fInd
                 \<and> c < length (rnd k) \<and> length (rnd k ! c) = ntrials L
                 \<and> (\<forall>ur \<in> set (rnd k ! c). length ur = length fInd) \<longrightarrow>
                 mtspec_N d rnd L p n (length fInd) ! k ! c ! fi
                 = noise_stat (zip (map (\<lambda>tr. tr ! fi) (taper_rfft n (windows d L p ! k) (chans L) ! c))
                                   (map (\<lambda>ur. ur ! fi) (rnd k ! c)))"
  proof (intro allI impI)
    fix k c fi
    assume h: "k < length (windows d L p) \<and> c < nchans L \<and> fi < length fInd
                 \<and> c < length (rnd k) \<and> length (rnd k ! c) = ntrials L
                 \<and> (\<forall>ur \<in> set (rnd k ! c). length ur = length fInd)"
    then have c: "c < length (chans L)" using lc by simp
    have a: "length (rnd k ! c) = length (chans L ! c)"
      using h per_channel_layout_trials[OF L, of c] by simp
    have b: "\<forall>xr \<in> set (taper_rfft n (windows d L p ! k) (chans L) ! c). fi < length xr"
      using taper_rfft_row_length[OF c] h lf by simp
    have e: "\<forall>ur \<in> set (rnd k ! c). fi < length ur" using h by simp
    show "mtspec_N d rnd L p n (length fInd) ! k ! c ! fi
                 = noise_stat (zip (map (\<lambda>tr. tr ! fi) (taper_rfft n (windows d L p ! k) (chans L) ! c))
                                   (map (\<lambda>ur. ur ! fi) (rnd k ! c)))"
      using mtspec_N_entry[of k d L p c fi "length fInd" rnd n] h c a b e by blast
  qed
  show "\<exists>L n f fInd. per_channel_layout x = Inr L
           \<and> get_freq_vector (ntime L) p = Inr (n, f, fInd)
           \<and> r = (let Sm = RArray (masked_rows [nchans L, length f] fInd
                               (mean_tapers (nchans L) (length fInd)
                                  (mtspec_S d L p n (length fInd))));
                      Nm = RArray (masked_rows [nchans L, length f] fInd
                               (mean_tapers (nchans L) (length fInd)
                                  (mtspec_N d rnd L p n (length fInd))))
                  in if bootstrap p
                     then Dict [(''mtspec'', Sm), (''mtspec_noise'', Nm), (''f'', freq_array f)]
                     else Tuple [Sm, Nm, freq_array f])
           \<and> (\<forall>k c fi. k < length (windows d L p) \<and> c < nchans L \<and> fi < length fInd \<longrightarrow>
                 mtspec_S d L p n (length fInd) ! k ! c ! fi
                 = spec_stat (map (\<lambda>tr. tr ! fi) (taper_rfft n (windows d L p ! k) (chans L) ! c)))
           \<and> (\<forall>k c fi. k < length (windows d L p) \<and> c < nchans L \<and> fi < length fInd
                 \<and> c < length (rnd k) \<and> length (rnd k ! c) = ntrials L
                 \<and> (\<forall>ur \<in> set (rnd k ! c). length ur = length fInd) \<longrightarrow>
                 mtspec_N d rnd L p n (length fInd) ! k ! c ! fi
                 = noise_stat (zip (map (\<lambda>tr. tr ! fi) (taper_rfft n (windows d L p ! k) (chans L) ! c))
                                   (map (\<lambda>ur. ur ! fi) (rnd k ! c))))"
    using L f r S N by blast
qed

lemma mtspec_eval:
  assumes "per_channel_layout x = Inr L"
    and "get_freq_vector (ntime L) p = Inr (n, f, fInd)"
    and "length fInd = nb"
    and "mean_tapers (nchans L) nb (mtspec_S d L p n nb) = SA"
    and "mean_tapers (nchans L) nb (mtspec_N d rnd L p n nb) = NA"
    and "masked_rows [nchans L, length f] fInd SA = SR"
    and "masked_rows [nchans L, length f] fInd NA = NR"
    and "bootstrapMode p = None"
  shows "mtspec d rnd x p = Inr (Tuple [RArray SR, RArray NR, freq_array f])"
  using assms by (simp add: mtspec_def bootstrap_def)

lemma rfft_4_minus_one: "rfft 4 [- 1, 0] = [- 1, - 1, - 1]"
  by (simp add: rfft_4_pair)

lemma spec_stat_opposite: "spec_stat [1, - 1] = Some 0"
  by (simp add: spec_stat_eq)

lemma noise_stat_opposite: "noise_stat [(1, 0), (- 1, 0)] = Some 0"
  by (simp add: noise_stat_eq)

lemma mean_abs_stat_opposite: "mean_abs_stat [1, - 1] = Some 1"
  by (simp add: mean_abs_stat_def fmean_def)

lemma opp_layout: "per_channel_layout \<lparr>shape = [2, 2], flat = [1, 0, - 1, 0]\<rparr> = Inr opp_layout"
  by (simp add: per_channel_layout_22 opp_layout_def)

lemma opp_freq: "get_freq_vector (ntime opp_layout) ex_params = Inr (4, [1, 2], [False, True, True])"
  using ex_freq_vector2 by (simp add: opp_layout_def)

lemma opp_windows: "windows ex_dpss opp_layout ex_params = [[1, 1]]"
  by (rule ex_windows) (simp add: opp_layout_def)

lemma opp_xw: "taper_rfft 4 [1, 1] (chans opp_layout) = [[[1, 1, 1], [- 1, - 1, - 1]]]"
  by (simp add: opp_layout_def taper_rfft_ones rfft_4_one rfft_4_minus_one)

lemma opp_S: "mtspec_S ex_dpss opp_layout ex_params 4 3 = [[[Some 0, Some 0, Some 0]]]"
  unfolding mtspec_S_def opp_windows
  by (simp add: opp_xw over_trials_3 spec_stat_opposite)

lemma opp_N:
  "mtspec_N ex_dpss (\<lambda>k. [[[0, 0, 0], [0, 0, 0]]]) opp_layout ex_params 4 3
     = [[[Some 0, Some 0, Some 0]]]"
  unfolding mtspec_N_def opp_windows
  by (simp add: enumerate_simps opp_xw over_trials_3 noise_stat_opposite)

lemma opp_mtspec:
  "mtspec ex_dpss (\<lambda>k. [[[0, 0, 0], [0, 0, 0]]]) \<lparr>shape = [2, 2], flat = [1, 0, - 1, 0]\<rparr> ex_params
     = Inr (Tuple [RArray \<lparr>shape = [2], flat = [Some 0, Some 0]\<rparr>,
                   RArray \<lparr>shape = [2], flat = [Some 0, Some 0]\<rparr>, freq_array [1, 2]])"
proof -
  have m: "mean_tapers (nchans opp_layout) 3 [[[Some 0, Some 0, Some 0]]]
             = [[Some 0, Some 0, Some (0 :: real)]]"
    by (simp add: opp_layout_def mean_tapers_1_3 fmean_single)
  have r: "masked_rows [nchans opp_layout, length [1, 2 :: real]] [False, True, True]
             [[Some 0, Some 0, Some (0 :: real)]] = \<lparr>shape = [2], flat = [Some 0, Some 0]\<rparr>"
    by (simp add: masked_rows_def bool_index_ex squeezed_def squeeze_def opp_layout_def)
  have sa: "mean_tapers (nchans opp_layout) 3 (mtspec_S ex_dpss opp_layout ex_params 4 3)
             = [[Some 0, Some 0, Some (0 :: real)]]"
    unfolding opp_S by (rule m)
  have na: "mean_tapers (nchans opp_layout) 3
              (mtspec_N ex_dpss (\<lambda>k. [[[0, 0, 0], [0, 0, 0]]]) opp_layout ex_params 4 3)
             = [[Some 0, Some 0, Some (0 :: real)]]"
    unfolding opp_N by (rule m)
  have b: "bootstrapMode ex_params = None" by (simp add: ex_params_def)
  show ?thesis
    by (rule mtspec_eval[OF opp_layout opp_freq _ sa na r r b]) simp
qed

text \<open>
  Claim C2 as stated fails on two trials of opposite sign: every coefficient has modulus
  one, so the mean of the moduli is one, and \<open>mtspec\<close> returns zero.
\<close>

theorem opposite_trials_counterexample:
  "mtspec ex_dpss (\<lambda>k. [[[0, 0, 0], [0, 0, 0]]]) \<lparr>shape = [2, 2], flat = [1, 0, - 1, 0]\<rparr> ex_params
     = Inr (Tuple [RArray \<lparr>shape = [2], flat = [Some 0, Some 0]\<rparr>,
                   RArray \<lparr>shape = [2], flat = [Some 0, Some 0]\<rparr>, freq_array [1, 2]])
   \<and> taper_rfft 4 [1, 1] (chans opp_layout) = [[[1, 1, 1], [- 1, - 1, - 1]]]
   \<and> spec_stat [1, - 1] = Some 0
   \<and> mean_abs_stat [1, - 1] = Some 1"
  using opp_mtspec opp_xw spec_stat_opposite mean_abs_stat_opposite by blast

theorem mtspec_statistics_witness:
  "mtspec ex_dpss (\<lambda>k. [[[0, 0, 0], [0, 0, 0]]]) \<lparr>shape = [2, 2], flat = [1, 0, - 1, 0]\<rparr> ex_params
     = Inr (Tuple [RArray \<lparr>shape = [2], flat = [Some 0, Some 0]\<rparr>,
                   RArray \<lparr>shape = [2], flat = [Some 0, Some 0]\<rparr>, freq_array [1, 2]])
   \<and> mtspec_S ex_dpss opp_layout ex_params 4 (length [False, True, True]) ! 0 ! 0 ! 1
       = spec_stat (map (\<lambda>tr. tr ! 1)
           (taper_rfft 4 (windows ex_dpss opp_layout ex_params ! 0) (chans opp_layout) ! 0))
   \<and> mtspec_N ex_dpss (\<lambda>k. [[[0, 0, 0], [0, 0, 0]]]) opp_layout ex_params 4
         (length [False, True, True]) ! 0 ! 0 ! 1
       = noise_stat (zip (map (\<lambda>tr. tr ! 1)
           (taper_rfft 4 (windows ex_dpss opp_layout ex_params ! 0) (chans opp_layout) ! 0))
           (map (\<lambda>ur. ur ! 1) [[0, 0, 0], [0, 0, 0]]))
   \<and> spec_stat [1, - 1] = Some (cmod (sum_list [1, - 1] / of_nat (length [1, - 1 :: complex])))
   \<and> 0 \<le> (1 / 2) * 2 * pi \<and> (1 / 2) * 2 * pi < 2 * pi"
proof -
  let ?rnd = "\<lambda>k :: nat. [[[0, 0, 0], [0, 0, 0 :: real]]]"
  note t = mtspec_statistics[of ex_dpss ?rnd "\<lparr>shape = [2, 2], flat = [1, 0, - 1, 0]\<rparr>" ex_params]
  from t have a: "spec_stat [1, - 1]
      = (if [1, - 1 :: complex] = [] then None
         else Some (cmod (sum_list [1, - 1] / of_nat (length [1, - 1 :: complex]))))"
    by blast
  from t have b: "0 \<le> (1 / 2 :: real) \<and> (1 / 2 :: real) < 1
      \<longrightarrow> 0 \<le> (1 / 2) * 2 * pi \<and> (1 / 2) * 2 * pi < 2 * pi" by blast
  from t opp_mtspec obtain L n f fInd where
    L: "per_channel_layout \<lparr>shape = [2, 2], flat = [1, 0, - 1, 0]\<rparr> = Inr L"
    and f: "get_freq_vector (ntime L) ex_params = Inr (n, f, fInd)"
    and S: "\<forall>k c fi. k < length (windows ex_dpss L ex_params) \<and> c < nchans L \<and> fi < length fInd \<longrightarrow>
                 mtspec_S ex_dpss L ex_params n (length fInd) ! k ! c ! fi
                 = spec_stat (map (\<lambda>tr. tr ! fi) (taper_rfft n (windows ex_dpss L ex_params ! k) (chans L) ! c))"
    and N: "\<forall>k c fi. k < length (windows ex_dpss L ex_params) \<and> c < nchans L \<and> fi < length fInd
                 \<and> c < length (?rnd k) \<and> length (?rnd k ! c) = ntrials L
                 \<and> (\<forall>ur \<in> set (?rnd k ! c). length ur = length fInd) \<longrightarrow>
                 mtspec_N ex_dpss ?rnd L ex_params n (length fInd) ! k ! c ! fi
                 = noise_stat (zip (map (\<lambda>tr. tr ! fi) (taper_rfft n (windows ex_dpss L ex_params ! k) (chans L) ! c))
                                   (map (\<lambda>ur. ur ! fi) (?rnd k ! c)))"
    by blast
  from L opp_layout have L': "L = opp_layout" by simp
  from f opp_freq have n: "n = 4" and fInd: "fInd = [False, True, True]" unfolding L' by simp_all
  have "0 < length (windows ex_dpss opp_layout ex_params)" by (simp add: opp_windows)
  moreover have "0 < nchans opp_layout" by (simp add: opp_layout_def)
  ultimately have h: "0 < length (windows ex_dpss opp_layout ex_params) \<and> 0 < nchans opp_layout
           \<and> 1 < length [False, True, True]"
    by simp
  from S[unfolded L' n fInd, rule_format, of 0 0 1] h
  have s1: "mtspec_S ex_dpss opp_layout ex_params 4 (length [False, True, True]) ! 0 ! 0 ! 1
       = spec_stat (map (\<lambda>tr. tr ! 1)
           (taper_rfft 4 (windows ex_dpss opp_layout ex_params ! 0) (chans opp_layout) ! 0))"
    by blast
  have h2: "0 < length (?rnd 0) \<and> length (?rnd 0 ! 0) = ntrials opp_layout
                 \<and> (\<forall>ur \<in> set (?rnd 0 ! 0). length ur = length [False, True, True])"
    by (simp add: opp_layout_def)
  from N[unfolded L' n fInd, rule_format, of 0 0 1] h h2
  have n1: "mtspec_N ex_dpss ?rnd opp_layout ex_params 4 (length [False, True, True]) ! 0 ! 0 ! 1
       = noise_stat (zip (map (\<lambda>tr. tr ! 1)
           (taper_rfft 4 (windows ex_dpss opp_layout ex_params ! 0) (chans opp_layout) ! 0))
           (map (\<lambda>ur. ur ! 1) [[0, 0, 0], [0, 0, 0]]))"
    by simp
  show ?thesis
    using opp_mtspec s1 n1 a b by simp
qed

section \<open>Where the passband mask is applied\<close>

lemma length_bool_index:
  "length xs = length m \<Longrightarrow> length (bool_index m xs) = length (filter (\<lambda>b. b) m)"
proof (induction xs arbitrary: m)
  case Nil
  then show ?case by (simp add: bool_index_def)
next
  case (Cons x xs)
  then obtain b m' where m: "m = b # m'" by (cases m) auto
  with Cons.prems have "length xs = length m'" by simp
  from Cons.IH[OF this] show ?case unfolding m by (simp add: bool_index_def)
qed

lemma length_masked:
  assumes "get_freq_vector nt p = Inr (n, f, fInd)" "length row = n div 2 + 1"
  shows "length (bool_index fInd row) = length f"
proof -
  note d = get_freq_vector_InrD[OF assms(1)]
  have lf: "length fInd = n div 2 + 1" by (rule length_fInd[OF assms(1)])
  have "f = bool_index fInd (full_freqs n (Fs p))" using d by (simp add: bool_index_map)
  moreover have "length (full_freqs n (Fs p)) = length fInd" using d lf by (simp add: length_full_freqs)
  ultimately have "length f = length (filter (\<lambda>b. b) fInd)" by (simp add: length_bool_index)
  then show ?thesis using length_bool_index[of row fInd] assms(2) lf by simp
qed








text \<open>The per-channel estimators, given the layout and the grid.\<close>

lemma per_channel_results:
  assumes L: "per_channel_layout x = Inr L" and f: "get_freq_vector (ntime L) p = Inr (n, f, fInd)"
  shows "mtplv d x p = Inr (pack p ''mtplv''
            (RArray (masked_rows [nchans L, length f] fInd
               (mean_tapers (nchans L) (n div 2 + 1) (mtplv_tapers d L p n (n div 2 + 1))))) f)"
    and "mtspecraw d x p = Inr (pack p ''mtspecraw''
            (RArray (masked_rows [nchans L, length f] fInd
               (mean_tapers (nchans L) (n div 2 + 1) (mtspecraw_tapers d L p n (n div 2 + 1))))) f)"
    and "mtspec d rs x p = Inr
           (let Sm = RArray (masked_rows [nchans L, length f] fInd
                        (mean_tapers (nchans L) (n div 2 + 1) (mtspec_S d L p n (n div 2 + 1))));
                Nm = RArray (masked_rows [nchans L, length f] fInd
                        (mean_tapers (nchans L) (n div 2 + 1) (mtspec_N d rs L p n (n div 2 + 1))))
            in if bootstrap p
               then Dict [(''mtspec'', Sm), (''mtspec_noise'', Nm), (''f'', freq_array f)]
               else Tuple [Sm, Nm, freq_array f])"
    and "\<not> (windows d L p \<noteq> [] \<and> ntrials L = 0) \<Longrightarrow>
         mtppc d ri x p = Inr (pack p ''mtppc''
            (RArray (masked_rows [nchans L, length f] fInd
               (mean_tapers (nchans L) (n div 2 + 1) (mtppc_tapers d ri L p n (n div 2 + 1))))) f)"
    and "\<not> (windows d L p \<noteq> [] \<and> nchans L \<noteq> 0 \<and> ntrials L = 0) \<Longrightarrow>
         mtpspec d ri x p = Inr (pack p ''pspec''
            (RArray (masked_rows [nchans L, length f] fInd
               (mean_tapers (nchans L) (n div 2 + 1) (mtpspec_tapers d ri L p n (n div 2 + 1))))) f)"
    and "mtphase d x p = Inr (pack p ''mtphase''
            (RArray (squeezed [nchans L, length f]
               (concat (mean_tapers (nchans L) (length f)
                  (map (map (bool_index fInd)) (mtphase_tapers d L p n (n div 2 + 1))))))) f)"
  using L f length_fInd[OF f]
  by (simp_all add: mtplv_def mtspecraw_def mtspec_def mtppc_def mtpspec_def mtphase_def Let_def)

lemma cpca_results:
  assumes L: "cpca_layout x = Inr L" and f: "get_freq_vector (ntime L) p = Inr (n, f, fInd)"
  shows "mtcpca_tapers d eigh L p n (n div 2 + 1) = Inr T \<Longrightarrow>
         mtcpca d eigh x p = Inr (pack p ''mtcplv''
            (RArray \<lparr>shape = [length f],
                     flat = bool_index fInd (over_trials (n div 2 + 1) fmean T)\<rparr>) f)"
    and "mtcspec_tapers d eigh L p n (n div 2 + 1) = Inr T \<Longrightarrow>
         mtcspec d eigh x p = Inr (pack p ''mtcspec''
            (RArray \<lparr>shape = [length f],
                     flat = bool_index fInd (over_trials (n div 2 + 1) fmean T)\<rparr>) f)"
    and "mapE (\<lambda>tap. mtcpca_all_taper eigh L p (length f) (mtcpca_all_xw n fInd tap L))
              (windows d L p) = Inr B \<Longrightarrow>
         mtcpca_all d eigh x p = Inr (mtcpca_all_result p (nchans L) f B)"
  using L f length_fInd[OF f]
  by (simp_all add: mtcpca_def mtcspec_def mtcpca_all_def Let_def)




lemma ex_windows_gen: "ntime L = 2 \<Longrightarrow> tapers p = (1, 1) \<Longrightarrow> windows ex_dpss L p = [[1, 1]]"
  by (simp add: windows_def ex_dpss_def numeral_2_eq_2)

lemma ones2_cpca_layout:
  "cpca_layout \<lparr>shape = [2, 2, 2], flat = [1, 0, 1, 0, 1, 0, 1, 0]\<rparr> = Inr ones_layout2"
  by (simp add: cpca_layout_222 ones_layout2_def)

lemma ones_per_channel_layout:
  "per_channel_layout \<lparr>shape = [2, 2], flat = [1, 0, 1, 0]\<rparr> = Inr ones_layout"
  by (simp add: per_channel_layout_22 ones_layout_def)

lemma ones2_xw:
  "taper_rfft 4 [1, 1] (chans ones_layout2) = [[[1, 1, 1], [1, 1, 1]], [[1, 1, 1], [1, 1, 1]]]"
  by (simp add: ones_layout2_def taper_rfft_ones2 rfft_4_one)


lemma ones2_freq: "get_freq_vector (ntime ones_layout2) ex_params = Inr (4, [1, 2], [False, True, True])"
  using ex_freq_vector2 by (simp add: ones_layout2_def)

lemma ones_freq: "get_freq_vector (ntime ones_layout) ex_params = Inr (4, [1, 2], [False, True, True])"
  using ex_freq_vector2 by (simp add: ones_layout_def)


lemma ones2_windows:
  "windows ex_dpss ones_layout2 ex_params = [[1, 1]]"
  "windows ex_dpss ones_layout2 ex_params_nyq = [[1, 1]]"
  by (rule ex_windows_gen; simp add: ones_layout2_def ex_params_nyq_def ex_params_def)+

lemma ones2_C:
  "map (over_trials 3 plv_coef) (taper_rfft 4 [1, 1] (chans ones_layout2))
     = [[Some 1, Some 1, Some 1], [Some 1, Some 1, Some 1]]"
  by (simp add: ones2_xw over_trials_3_ones plv_coef_ones)

lemma ones2_bins:
  "cpca_bins eigh_exact (nchans ones_layout2) 3 [[Some 1, Some 1, Some 1], [Some 1, Some 1, Some 1]]
     = Inr [Some 1, Some 1, Some 1]"
  by (simp add: cpca_bins_def mapE_3 ones_layout2_def top_eigenvalue_ones)

lemma ones2_tapers:
  "mtcpca_tapers ex_dpss eigh_exact ones_layout2 ex_params 4 3 = Inr [[Some 1, Some 1, Some 1]]"
  "mtcpca_tapers ex_dpss eigh_exact ones_layout2 ex_params_nyq 4 3 = Inr [[Some 1, Some 1, Some 1]]"
proof -
  have i: "itc ex_params = False" "itc ex_params_nyq = False"
    by (simp_all add: ex_params_def ex_params_nyq_def)
  show "mtcpca_tapers ex_dpss eigh_exact ones_layout2 ex_params 4 3 = Inr [[Some 1, Some 1, Some 1]]"
    unfolding mtcpca_tapers_def ones2_windows by (simp add: i ones2_C ones2_bins)
  show "mtcpca_tapers ex_dpss eigh_exact ones_layout2 ex_params_nyq 4 3 = Inr [[Some 1, Some 1, Some 1]]"
    unfolding mtcpca_tapers_def ones2_windows by (simp add: i ones2_C ones2_bins)
qed





section \<open>Returned eigenvectors\<close>

lemma sqrt_225: "sqrt 225 = 15"
  by (rule real_sqrt_unique) simp_all

lemma eigh_exact_34:
  "eigh_exact (csd [3, 4]) = ([0, 25], [[- (4 / 5), 3 / 5], [3 / 5, 4 / 5]])"
  by (simp add: csd_2 eigh_exact_def Let_def sqrt_225)

lemma eigh_exact_11:
  "eigh_exact (csd [1, 1])
     = ([0, 2], [[- (1 / complex_of_real (sqrt 2)), 1 / complex_of_real (sqrt 2)],
                 [1 / complex_of_real (sqrt 2), 1 / complex_of_real (sqrt 2)]])"
  by (simp add: csd_2 eigh_exact_def Let_def)

lemma vec_pc_ranks: "pc_ranks ex_params_vec = [1]"
  by (simp add: pc_ranks_def ex_params_vec_def ex_params_def)

lemma eigh_select_34:
  "eigh_select eigh_exact 2 [1] [Some 3, Some 4]
     = Inr ([Some (25 / 2)], [[- (4 / 5), 3 / 5], [3 / 5, 4 / 5]])"
  by (simp add: eigh_select_def eigh_csd_def eigh_exact_34 neg_index_def fdiv_def)

lemma eigh_select_11:
  "eigh_select eigh_exact 2 [1] [Some 1, Some 1]
     = Inr ([Some 1], [[- (1 / complex_of_real (sqrt 2)), 1 / complex_of_real (sqrt 2)],
                       [1 / complex_of_real (sqrt 2), 1 / complex_of_real (sqrt 2)]])"
  by (simp add: eigh_select_def eigh_csd_def eigh_exact_11 neg_index_def fdiv_def)

lemma mtcpca_all_bin_34:
  "mtcpca_all_bin eigh_exact 2 ex_params_vec [Some 3, Some 4] [Some 1, Some 1] [Some 1, Some 1]
     = Inr bin34"
proof -
  have r: "returnEigenvectors ex_params_vec = Some True"
    by (simp add: ex_params_vec_def)
  show ?thesis
    unfolding mtcpca_all_bin_def vec_pc_ranks eigh_select_34 eigh_select_11 r
    by (simp add: neg_index_def bin34_def)
qed

lemma x34_cpca_layout: "cpca_layout x34 = Inr x34_layout"
  by (simp add: x34_def cpca_layout_222 x34_layout_def)

lemma x34_freq: "get_freq_vector (ntime x34_layout) ex_params_vec = Inr (4, [1, 2], [False, True, True])"
  by (simp add: get_freq_vector_def ex_params_vec_def ex_params_def Let_def full_freqs_4_4
      bool_index_def x34_layout_def)

lemma x34_windows: "windows ex_dpss x34_layout ex_params_vec = [[1, 1]]"
  by (rule ex_windows_gen) (simp_all add: x34_layout_def ex_params_vec_def ex_params_def)

lemma rfft_4_3: "rfft 4 [3, 0] = [3, 3, 3]" and rfft_4_4: "rfft 4 [4, 0] = [4, 4, 4]"
  by (simp_all add: rfft_4_pair)

lemma x34_xw:
  "mtcpca_all_xw 4 [False, True, True] [1, 1] x34_layout = [[[3, 3], [3, 3]], [[4, 4], [4, 4]]]"
  by (simp add: mtcpca_all_xw_def x34_layout_def taper_rfft_ones2 rfft_4_3 rfft_4_4 bool_index_ex)

lemma over_trials_2:
  "over_trials 2 g [r, s] = [g [r ! 0, s ! 0], g [r ! 1, s ! 1]]"
  by (simp add: over_trials_def upt_2)

lemma mean_coef_pair: "mean_coef [a, a] = Some a"
  by (simp add: mean_coef_def fmean_def)

lemma plv_coef_3: "plv_coef [3, 3] = Some 1" and plv_coef_4: "plv_coef [4, 4] = Some 1"
  by (simp_all add: plv_coef_def unit_phase_def fdiv_def fmean_def)

lemma itc_coef_3: "itc_coef [3, 3] = Some 1" and itc_coef_4: "itc_coef [4, 4] = Some 1"
  by (simp_all add: itc_coef_def fdiv_def fmean_def)

lemma mapE_2: "mapE g [0..<2] =
   (case g 0 of Inl e \<Rightarrow> Inl e | Inr a \<Rightarrow>
     (case g 1 of Inl e \<Rightarrow> Inl e | Inr b \<Rightarrow> Inr [a, b]))"
  by (simp add: upt_2 split: sum.splits)

lemma x34_taper:
  "mtcpca_all_taper eigh_exact x34_layout ex_params_vec 2 [[[3, 3], [3, 3]], [[4, 4], [4, 4]]]
     = Inr [bin34, bin34]"
proof -
  have nc: "nchans x34_layout = 2" by (simp add: x34_layout_def)
  show ?thesis
    unfolding mtcpca_all_taper_def Let_def nc
    by (simp add: over_trials_2 mean_coef_pair plv_coef_3 plv_coef_4 itc_coef_3 itc_coef_4
        mapE_2 mtcpca_all_bin_34)
qed

lemma x34_B:
  "mapE (\<lambda>tap. mtcpca_all_taper eigh_exact x34_layout ex_params_vec (length [1, 2 :: real])
                  (mtcpca_all_xw 4 [False, True, True] tap x34_layout))
        (windows ex_dpss x34_layout ex_params_vec) = Inr [[bin34, bin34]]"
proof -
  have l: "length [1, 2 :: real] = 2" by simp
  show ?thesis unfolding x34_windows l by (simp add: x34_xw x34_taper)
qed

lemma component_means_34:
  assumes "sel bin34 = [v]"
  shows "component_means 1 2 sel [[bin34, bin34]] = \<lparr>shape = [2], flat = [v, v]\<rparr>"
  using assms
  by (simp add: component_means_def squeezed_def squeeze_def upt_2 fmean_single)

lemma eigenvector_array_34:
  assumes "sel bin34 = [[a, b]]"
  shows "eigenvector_array 1 2 2 sel [[bin34, bin34]]
         = \<lparr>shape = [2, 2], flat = [Some a, Some a, Some b, Some b]\<rparr>"
  using assms
  by (simp add: eigenvector_array_def squeezed_def squeeze_def upt_2)

lemma x34_result:
  "mtcpca_all_result ex_params_vec 2 [1, 2] [[bin34, bin34]]
     = Tuple [Dict [(''spectrum'', RArray \<lparr>shape = [2], flat = [Some (25 / 2), Some (25 / 2)]\<rparr>),
                    (''plv'', RArray \<lparr>shape = [2], flat = [Some 1, Some 1]\<rparr>),
                    (''itc'', RArray \<lparr>shape = [2], flat = [Some 1, Some 1]\<rparr>),
                    (''spectrumV'', CArray \<lparr>shape = [2, 2],
                        flat = [Some (3 / 5), Some (3 / 5), Some (4 / 5), Some (4 / 5)]\<rparr>),
                    (''plvV'', CArray \<lparr>shape = [2, 2],
                        flat = [Some (1 / complex_of_real (sqrt 2)), Some (1 / complex_of_real (sqrt 2)),
                                Some (1 / complex_of_real (sqrt 2)), Some (1 / complex_of_real (sqrt 2))]\<rparr>),
                    (''itcV'', CArray \<lparr>shape = [2, 2],
                        flat = [Some (1 / complex_of_real (sqrt 2)), Some (1 / complex_of_real (sqrt 2)),
                                Some (1 / complex_of_real (sqrt 2)), Some (1 / complex_of_real (sqrt 2))]\<rparr>)],
              freq_array [1, 2]]"
proof -
  have b: "bootstrap ex_params_vec = False"
    by (simp add: bootstrap_def ex_params_vec_def ex_params_def)
  have r: "returnEigenvectors ex_params_vec = Some True" by (simp add: ex_params_vec_def)
  have l: "length [1, 2 :: real] = 2" "length [1 :: nat] = 1" by simp_all
  have c: "component_means 1 2 b_spectrum [[bin34, bin34]]
             = \<lparr>shape = [2], flat = [Some (25 / 2), Some (25 / 2)]\<rparr>"
    "component_means 1 2 b_plv [[bin34, bin34]] = \<lparr>shape = [2], flat = [Some 1, Some 1]\<rparr>"
    "component_means 1 2 b_itc [[bin34, bin34]] = \<lparr>shape = [2], flat = [Some 1, Some 1]\<rparr>"
    by (rule component_means_34, simp add: bin34_def)+
  have e: "eigenvector_array 1 2 2 b_spectrumV [[bin34, bin34]]
             = \<lparr>shape = [2, 2], flat = [Some (3 / 5), Some (3 / 5), Some (4 / 5), Some (4 / 5)]\<rparr>"
    "eigenvector_array 1 2 2 b_plvV [[bin34, bin34]]
             = \<lparr>shape = [2, 2],
                 flat = [Some (1 / complex_of_real (sqrt 2)), Some (1 / complex_of_real (sqrt 2)),
                         Some (1 / complex_of_real (sqrt 2)), Some (1 / complex_of_real (sqrt 2))]\<rparr>"
    "eigenvector_array 1 2 2 b_itcV [[bin34, bin34]]
             = \<lparr>shape = [2, 2],
                 flat = [Some (1 / complex_of_real (sqrt 2)), Some (1 / complex_of_real (sqrt 2)),
                         Some (1 / complex_of_real (sqrt 2)), Some (1 / complex_of_real (sqrt 2))]\<rparr>"
    by (rule eigenvector_array_34, simp add: bin34_def)+
  show ?thesis
    unfolding mtcpca_all_result_def Let_def vec_pc_ranks l b r c e
    by simp
qed

lemma sum_list_divide_const:
  fixes f :: "'a \<Rightarrow> real"
  shows "sum_list (map (\<lambda>x. f x / c) xs) = sum_list (map f xs) / c"
  by (induction xs) (simp_all add: add_divide_distrib)

lemma cwts_eq:
  assumes "sum_list (map cmod u) \<noteq> 0"
  shows "cwts u = map (\<lambda>z. Some (z / complex_of_real (sum_list (map cmod u)))) u"
    and "sum_list (map (\<lambda>z. cmod (z / complex_of_real (sum_list (map cmod u)))) u) = 1"
proof -
  show "cwts u = map (\<lambda>z. Some (z / complex_of_real (sum_list (map cmod u)))) u"
    using assms by (simp add: cwts_def fdiv_def)
  have nn: "0 \<le> sum_list (map cmod u)" by (intro sum_list_nonneg) auto
  have "sum_list (map (\<lambda>z. cmod (z / complex_of_real (sum_list (map cmod u)))) u)
        = sum_list (map (\<lambda>z. cmod z / sum_list (map cmod u)) u)"
    using nn by (simp add: norm_divide)
  also have "\<dots> = sum_list (map cmod u) / sum_list (map cmod u)"
    by (rule sum_list_divide_const)
  also have "\<dots> = 1" using assms by simp
  finally show "sum_list (map (\<lambda>z. cmod (z / complex_of_real (sum_list (map cmod u)))) u) = 1" .
qed

lemma eigh_select_vecs:
  assumes "eigh_select eigh nc pc col = Inr (vs, vecs)" "those col = Some cv"
  shows "vecs = snd (eigh (csd cv))"
  using assms
  by (auto simp: eigh_select_def eigh_csd_def split: sum.splits prod.splits)

lemma mtcpca_all_bin_vectors:
  assumes r: "mtcpca_all_bin eigh nc p c plvc itcc = Inr b"
    and v: "returnEigenvectors p = Some True"
    and c: "those c = Some cv" "those plvc = Some pv" "those itcc = Some iv"
  shows "mapE (neg_index (snd (eigh (csd cv)))) (pc_ranks p) = Inr (b_spectrumV b)"
    and "mapE (neg_index (snd (eigh (csd pv)))) (pc_ranks p) = Inr (b_plvV b)"
    and "mapE (neg_index (snd (eigh (csd iv)))) (pc_ranks p) = Inr (b_itcV b)"
proof -
  from r obtain sv sve where s: "eigh_select eigh nc (pc_ranks p) c = Inr (sv, sve)"
    by (auto simp: mtcpca_all_bin_def split: sum.splits)
  from r s obtain pv' pve where p: "eigh_select eigh nc (pc_ranks p) plvc = Inr (pv', pve)"
    by (auto simp: mtcpca_all_bin_def split: sum.splits)
  from r s p obtain iv' ive where i: "eigh_select eigh nc (pc_ranks p) itcc = Inr (iv', ive)"
    by (auto simp: mtcpca_all_bin_def split: sum.splits)
  note e = eigh_select_vecs[OF s c(1)] eigh_select_vecs[OF p c(2)] eigh_select_vecs[OF i c(3)]
  from r have "\<exists>su pu iu. mapE (neg_index sve) (pc_ranks p) = Inr su
      \<and> mapE (neg_index pve) (pc_ranks p) = Inr pu
      \<and> mapE (neg_index ive) (pc_ranks p) = Inr iu
      \<and> b = \<lparr>b_spectrum = sv, b_plv = pv', b_itc = iv',
               b_spectrumV = su, b_plvV = pu, b_itcV = iu\<rparr>"
    unfolding mtcpca_all_bin_def s p i v by (auto split: sum.splits)
  then show "mapE (neg_index (snd (eigh (csd cv)))) (pc_ranks p) = Inr (b_spectrumV b)"
    and "mapE (neg_index (snd (eigh (csd pv)))) (pc_ranks p) = Inr (b_plvV b)"
    and "mapE (neg_index (snd (eigh (csd iv)))) (pc_ranks p) = Inr (b_itcV b)"
    unfolding e by auto
qed

section \<open>A run of the time-domain reconstruction\<close>

text \<open>
  \<open>mtcpca_timeDomain\<close> on the recording of ones, step by step: the taper, the coefficients,
  the per-bin decomposition, the filter, the inverse transform and the time-domain PCA.
\<close>

lemma td_w0: "concat (ex_dpss 2 1 1) = [1, 1]"
  by (simp add: ex_dpss_def numeral_2_eq_2)

lemma td_w: "map (\<lambda>v. fdiv v (Max (set [1, 1 :: real]))) [1, 1] = [Some 1, Some 1]"
  by (simp add: fdiv_def)

lemma td_xw:
  "map (map (map Some)) (taper_rfft 4 [1, 1] (chans ones_layout2))
     = [[[Some 1, Some 1, Some 1], [Some 1, Some 1, Some 1]],
        [[Some 1, Some 1, Some 1], [Some 1, Some 1, Some 1]]]"
  by (simp add: ones2_xw)

lemma fmean_ones: "fmean [Some 1, Some 1] = Some 1"
  by (simp add: fmean_def)

lemma Cnorm_coef_ones: "Cnorm_coef [Some 1, Some 1] = Some 1"
  by (simp add: Cnorm_coef_def fmean_def fdiv_def)

lemma over_trials_3_some:
  "over_trials 3 g [[a, a, a], [a, a, a]] = [g [a, a], g [a, a], g [a, a]]"
  by (simp add: over_trials_3)

lemma td_C:
  "map (over_trials 3 fmean)
     [[[Some 1, Some 1, Some 1], [Some 1, Some 1, Some 1]],
      [[Some 1, Some 1, Some 1], [Some 1, Some 1, Some 1]]]
   = [[Some 1, Some 1, Some 1], [Some (1 :: complex), Some 1, Some 1]]"
  by (simp add: over_trials_3_some fmean_ones)

lemma td_Cnorm:
  "map (over_trials 3 Cnorm_coef)
     [[[Some 1, Some 1, Some 1], [Some 1, Some 1, Some 1]],
      [[Some 1, Some 1, Some 1], [Some 1, Some 1, Some 1]]]
   = [[Some 1, Some 1, Some 1], [Some 1, Some 1, Some 1]]"
  by (simp add: over_trials_3_some Cnorm_coef_ones)

lemma cwts_pair: "a \<noteq> 0 \<Longrightarrow> cwts [a, a] = [Some (a / complex_of_real (2 * cmod a)), Some (a / complex_of_real (2 * cmod a))]"
  by (simp add: cwts_def fdiv_def)

lemma cwts_11:
  "cwts [1 / complex_of_real (sqrt 2), 1 / complex_of_real (sqrt 2)] = [Some (1 / 2), Some (1 / 2)]"
proof -
  have a: "1 / complex_of_real (sqrt 2) \<noteq> 0" by simp
  have c: "cmod (1 / complex_of_real (sqrt 2)) = 1 / sqrt 2"
    by (simp add: norm_divide)
  have "(1 / complex_of_real (sqrt 2)) / complex_of_real (2 * (1 / sqrt 2)) = 1 / 2"
    by (simp add: field_simps)
  then show ?thesis
    unfolding cwts_pair[OF a] c by simp
qed

lemma timeDomain_bin_ones:
  "timeDomain_bin eigh_exact [Some 1, Some 1] [Some 1, Some 1] = Inr (2, Some 1)"
proof -
  have e: "eigh_csd eigh_exact [Some 1, Some 1]
     = Inr ([0, 2], [[- (1 / complex_of_real (sqrt 2)), 1 / complex_of_real (sqrt 2)],
                 [1 / complex_of_real (sqrt 2), 1 / complex_of_real (sqrt 2)]])"
    by (simp add: eigh_csd_def eigh_exact_11)
  show ?thesis
    unfolding timeDomain_bin_def e
    by (simp add: neg_index_last cwts_11)
qed

lemma td_bins:
  "mapE (\<lambda>fi. timeDomain_bin eigh_exact
                (map (\<lambda>row. row ! fi) [[Some 1, Some 1, Some 1], [Some 1, Some 1, Some 1]])
                (map (\<lambda>row. row ! fi) [[Some 1, Some 1, Some 1], [Some 1, Some 1, Some 1]]))
        [0..<3]
     = Inr [(2, Some 1), (2, Some 1), (2, Some 1)]"
  by (simp add: mapE_3 timeDomain_bin_ones)

lemma td_cscale:
  "those (map fsqrt [2, 2, 2]) = Some [sqrt 2, sqrt 2, sqrt 2]"
  "map (\<lambda>c. fdiv c (Max (set [sqrt 2, sqrt 2, sqrt 2]))) [sqrt 2, sqrt 2, sqrt 2]
     = [Some 1, Some 1, Some 1]"
  by (simp_all add: fsqrt_def fdiv_def)

lemma irfft_ones: "irfft [1, 1, 1] = Inr [1, 0, 0, 0]"
proof -
  have c1: "cis (2 * pi / 4) = \<i>"
  proof -
    have "2 * pi / 4 = pi / 2" by simp
    then show ?thesis by (simp only: cis_pi_half)
  qed
  have c2: "cis (2 * pi * 2 / 4) = - 1"
  proof -
    have "2 * pi * 2 / 4 = pi" by simp
    then show ?thesis by (simp only: cis_pi)
  qed
  have c3: "cis (2 * pi * 3 / 4) = - \<i>"
  proof -
    have "2 * pi * 3 / 4 = pi + pi / 2" by simp
    then have "cis (2 * pi * 3 / 4) = cis pi * cis (pi / 2)" by (simp only: cis_mult)
    then show ?thesis by (simp add: cis_pi_half)
  qed
  have c4: "cis (pi * 2) = 1" "cis (pi * 3) = - 1"
  proof -
    show "cis (pi * 2) = 1" using cis_2pi by (simp add: mult.commute)
    have "pi * 3 = pi + 2 * pi" by simp
    then have "cis (pi * 3) = cis pi * cis (2 * pi)" by (simp only: cis_mult)
    then show "cis (pi * 3) = - 1" by (simp add: cis_2pi)
  qed
  have c5: "cos (pi * 3 / 2) = 0"
    using cos_3over2_pi by (simp add: mult.commute)
  have c6: "cos (pi * 3) = - 1"
    using c4(2) by (simp add: complex_eq_iff)
  show ?thesis
    by (simp add: irfft_def Let_def upt_4 c1 c2 c3 c4 c5 c6 upt_rec[of 1 2])
qed

lemma td_x_ave:
  "map (over_trials 2 (\<lambda>col. fmean (map Some col))) (chans ones_layout2)
     = [[Some 1, Some 0], [Some 1, Some 0]]"
  by (simp add: ones_layout2_def over_trials_2 fmean_def)

lemma cov_ones: "cov 2 [[1, 0], [1, 0]] = [[Some (1 / 2), Some (1 / 2)], [Some (1 / 2), Some (1 / 2)]]"
  by (simp add: cov_def Let_def fdiv_def)

lemma eigh_real_exact_half:
  "snd (eigh_real_exact [[1 / 2, 1 / 2], [1 / 2, 1 / 2]])
     = [[- ((1 / 2) / sqrt (1 / 2)), (1 / 2) / sqrt (1 / 2)],
        [(1 / 2) / sqrt (1 / 2), (1 / 2) / sqrt (1 / 2)]]"
  by (simp add: eigh_real_exact_def eigh_exact_def Let_def)

lemma time_pca_ones:
  "time_pca eigh_real_exact 2 [[Some 1, Some 0], [Some 1, Some 0]] = Inr [Some 1, Some 0]"
proof -
  have a: "(1 / 2) / sqrt (1 / 2) + (1 / 2) / sqrt (1 / 2) \<noteq> (0 :: real)"
    by (simp add: real_sqrt_divide)
  show ?thesis
    unfolding time_pca_def
    using a by (simp add: cov_ones eigh_real_exact_half neg_index_last upt_2 fdiv_def)
qed


lemma those_pair: "those [Some a, Some b] = Some [a, b]"
  by simp

lemma td_filtered:
  "timeDomain_filter 3 [(2, Some 1), (2, Some 1), (2, Some 1)] = Some [1, 1, 1]"
  by (simp add: timeDomain_filter_def fsqrt_def fdiv_def)

lemma td_xw_ones:
  "timeDomain_xw [1, 1] 4 3 ones_layout2
     = [[[Some 1, Some 1, Some 1], [Some 1, Some 1, Some 1]],
        [[Some 1, Some 1, Some 1], [Some 1, Some 1, Some 1]]]"
  unfolding timeDomain_xw_def td_w those_pair option.case by (rule td_xw)

lemma ones2_timeDomain:
  assumes f: "get_freq_vector 2 p = Inr (4, [1, 2], [False, True, True])"
  shows "mtcpca_timeDomain ex_dpss eigh_exact eigh_real_exact
      \<lparr>shape = [2, 2, 2], flat = [1, 0, 1, 0, 1, 0, 1, 0]\<rparr> p
     = Inr (if bootstrap p
            then Dict [(''y_cpc'', RArray \<lparr>shape = [2], flat = [Some 1, Some 0]\<rparr>),
                       (''y_pc'', RArray \<lparr>shape = [2], flat = [Some 1, Some 0]\<rparr>)]
            else Tuple [RArray \<lparr>shape = [2], flat = [Some 1, Some 0]\<rparr>,
                        RArray \<lparr>shape = [2], flat = [Some 1, Some 0]\<rparr>])"
proof -
  have nb: "length [False, True, True] = 3" by simp
  have nt: "ntime ones_layout2 = 2" by (simp add: ones_layout2_def)
  show ?thesis
    unfolding mtcpca_timeDomain_def ones2_cpca_layout sum.case nt f prod.case Let_def nb
      td_w0 td_xw_ones td_C td_Cnorm td_bins td_filtered option.case irfft_ones td_x_ave
      time_pca_ones
    by (simp add: all_or_none_def)
qed

lemma boot_freq_vector: "get_freq_vector 2 ex_params_boot = Inr (4, [1, 2], [False, True, True])"
  by (simp add: get_freq_vector_def ex_params_boot_def ex_params_def Let_def full_freqs_4_4
      bool_index_def)

lemma ones2_mtcspec_tapers:
  "mtcspec_tapers ex_dpss eigh_exact ones_layout2 ex_params 4 3 = Inr [[Some 1, Some 1, Some 1]]"
proof -
  have C: "map (over_trials 3 mean_coef) (taper_rfft 4 [1, 1] (chans ones_layout2))
     = [[Some 1, Some 1, Some 1], [Some 1, Some 1, Some 1]]"
    by (simp add: ones2_xw over_trials_3_ones mean_coef_pair)
  show ?thesis
    unfolding mtcspec_tapers_def ones2_windows by (simp add: C ones2_bins)
qed

section \<open>What the estimators return\<close>

lemma returns_freq_pack: "key \<noteq> ''f'' \<Longrightarrow> returns_freq p f (pack p key a f)"
  by (simp add: returns_freq_def pack_def)

lemma returns_freq_mtcpca_all: "returns_freq p f (mtcpca_all_result p nc f B)"
  by (simp add: returns_freq_def mtcpca_all_result_def Let_def)

lemma mtspec_returns_freq:
  "mtspec d rs x p = Inr r \<Longrightarrow>
     \<exists>L n f fInd. per_channel_layout x = Inr L \<and> get_freq_vector (ntime L) p = Inr (n, f, fInd)
        \<and> returns_freq p f r"
  by (auto simp: mtspec_def Let_def returns_freq_def split: sum.splits)

lemma per_channel_returns_freq:
  "mtplv d x p = Inr r \<Longrightarrow>
     \<exists>L n f fInd. per_channel_layout x = Inr L \<and> get_freq_vector (ntime L) p = Inr (n, f, fInd)
        \<and> returns_freq p f r"
  "mtphase d x p = Inr r \<Longrightarrow>
     \<exists>L n f fInd. per_channel_layout x = Inr L \<and> get_freq_vector (ntime L) p = Inr (n, f, fInd)
        \<and> returns_freq p f r"
  "mtppc d ri x p = Inr r \<Longrightarrow>
     \<exists>L n f fInd. per_channel_layout x = Inr L \<and> get_freq_vector (ntime L) p = Inr (n, f, fInd)
        \<and> returns_freq p f r"
  "mtspecraw d x p = Inr r \<Longrightarrow>
     \<exists>L n f fInd. per_channel_layout x = Inr L \<and> get_freq_vector (ntime L) p = Inr (n, f, fInd)
        \<and> returns_freq p f r"
  "mtpspec d ri x p = Inr r \<Longrightarrow>
     \<exists>L n f fInd. per_channel_layout x = Inr L \<and> get_freq_vector (ntime L) p = Inr (n, f, fInd)
        \<and> returns_freq p f r"
  by (auto simp: mtplv_def mtphase_def mtppc_def mtspecraw_def mtpspec_def Let_def
      returns_freq_pack split: sum.splits if_splits)

lemma cpca_returns_freq:
  "mtcpca d eigh x p = Inr r \<Longrightarrow>
     \<exists>L n f fInd. cpca_layout x = Inr L \<and> get_freq_vector (ntime L) p = Inr (n, f, fInd)
        \<and> returns_freq p f r"
  "mtcspec d eigh x p = Inr r \<Longrightarrow>
     \<exists>L n f fInd. cpca_layout x = Inr L \<and> get_freq_vector (ntime L) p = Inr (n, f, fInd)
        \<and> returns_freq p f r"
  "mtcpca_all d eigh x p = Inr r \<Longrightarrow>
     \<exists>L n f fInd. cpca_layout x = Inr L \<and> get_freq_vector (ntime L) p = Inr (n, f, fInd)
        \<and> returns_freq p f r"
  by (auto simp: mtcpca_def mtcspec_def mtcpca_all_def Let_def
      returns_freq_pack returns_freq_mtcpca_all split: sum.splits)

lemma time_pca_length: "time_pca eighr nt x_ave = Inr y \<Longrightarrow> length y = nt"
  by (auto simp: time_pca_def split: option.splits sum.splits)

lemma timeDomain_result:
  assumes "mtcpca_timeDomain d eigh eighr x p = Inr r"
  shows "\<exists>L a b. cpca_layout x = Inr L \<and> length a \<le> ntime L \<and> length b = ntime L
           \<and> r = (if bootstrap p
                  then Dict [(''y_cpc'', RArray \<lparr>shape = [length a], flat = a\<rparr>),
                             (''y_pc'', RArray \<lparr>shape = [length b], flat = b\<rparr>)]
                  else Tuple [RArray \<lparr>shape = [length a], flat = a\<rparr>,
                              RArray \<lparr>shape = [length b], flat = b\<rparr>])"
  using assms
  by (auto simp: mtcpca_timeDomain_def Let_def time_pca_length
      split: sum.splits if_splits prod.splits)

lemma returns_case:
  assumes "est = Inr R"
    and "\<exists>L n f fInd. lay = Inr L \<and> get_freq_vector (ntime L) p = Inr (n, f, fInd) \<and> returns_freq p f R"
    and "lay = Inr L0" and "get_freq_vector (ntime L0) p = Inr (n0, f0, fInd0)"
  shows "(case est of Inl e \<Rightarrow> False | Inr r \<Rightarrow> returns_freq p f0 r)"
  using assms by auto

text \<open>
  Claim C8, as amended. Every estimator other than \<open>mtcpca_timeDomain\<close> that returns,
  returns the frequency axis \<open>f\<close> of \<open>_get_freq_vector\<close>, the passband-masked axis, next to
  its statistics: as the last element of the tuple in normal mode and under the key \<open>f\<close> in
  bootstrap mode. \<open>mtcpca_timeDomain\<close> returns the two time-domain waveforms \<open>y_cpc\<close> and
  \<open>y_pc\<close>, of at most as many samples as the recording has time points, and nothing else:
  a pair in normal mode, a dictionary of the two keys \<open>y_cpc\<close> and \<open>y_pc\<close> in bootstrap
  mode.
\<close>

theorem frequency_axis_returned:
  "(\<forall>r. mtplv d x p = Inr r \<longrightarrow>
      (\<exists>L n f fInd. per_channel_layout x = Inr L \<and> get_freq_vector (ntime L) p = Inr (n, f, fInd)
         \<and> returns_freq p f r))
   \<and> (\<forall>r. mtspec d rs x p = Inr r \<longrightarrow>
      (\<exists>L n f fInd. per_channel_layout x = Inr L \<and> get_freq_vector (ntime L) p = Inr (n, f, fInd)
         \<and> returns_freq p f r))
   \<and> (\<forall>r. mtphase d x p = Inr r \<longrightarrow>
      (\<exists>L n f fInd. per_channel_layout x = Inr L \<and> get_freq_vector (ntime L) p = Inr (n, f, fInd)
         \<and> returns_freq p f r))
   \<and> (\<forall>r. mtppc d ri x p = Inr r \<longrightarrow>
      (\<exists>L n f fInd. per_channel_layout x = Inr L \<and> get_freq_vector (ntime L) p = Inr (n, f, fInd)
         \<and> returns_freq p f r))
   \<and> (\<forall>r. mtspecraw d x p = Inr r \<longrightarrow>
      (\<exists>L n f fInd. per_channel_layout x = Inr L \<and> get_freq_vector (ntime L) p = Inr (n, f, fInd)
         \<and> returns_freq p f r))
   \<and> (\<forall>r. mtpspec d ri x p = Inr r \<longrightarrow>
      (\<exists>L n f fInd. per_channel_layout x = Inr L \<and> get_freq_vector (ntime L) p = Inr (n, f, fInd)
         \<and> returns_freq p f r))
   \<and> (\<forall>r. mtcpca d eigh x p = Inr r \<longrightarrow>
      (\<exists>L n f fInd. cpca_layout x = Inr L \<and> get_freq_vector (ntime L) p = Inr (n, f, fInd)
         \<and> returns_freq p f r))
   \<and> (\<forall>r. mtcspec d eigh x p = Inr r \<longrightarrow>
      (\<exists>L n f fInd. cpca_layout x = Inr L \<and> get_freq_vector (ntime L) p = Inr (n, f, fInd)
         \<and> returns_freq p f r))
   \<and> (\<forall>r. mtcpca_all d eigh x p = Inr r \<longrightarrow>
      (\<exists>L n f fInd. cpca_layout x = Inr L \<and> get_freq_vector (ntime L) p = Inr (n, f, fInd)
         \<and> returns_freq p f r))
   \<and> (\<forall>r. mtcpca_timeDomain d eigh eighr x p = Inr r \<longrightarrow>
      (\<exists>L a b. cpca_layout x = Inr L \<and> length a \<le> ntime L \<and> length b = ntime L
         \<and> r = (if bootstrap p
                then Dict [(''y_cpc'', RArray \<lparr>shape = [length a], flat = a\<rparr>),
                           (''y_pc'', RArray \<lparr>shape = [length b], flat = b\<rparr>)]
                else Tuple [RArray \<lparr>shape = [length a], flat = a\<rparr>,
                            RArray \<lparr>shape = [length b], flat = b\<rparr>])))"
  by (intro conjI allI impI;
      (erule per_channel_returns_freq mtspec_returns_freq cpca_returns_freq timeDomain_result))

text \<open>
  Claim C8 as stated fails for \<open>mtcpca_timeDomain\<close>. On the recording of ones, with the
  frequency axis \<open>[1, 2]\<close>, it returns the two waveforms \<open>[1, 0]\<close> and \<open>[1, 0]\<close> and no
  frequency axis, in normal mode and in bootstrap mode.
\<close>

theorem timeDomain_counterexample:
  "cpca_layout \<lparr>shape = [2, 2, 2], flat = [1, 0, 1, 0, 1, 0, 1, 0]\<rparr> = Inr ones_layout2
   \<and> get_freq_vector (ntime ones_layout2) ex_params = Inr (4, [1, 2], [False, True, True])
   \<and> mtcpca_timeDomain ex_dpss eigh_exact eigh_real_exact \<lparr>shape = [2, 2, 2], flat = [1, 0, 1, 0, 1, 0, 1, 0]\<rparr> ex_params
       = Inr (Tuple [RArray \<lparr>shape = [2], flat = [Some 1, Some 0]\<rparr>, RArray \<lparr>shape = [2], flat = [Some 1, Some 0]\<rparr>])
   \<and> returns_freq ex_params [1, 2] (Tuple [RArray \<lparr>shape = [2], flat = [Some 1, Some 0]\<rparr>, RArray \<lparr>shape = [2], flat = [Some 1, Some 0]\<rparr>]) = False
   \<and> get_freq_vector (ntime ones_layout2) ex_params_boot = Inr (4, [1, 2], [False, True, True])
   \<and> mtcpca_timeDomain ex_dpss eigh_exact eigh_real_exact \<lparr>shape = [2, 2, 2], flat = [1, 0, 1, 0, 1, 0, 1, 0]\<rparr> ex_params_boot
       = Inr (Dict [(''y_cpc'', RArray \<lparr>shape = [2], flat = [Some 1, Some 0]\<rparr>), (''y_pc'', RArray \<lparr>shape = [2], flat = [Some 1, Some 0]\<rparr>)])
   \<and> returns_freq ex_params_boot [1, 2]
         (Dict [(''y_cpc'', RArray \<lparr>shape = [2], flat = [Some 1, Some 0]\<rparr>), (''y_pc'', RArray \<lparr>shape = [2], flat = [Some 1, Some 0]\<rparr>)]) = False"
proof -
  have nt: "ntime ones_layout2 = 2" by (simp add: ones_layout2_def)
  have b: "bootstrap ex_params = False" "bootstrap ex_params_boot = True"
    by (simp_all add: bootstrap_def ex_params_boot_def ex_params_def)
  have f: "freq_array [1, 2] \<noteq> RArray \<lparr>shape = [2], flat = [Some 1, Some 0]\<rparr>"
    by (simp add: freq_array_def)
  show ?thesis
    using ones2_timeDomain[OF ex_freq_vector2] ones2_timeDomain[OF boot_freq_vector]
      ones2_cpca_layout ex_freq_vector2 boot_freq_vector f
    unfolding nt b by (simp add: returns_freq_def b)
qed

theorem frequency_axis_returned_witness:
  "(case mtplv ex_dpss \<lparr>shape = [2, 2], flat = [1, 0, 1, 0]\<rparr> ex_params of Inl e \<Rightarrow> False | Inr r \<Rightarrow> returns_freq ex_params [1, 2] r)
   \<and> (case mtspec ex_dpss (\<lambda>k. [[[0, 0, 0], [0, 0, 0]]]) \<lparr>shape = [2, 2], flat = [1, 0, 1, 0]\<rparr> ex_params of Inl e \<Rightarrow> False | Inr r \<Rightarrow> returns_freq ex_params [1, 2] r)
   \<and> (case mtphase ex_dpss \<lparr>shape = [2, 2], flat = [1, 0, 1, 0]\<rparr> ex_params of Inl e \<Rightarrow> False | Inr r \<Rightarrow> returns_freq ex_params [1, 2] r)
   \<and> (case mtppc ex_dpss (\<lambda>k. [(0, 1), (1, 0)]) \<lparr>shape = [2, 2], flat = [1, 0, 1, 0]\<rparr> ex_params of Inl e \<Rightarrow> False | Inr r \<Rightarrow> returns_freq ex_params [1, 2] r)
   \<and> (case mtspecraw ex_dpss \<lparr>shape = [2, 2], flat = [1, 0, 1, 0]\<rparr> ex_params of Inl e \<Rightarrow> False | Inr r \<Rightarrow> returns_freq ex_params [1, 2] r)
   \<and> (case mtpspec ex_dpss (\<lambda>k. [(0, 1), (1, 0)]) \<lparr>shape = [2, 2], flat = [1, 0, 1, 0]\<rparr> ex_params of Inl e \<Rightarrow> False | Inr r \<Rightarrow> returns_freq ex_params [1, 2] r)
   \<and> (case mtcpca ex_dpss eigh_exact \<lparr>shape = [2, 2, 2], flat = [1, 0, 1, 0, 1, 0, 1, 0]\<rparr> ex_params of Inl e \<Rightarrow> False | Inr r \<Rightarrow> returns_freq ex_params [1, 2] r)
   \<and> (case mtcspec ex_dpss eigh_exact \<lparr>shape = [2, 2, 2], flat = [1, 0, 1, 0, 1, 0, 1, 0]\<rparr> ex_params of Inl e \<Rightarrow> False | Inr r \<Rightarrow> returns_freq ex_params [1, 2] r)
   \<and> (case mtcpca_all ex_dpss eigh_exact x34 ex_params_vec of Inl e \<Rightarrow> False | Inr r \<Rightarrow> returns_freq ex_params_vec [1, 2] r)
   \<and> mtcpca_timeDomain ex_dpss eigh_exact eigh_real_exact \<lparr>shape = [2, 2, 2], flat = [1, 0, 1, 0, 1, 0, 1, 0]\<rparr> ex_params
       = Inr (Tuple [RArray \<lparr>shape = [2], flat = [Some 1, Some 0]\<rparr>, RArray \<lparr>shape = [2], flat = [Some 1, Some 0]\<rparr>])
   \<and> length [Some 1, Some (0 :: real)] = ntime ones_layout2"
proof -
  note t2 = frequency_axis_returned[where d = ex_dpss and rs = "\<lambda>k. [[[0, 0, 0], [0, 0, 0]]]" and ri = "\<lambda>k. [(0, 1), (1, 0)]"
      and eigh = eigh_exact and eighr = eigh_real_exact and x = "\<lparr>shape = [2, 2], flat = [1, 0, 1, 0]\<rparr>" and p = ex_params]
  note t3 = frequency_axis_returned[where d = ex_dpss and rs = "\<lambda>k. [[[0, 0, 0], [0, 0, 0]]]" and ri = "\<lambda>k. [(0, 1), (1, 0)]"
      and eigh = eigh_exact and eighr = eigh_real_exact and x = "\<lparr>shape = [2, 2, 2], flat = [1, 0, 1, 0, 1, 0, 1, 0]\<rparr>" and p = ex_params]
  note t4 = frequency_axis_returned[where d = ex_dpss and rs = "\<lambda>k. [[[0, 0, 0], [0, 0, 0]]]" and ri = "\<lambda>k. [(0, 1), (1, 0)]"
      and eigh = eigh_exact and eighr = eigh_real_exact and x = "x34" and p = ex_params_vec]
  have nz: "\<not> (windows ex_dpss ones_layout ex_params \<noteq> [] \<and> ntrials ones_layout = 0)"
    "\<not> (windows ex_dpss ones_layout ex_params \<noteq> [] \<and> nchans ones_layout \<noteq> 0 \<and> ntrials ones_layout = 0)"
    by (simp_all add: ones_layout_def)
  note p = per_channel_results[OF ones_per_channel_layout ones_freq]
  note c = cpca_results[OF ones2_cpca_layout ones2_freq]
  note r1 = p(1)[of ex_dpss]
  note r2 = p(3)[of ex_dpss "\<lambda>k. [[[0, 0, 0], [0, 0, 0]]]"]
  note r3 = p(6)[of ex_dpss]
  note r4 = p(4)[of ex_dpss "\<lambda>k. [(0, 1), (1, 0)]", OF nz(1)]
  note r5 = p(2)[of ex_dpss]
  note r6 = p(5)[of ex_dpss "\<lambda>k. [(0, 1), (1, 0)]", OF nz(2)]
  have T: "mtcpca_tapers ex_dpss eigh_exact ones_layout2 ex_params 4 (4 div 2 + 1)
           = Inr [[Some 1, Some 1, Some 1]]"
    "mtcspec_tapers ex_dpss eigh_exact ones_layout2 ex_params 4 (4 div 2 + 1)
           = Inr [[Some 1, Some 1, Some 1]]"
    using ones2_tapers(1) ones2_mtcspec_tapers by simp_all
  note r7 = c(1)[OF T(1)]
  note r8 = c(2)[OF T(2)]
  note r9 = cpca_results(3)[OF x34_cpca_layout x34_freq x34_B]
  have b: "bootstrap ex_params = False" by (simp add: bootstrap_def ex_params_def)
  note r10 = ones2_timeDomain[OF ex_freq_vector2, unfolded b if_False]
  note w1 = returns_case[OF r1 t2[THEN conjunct1, rule_format, OF r1] ones_per_channel_layout ones_freq]
  note w2 = returns_case[OF r2 t2[THEN conjunct2, THEN conjunct1, rule_format, OF r2] ones_per_channel_layout ones_freq]
  note w3 = returns_case[OF r3 t2[THEN conjunct2, THEN conjunct2, THEN conjunct1, rule_format, OF r3] ones_per_channel_layout ones_freq]
  note w4 = returns_case[OF r4 t2[THEN conjunct2, THEN conjunct2, THEN conjunct2, THEN conjunct1, rule_format, OF r4] ones_per_channel_layout ones_freq]
  note w5 = returns_case[OF r5 t2[THEN conjunct2, THEN conjunct2, THEN conjunct2, THEN conjunct2, THEN conjunct1, rule_format, OF r5] ones_per_channel_layout ones_freq]
  note w6 = returns_case[OF r6 t2[THEN conjunct2, THEN conjunct2, THEN conjunct2, THEN conjunct2, THEN conjunct2, THEN conjunct1, rule_format, OF r6] ones_per_channel_layout ones_freq]
  note w7 = returns_case[OF r7 t3[THEN conjunct2, THEN conjunct2, THEN conjunct2, THEN conjunct2, THEN conjunct2, THEN conjunct2, THEN conjunct1, rule_format, OF r7] ones2_cpca_layout ones2_freq]
  note w8 = returns_case[OF r8 t3[THEN conjunct2, THEN conjunct2, THEN conjunct2, THEN conjunct2, THEN conjunct2, THEN conjunct2, THEN conjunct2, THEN conjunct1, rule_format, OF r8] ones2_cpca_layout ones2_freq]
  note w9 = returns_case[OF r9 t4[THEN conjunct2, THEN conjunct2, THEN conjunct2, THEN conjunct2, THEN conjunct2, THEN conjunct2, THEN conjunct2, THEN conjunct2, THEN conjunct1, rule_format, OF r9] x34_cpca_layout x34_freq]
  from t3[THEN conjunct2, THEN conjunct2, THEN conjunct2, THEN conjunct2, THEN conjunct2, THEN conjunct2, THEN conjunct2, THEN conjunct2, THEN conjunct2, rule_format, OF r10]
  obtain L a b where L: "cpca_layout \<lparr>shape = [2, 2, 2], flat = [1, 0, 1, 0, 1, 0, 1, 0]\<rparr> = Inr L"
    and l: "length b = ntime L"
    and r: "Tuple [RArray \<lparr>shape = [2], flat = [Some 1, Some 0]\<rparr>, RArray \<lparr>shape = [2], flat = [Some 1, Some 0]\<rparr>]
            = (if bootstrap ex_params
               then Dict [(''y_cpc'', RArray \<lparr>shape = [length a], flat = a\<rparr>),
                          (''y_pc'', RArray \<lparr>shape = [length b], flat = b\<rparr>)]
               else Tuple [RArray \<lparr>shape = [length a], flat = a\<rparr>,
                           RArray \<lparr>shape = [length b], flat = b\<rparr>])"
    by blast
  from L have L2: "L = ones_layout2" unfolding ones2_cpca_layout by simp
  from r have "b = [Some 1, Some 0]" unfolding b by auto
  with l L2 have w10: "length [Some 1, Some (0 :: real)] = ntime ones_layout2" by simp
  show ?thesis
    by (intro conjI w1 w2 w3 w4 w5 w6 w7 w8 w9 r10 w10)
qed

section \<open>The normalisation of the returned eigenvectors\<close>

lemma eigenvector_array_nth:
  assumes k: "k < length B" and ci: "ci < npc" and ch: "ch < nc" and fi: "fi < nbm"
  shows "flat (eigenvector_array npc nc nbm sel B) ! (((k * npc + ci) * nc + ch) * nbm + fi)
         = Some (sel (B ! k ! fi) ! ci ! ch)"
proof -
  define row where "row Bk ci ch = map (\<lambda>fi. Some (sel (Bk ! fi) ! ci ! ch)) [0..<nbm]" for Bk ci ch
  define comp where "comp Bk ci = concat (map (row Bk ci) [0..<nc])" for Bk ci
  define G where "G Bk = concat (map (comp Bk) [0..<npc])" for Bk
  have lrow: "length (row Bk ci ch) = nbm" for Bk ci ch by (simp add: row_def)
  have lcomp: "length (comp Bk ci) = nc * nbm" for Bk ci
    unfolding comp_def using length_concat_uniform[of "map (row Bk ci) [0..<nc]" nbm]
    by (simp add: lrow)
  have lG: "length (G Bk) = npc * (nc * nbm)" for Bk
    unfolding G_def using length_concat_uniform[of "map (comp Bk) [0..<npc]" "nc * nbm"]
    by (simp add: lcomp)
  have fl: "flat (eigenvector_array npc nc nbm sel B) = concat (map G B)"
    unfolding eigenvector_array_def squeezed_def squeeze_def G_def comp_def row_def by simp
  have j1: "ch * nbm + fi < nc * nbm" by (rule index_bound[OF ch fi])
  have j2: "ci * (nc * nbm) + (ch * nbm + fi) < npc * (nc * nbm)" by (rule index_bound[OF ci j1])
  have idx: "((k * npc + ci) * nc + ch) * nbm + fi
             = k * (npc * (nc * nbm)) + (ci * (nc * nbm) + (ch * nbm + fi))"
    by (simp add: algebra_simps)
  have "concat (map G B) ! (k * (npc * (nc * nbm)) + (ci * (nc * nbm) + (ch * nbm + fi)))
        = map G B ! k ! (ci * (nc * nbm) + (ch * nbm + fi))"
    by (rule concat_nth_uniform) (use k j2 lG in auto)
  also have "\<dots> = G (B ! k) ! (ci * (nc * nbm) + (ch * nbm + fi))" using k by simp
  also have "\<dots> = comp (B ! k) ci ! (ch * nbm + fi)"
    unfolding G_def by (rule concat_upt_nth) (use ci j1 lcomp in auto)
  also have "\<dots> = row (B ! k) ci ch ! fi"
    unfolding comp_def by (rule concat_upt_nth) (use ch fi lrow in auto)
  also have "\<dots> = Some (sel (B ! k ! fi) ! ci ! ch)" using fi by (simp add: row_def)
  finally show ?thesis unfolding fl idx .
qed

lemma eigh_select_Some:
  assumes "eigh_select eigh nc pc col = Inr (vs, vecs)"
  shows "\<exists>cv. those col = Some cv \<and> vecs = snd (eigh (csd cv))"
  using assms
  by (auto simp: eigh_select_def eigh_csd_def split: sum.splits prod.splits option.splits)

lemma mtcpca_all_bin_columns:
  assumes r: "mtcpca_all_bin eigh nc p c plvc itcc = Inr b"
    and v: "returnEigenvectors p = Some True"
    and ci: "ci < length (pc_ranks p)"
  shows "\<exists>cv pv iv. those c = Some cv \<and> those plvc = Some pv \<and> those itcc = Some iv
           \<and> neg_index (snd (eigh (csd cv))) (pc_ranks p ! ci) = Inr (b_spectrumV b ! ci)
           \<and> neg_index (snd (eigh (csd pv))) (pc_ranks p ! ci) = Inr (b_plvV b ! ci)
           \<and> neg_index (snd (eigh (csd iv))) (pc_ranks p ! ci) = Inr (b_itcV b ! ci)"
proof -
  from r obtain sv sve where s: "eigh_select eigh nc (pc_ranks p) c = Inr (sv, sve)"
    by (auto simp: mtcpca_all_bin_def split: sum.splits)
  from r s obtain pv' pve where p: "eigh_select eigh nc (pc_ranks p) plvc = Inr (pv', pve)"
    by (auto simp: mtcpca_all_bin_def split: sum.splits)
  from r s p obtain iv' ive where i: "eigh_select eigh nc (pc_ranks p) itcc = Inr (iv', ive)"
    by (auto simp: mtcpca_all_bin_def split: sum.splits)
  from eigh_select_Some[OF s] obtain cv where cv: "those c = Some cv" by blast
  from eigh_select_Some[OF p] obtain pv where pv: "those plvc = Some pv" by blast
  from eigh_select_Some[OF i] obtain iv where iv: "those itcc = Some iv" by blast
  note m = mtcpca_all_bin_vectors[OF r v cv pv iv]
  from mapE_Inr[OF m(1)] mapE_Inr[OF m(2)] mapE_Inr[OF m(3)] ci cv pv iv
  show ?thesis by blast
qed

lemma mtcpca_all_taper_bins:
  assumes B: "mapE (\<lambda>tap. mtcpca_all_taper eigh L p nbm (g tap)) w = Inr B"
    and k: "k < length w" and fi: "fi < nbm"
  shows "length B = length w"
    and "mtcpca_all_bin eigh (nchans L) p
           (map (\<lambda>row. row ! fi) (map (over_trials nbm mean_coef) (g (w ! k))))
           (map (\<lambda>row. row ! fi) (map (over_trials nbm plv_coef) (g (w ! k))))
           (map (\<lambda>row. row ! fi) (map (over_trials nbm itc_coef) (g (w ! k))))
         = Inr (B ! k ! fi)"
proof -
  note m = mapE_Inr[OF B]
  show "length B = length w" using m by simp
  from m k have t: "mtcpca_all_taper eigh L p nbm (g (w ! k)) = Inr (B ! k)" by simp
  then have "mapE (\<lambda>fi. mtcpca_all_bin eigh (nchans L) p
           (map (\<lambda>row. row ! fi) (map (over_trials nbm mean_coef) (g (w ! k))))
           (map (\<lambda>row. row ! fi) (map (over_trials nbm plv_coef) (g (w ! k))))
           (map (\<lambda>row. row ! fi) (map (over_trials nbm itc_coef) (g (w ! k))))) [0..<nbm]
         = Inr (B ! k)"
    by (simp add: mtcpca_all_taper_def Let_def split: if_splits)
  from mapE_Inr[OF this] fi
  show "mtcpca_all_bin eigh (nchans L) p
           (map (\<lambda>row. row ! fi) (map (over_trials nbm mean_coef) (g (w ! k))))
           (map (\<lambda>row. row ! fi) (map (over_trials nbm plv_coef) (g (w ! k))))
           (map (\<lambda>row. row ! fi) (map (over_trials nbm itc_coef) (g (w ! k))))
         = Inr (B ! k ! fi)"
    by simp
qed

lemma result_field_vectors:
  assumes "returnEigenvectors p = Some True"
  shows "result_field ''spectrumV'' (mtcpca_all_result p nc f B)
           = Some (CArray (eigenvector_array (length (pc_ranks p)) nc (length f) b_spectrumV B))"
    and "result_field ''plvV'' (mtcpca_all_result p nc f B)
           = Some (CArray (eigenvector_array (length (pc_ranks p)) nc (length f) b_plvV B))"
    and "result_field ''itcV'' (mtcpca_all_result p nc f B)
           = Some (CArray (eigenvector_array (length (pc_ranks p)) nc (length f) b_itcV B))"
  using assms by (simp_all add: result_field_def mtcpca_all_result_def Let_def)

lemma timeDomain_bin_run:
  assumes "timeDomain_bin eigh cn c = Inr b"
  shows "\<exists>cnv u. those cn = Some cnv \<and> neg_index (fst (eigh (csd cnv))) 1 = Inr (fst b)
           \<and> neg_index (snd (eigh (csd cnv))) 1 = Inr u
           \<and> snd b = map_option sum_list
                   (those (map2 (\<lambda>wt y. case (wt, y) of
                                          (Some a, Some b) \<Rightarrow> Some (cnj a * b)
                                        | _ \<Rightarrow> None) (cwts u) c))"
  using assms
  by (auto simp: timeDomain_bin_def eigh_csd_def split: sum.splits prod.splits option.splits)

lemma timeDomain_run:
  assumes L: "cpca_layout x = Inr L" and f: "get_freq_vector (ntime L) p = Inr (n, f, fInd)"
    and r: "mtcpca_timeDomain d eigh eighr x p = Inr r"
  shows "\<exists>bins y y_pc.
           mapE (\<lambda>fi. timeDomain_bin eigh
                   (map (\<lambda>row. row ! fi) (map (over_trials (length fInd) Cnorm_coef)
                      (timeDomain_xw (concat (d (ntime L) 1 1)) n (length fInd) L)))
                   (map (\<lambda>row. row ! fi) (map (over_trials (length fInd) fmean)
                      (timeDomain_xw (concat (d (ntime L) 1 1)) n (length fInd) L))))
                [0..<length fInd] = Inr bins
         \<and> irfft (case timeDomain_filter (length fInd) bins of
                     None \<Rightarrow> replicate (length fInd) 0 | Some X \<Rightarrow> X) = Inr y
         \<and> r = (if bootstrap p
                then Dict [(''y_cpc'', RArray \<lparr>shape = [length (take (ntime L) (all_or_none (length y)
                                (map_option (\<lambda>X. y) (timeDomain_filter (length fInd) bins))))],
                              flat = take (ntime L) (all_or_none (length y)
                                (map_option (\<lambda>X. y) (timeDomain_filter (length fInd) bins)))\<rparr>),
                           (''y_pc'', RArray \<lparr>shape = [length y_pc], flat = y_pc\<rparr>)]
                else Tuple [RArray \<lparr>shape = [length (take (ntime L) (all_or_none (length y)
                                (map_option (\<lambda>X. y) (timeDomain_filter (length fInd) bins))))],
                              flat = take (ntime L) (all_or_none (length y)
                                (map_option (\<lambda>X. y) (timeDomain_filter (length fInd) bins)))\<rparr>,
                            RArray \<lparr>shape = [length y_pc], flat = y_pc\<rparr>])"
  using r L f
  by (auto simp: mtcpca_timeDomain_def Let_def split: sum.splits if_splits)

text \<open>
  Claim C3, as amended. When eigenvector retention is requested and \<open>mtcpca_all\<close> returns,
  its result holds under \<open>spectrumV\<close>, \<open>plvV\<close> and \<open>itcV\<close> the squeezed taper \<open>\<times>\<close> component
  \<open>\<times>\<close> channel \<open>\<times>\<close> bin arrays whose entry at taper \<open>k\<close>, component \<open>ci\<close>, channel \<open>ch\<close> and
  passband bin \<open>fi\<close> is entry \<open>ch\<close> of the eigenvector that the solver returned, at the rank
  requested for component \<open>ci\<close>, for the cross-spectral matrix of the power, PLV or ITC
  channel statistic of that taper and bin: the solver's eigenvectors are returned as they
  are, and nothing is divided by the sum of the entries. Whenever \<open>mtcpca_timeDomain\<close>
  returns, its first waveform is the inverse transform of the filtered spectrum of the
  per-bin values, and the value of each bin is the sum over the channels of the channel
  statistic times the conjugate weight, the weights being the solver's dominant eigenvector
  of the bin divided by the sum of the absolute values of its entries; when that sum is not
  zero the absolute values of the weights sum to one.
\<close>

theorem eigenvector_normalisation:
  "(\<forall>L n f fInd B.
      cpca_layout x = Inr L \<and> get_freq_vector (ntime L) p = Inr (n, f, fInd)
      \<and> returnEigenvectors p = Some True
      \<and> mapE (\<lambda>tap. mtcpca_all_taper eigh L p (length f) (mtcpca_all_xw n fInd tap L))
              (windows d L p) = Inr B \<longrightarrow>
        mtcpca_all d eigh x p = Inr (mtcpca_all_result p (nchans L) f B)
      \<and> result_field ''spectrumV'' (mtcpca_all_result p (nchans L) f B)
          = Some (CArray (eigenvector_array (length (pc_ranks p)) (nchans L) (length f) b_spectrumV B))
      \<and> result_field ''plvV'' (mtcpca_all_result p (nchans L) f B)
          = Some (CArray (eigenvector_array (length (pc_ranks p)) (nchans L) (length f) b_plvV B))
      \<and> result_field ''itcV'' (mtcpca_all_result p (nchans L) f B)
          = Some (CArray (eigenvector_array (length (pc_ranks p)) (nchans L) (length f) b_itcV B))
      \<and> length B = length (windows d L p)
      \<and> (\<forall>k fi ci ch.
            k < length (windows d L p) \<and> fi < length f \<and> ci < length (pc_ranks p)
            \<and> ch < nchans L \<longrightarrow>
              (\<exists>cv pv iv.
                  those (map (\<lambda>row. row ! fi) (map (over_trials (length f) mean_coef)
                         (mtcpca_all_xw n fInd (windows d L p ! k) L))) = Some cv
                \<and> those (map (\<lambda>row. row ! fi) (map (over_trials (length f) plv_coef)
                         (mtcpca_all_xw n fInd (windows d L p ! k) L))) = Some pv
                \<and> those (map (\<lambda>row. row ! fi) (map (over_trials (length f) itc_coef)
                         (mtcpca_all_xw n fInd (windows d L p ! k) L))) = Some iv
                \<and> neg_index (snd (eigh (csd cv))) (pc_ranks p ! ci) = Inr (b_spectrumV (B ! k ! fi) ! ci)
                \<and> neg_index (snd (eigh (csd pv))) (pc_ranks p ! ci) = Inr (b_plvV (B ! k ! fi) ! ci)
                \<and> neg_index (snd (eigh (csd iv))) (pc_ranks p ! ci) = Inr (b_itcV (B ! k ! fi) ! ci))
            \<and> flat (eigenvector_array (length (pc_ranks p)) (nchans L) (length f) b_spectrumV B) ! (((k * length (pc_ranks p) + ci) * nchans L + ch) * length f + fi)
                = Some (b_spectrumV (B ! k ! fi) ! ci ! ch)
            \<and> flat (eigenvector_array (length (pc_ranks p)) (nchans L) (length f) b_plvV B) ! (((k * length (pc_ranks p) + ci) * nchans L + ch) * length f + fi)
                = Some (b_plvV (B ! k ! fi) ! ci ! ch)
            \<and> flat (eigenvector_array (length (pc_ranks p)) (nchans L) (length f) b_itcV B) ! (((k * length (pc_ranks p) + ci) * nchans L + ch) * length f + fi)
                = Some (b_itcV (B ! k ! fi) ! ci ! ch)))
   \<and> (\<forall>L n f fInd r.
        cpca_layout x = Inr L \<and> get_freq_vector (ntime L) p = Inr (n, f, fInd)
        \<and> mtcpca_timeDomain d eigh eighr x p = Inr r \<longrightarrow>
        (\<exists>bins y y_pc.
           mapE (\<lambda>fi. timeDomain_bin eigh
                   (map (\<lambda>row. row ! fi) (map (over_trials (length fInd) Cnorm_coef)
                      (timeDomain_xw (concat (d (ntime L) 1 1)) n (length fInd) L)))
                   (map (\<lambda>row. row ! fi) (map (over_trials (length fInd) fmean)
                      (timeDomain_xw (concat (d (ntime L) 1 1)) n (length fInd) L))))
                [0..<length fInd] = Inr bins
         \<and> irfft (case timeDomain_filter (length fInd) bins of
                     None \<Rightarrow> replicate (length fInd) 0 | Some X \<Rightarrow> X) = Inr y
         \<and> r = (if bootstrap p
                then Dict [(''y_cpc'', RArray \<lparr>shape = [length (take (ntime L) (all_or_none (length y)
                                (map_option (\<lambda>X. y) (timeDomain_filter (length fInd) bins))))],
                              flat = (take (ntime L) (all_or_none (length y)
                                (map_option (\<lambda>X. y) (timeDomain_filter (length fInd) bins))))\<rparr>),
                           (''y_pc'', RArray \<lparr>shape = [length y_pc], flat = y_pc\<rparr>)]
                else Tuple [RArray \<lparr>shape = [length (take (ntime L) (all_or_none (length y)
                                (map_option (\<lambda>X. y) (timeDomain_filter (length fInd) bins))))],
                              flat = (take (ntime L) (all_or_none (length y)
                                (map_option (\<lambda>X. y) (timeDomain_filter (length fInd) bins))))\<rparr>,
                            RArray \<lparr>shape = [length y_pc], flat = y_pc\<rparr>])
         \<and> (\<forall>fi < length fInd.
               \<exists>cnv u.
                  those (map (\<lambda>row. row ! fi) (map (over_trials (length fInd) Cnorm_coef)
                      (timeDomain_xw (concat (d (ntime L) 1 1)) n (length fInd) L))) = Some cnv
                \<and> neg_index (snd (eigh (csd cnv))) 1 = Inr u
                \<and> snd (bins ! fi) = map_option sum_list
                     (those (map2 (\<lambda>wt y. case (wt, y) of
                                            (Some a, Some b) \<Rightarrow> Some (cnj a * b)
                                          | _ \<Rightarrow> None) (cwts u)
                        (map (\<lambda>row. row ! fi) (map (over_trials (length fInd) fmean)
                           (timeDomain_xw (concat (d (ntime L) 1 1)) n (length fInd) L))))))))
   \<and> (\<forall>u. sum_list (map cmod u) \<noteq> 0 \<longrightarrow>
        cwts u = map (\<lambda>z. Some (z / complex_of_real (sum_list (map cmod u)))) u
      \<and> sum_list (map (\<lambda>z. cmod (z / complex_of_real (sum_list (map cmod u)))) u) = 1)"
proof (intro conjI allI impI)
  fix L n f fInd B
  assume h: "cpca_layout x = Inr L \<and> get_freq_vector (ntime L) p = Inr (n, f, fInd)
      \<and> returnEigenvectors p = Some True
      \<and> mapE (\<lambda>tap. mtcpca_all_taper eigh L p (length f) (mtcpca_all_xw n fInd tap L))
              (windows d L p) = Inr B"
  then have L: "cpca_layout x = Inr L" and f: "get_freq_vector (ntime L) p = Inr (n, f, fInd)"
    and v: "returnEigenvectors p = Some True"
    and B: "mapE (\<lambda>tap. mtcpca_all_taper eigh L p (length f) (mtcpca_all_xw n fInd tap L))
              (windows d L p) = Inr B"
    by simp_all
  show "mtcpca_all d eigh x p = Inr (mtcpca_all_result p (nchans L) f B)"
    by (rule cpca_results(3)[OF L f B])
  show "result_field ''spectrumV'' (mtcpca_all_result p (nchans L) f B)
          = Some (CArray (eigenvector_array (length (pc_ranks p)) (nchans L) (length f) b_spectrumV B))"
    by (rule result_field_vectors(1)[OF v])
  show "result_field ''plvV'' (mtcpca_all_result p (nchans L) f B)
          = Some (CArray (eigenvector_array (length (pc_ranks p)) (nchans L) (length f) b_plvV B))"
    by (rule result_field_vectors(2)[OF v])
  show "result_field ''itcV'' (mtcpca_all_result p (nchans L) f B)
          = Some (CArray (eigenvector_array (length (pc_ranks p)) (nchans L) (length f) b_itcV B))"
    by (rule result_field_vectors(3)[OF v])
  show lB: "length B = length (windows d L p)"
    using mapE_Inr[OF B] by simp
  fix k fi ci ch
  assume i: "k < length (windows d L p) \<and> fi < length f \<and> ci < length (pc_ranks p)
            \<and> ch < nchans L"
  then have k: "k < length (windows d L p)" and fi: "fi < length f"
    and ci: "ci < length (pc_ranks p)" and ch: "ch < nchans L" by simp_all
  note b = mtcpca_all_taper_bins(2)[OF B k fi]
  show "\<exists>cv pv iv.
                  those (map (\<lambda>row. row ! fi) (map (over_trials (length f) mean_coef)
                         (mtcpca_all_xw n fInd (windows d L p ! k) L))) = Some cv
                \<and> those (map (\<lambda>row. row ! fi) (map (over_trials (length f) plv_coef)
                         (mtcpca_all_xw n fInd (windows d L p ! k) L))) = Some pv
                \<and> those (map (\<lambda>row. row ! fi) (map (over_trials (length f) itc_coef)
                         (mtcpca_all_xw n fInd (windows d L p ! k) L))) = Some iv
                \<and> neg_index (snd (eigh (csd cv))) (pc_ranks p ! ci) = Inr (b_spectrumV (B ! k ! fi) ! ci)
                \<and> neg_index (snd (eigh (csd pv))) (pc_ranks p ! ci) = Inr (b_plvV (B ! k ! fi) ! ci)
                \<and> neg_index (snd (eigh (csd iv))) (pc_ranks p ! ci) = Inr (b_itcV (B ! k ! fi) ! ci)"
    by (rule mtcpca_all_bin_columns[OF b v ci])
  have kB: "k < length B" using k lB by simp
  show "flat (eigenvector_array (length (pc_ranks p)) (nchans L) (length f) b_spectrumV B) ! (((k * length (pc_ranks p) + ci) * nchans L + ch) * length f + fi)
                = Some (b_spectrumV (B ! k ! fi) ! ci ! ch)"
    by (rule eigenvector_array_nth[OF kB ci ch fi])
  show "flat (eigenvector_array (length (pc_ranks p)) (nchans L) (length f) b_plvV B) ! (((k * length (pc_ranks p) + ci) * nchans L + ch) * length f + fi)
                = Some (b_plvV (B ! k ! fi) ! ci ! ch)"
    by (rule eigenvector_array_nth[OF kB ci ch fi])
  show "flat (eigenvector_array (length (pc_ranks p)) (nchans L) (length f) b_itcV B) ! (((k * length (pc_ranks p) + ci) * nchans L + ch) * length f + fi)
                = Some (b_itcV (B ! k ! fi) ! ci ! ch)"
    by (rule eigenvector_array_nth[OF kB ci ch fi])
next
  fix L n f fInd r
  assume h: "cpca_layout x = Inr L \<and> get_freq_vector (ntime L) p = Inr (n, f, fInd)
        \<and> mtcpca_timeDomain d eigh eighr x p = Inr r"
  then have L: "cpca_layout x = Inr L" and f: "get_freq_vector (ntime L) p = Inr (n, f, fInd)"
    and r: "mtcpca_timeDomain d eigh eighr x p = Inr r" by simp_all
  from timeDomain_run[OF L f r] obtain bins y y_pc where
    m: "mapE (\<lambda>fi. timeDomain_bin eigh
                   (map (\<lambda>row. row ! fi) (map (over_trials (length fInd) Cnorm_coef)
                      (timeDomain_xw (concat (d (ntime L) 1 1)) n (length fInd) L)))
                   (map (\<lambda>row. row ! fi) (map (over_trials (length fInd) fmean)
                      (timeDomain_xw (concat (d (ntime L) 1 1)) n (length fInd) L))))
                [0..<length fInd] = Inr bins"
    and rest: "irfft (case timeDomain_filter (length fInd) bins of
                     None \<Rightarrow> replicate (length fInd) 0 | Some X \<Rightarrow> X) = Inr y
         \<and> r = (if bootstrap p
                then Dict [(''y_cpc'', RArray \<lparr>shape = [length (take (ntime L) (all_or_none (length y)
                                (map_option (\<lambda>X. y) (timeDomain_filter (length fInd) bins))))],
                              flat = (take (ntime L) (all_or_none (length y)
                                (map_option (\<lambda>X. y) (timeDomain_filter (length fInd) bins))))\<rparr>),
                           (''y_pc'', RArray \<lparr>shape = [length y_pc], flat = y_pc\<rparr>)]
                else Tuple [RArray \<lparr>shape = [length (take (ntime L) (all_or_none (length y)
                                (map_option (\<lambda>X. y) (timeDomain_filter (length fInd) bins))))],
                              flat = (take (ntime L) (all_or_none (length y)
                                (map_option (\<lambda>X. y) (timeDomain_filter (length fInd) bins))))\<rparr>,
                            RArray \<lparr>shape = [length y_pc], flat = y_pc\<rparr>])"
    by blast
  have w: "\<forall>fi < length fInd.
               \<exists>cnv u.
                  those (map (\<lambda>row. row ! fi) (map (over_trials (length fInd) Cnorm_coef)
                      (timeDomain_xw (concat (d (ntime L) 1 1)) n (length fInd) L))) = Some cnv
                \<and> neg_index (snd (eigh (csd cnv))) 1 = Inr u
                \<and> snd (bins ! fi) = map_option sum_list
                     (those (map2 (\<lambda>wt y. case (wt, y) of
                                            (Some a, Some b) \<Rightarrow> Some (cnj a * b)
                                          | _ \<Rightarrow> None) (cwts u)
                        (map (\<lambda>row. row ! fi) (map (over_trials (length fInd) fmean)
                           (timeDomain_xw (concat (d (ntime L) 1 1)) n (length fInd) L)))))"
  proof (intro allI impI)
    fix fi assume fi: "fi < length fInd"
    from mapE_Inr[OF m] fi have "timeDomain_bin eigh
                   (map (\<lambda>row. row ! fi) (map (over_trials (length fInd) Cnorm_coef)
                      (timeDomain_xw (concat (d (ntime L) 1 1)) n (length fInd) L)))
                   (map (\<lambda>row. row ! fi) (map (over_trials (length fInd) fmean)
                      (timeDomain_xw (concat (d (ntime L) 1 1)) n (length fInd) L))) = Inr (bins ! fi)"
      by simp
    from timeDomain_bin_run[OF this]
    show "\<exists>cnv u.
                  those (map (\<lambda>row. row ! fi) (map (over_trials (length fInd) Cnorm_coef)
                      (timeDomain_xw (concat (d (ntime L) 1 1)) n (length fInd) L))) = Some cnv
                \<and> neg_index (snd (eigh (csd cnv))) 1 = Inr u
                \<and> snd (bins ! fi) = map_option sum_list
                     (those (map2 (\<lambda>wt y. case (wt, y) of
                                            (Some a, Some b) \<Rightarrow> Some (cnj a * b)
                                          | _ \<Rightarrow> None) (cwts u)
                        (map (\<lambda>row. row ! fi) (map (over_trials (length fInd) fmean)
                           (timeDomain_xw (concat (d (ntime L) 1 1)) n (length fInd) L)))))"
      by blast
  qed
  show "\<exists>bins y y_pc.
           mapE (\<lambda>fi. timeDomain_bin eigh
                   (map (\<lambda>row. row ! fi) (map (over_trials (length fInd) Cnorm_coef)
                      (timeDomain_xw (concat (d (ntime L) 1 1)) n (length fInd) L)))
                   (map (\<lambda>row. row ! fi) (map (over_trials (length fInd) fmean)
                      (timeDomain_xw (concat (d (ntime L) 1 1)) n (length fInd) L))))
                [0..<length fInd] = Inr bins
         \<and> irfft (case timeDomain_filter (length fInd) bins of
                     None \<Rightarrow> replicate (length fInd) 0 | Some X \<Rightarrow> X) = Inr y
         \<and> r = (if bootstrap p
                then Dict [(''y_cpc'', RArray \<lparr>shape = [length (take (ntime L) (all_or_none (length y)
                                (map_option (\<lambda>X. y) (timeDomain_filter (length fInd) bins))))],
                              flat = (take (ntime L) (all_or_none (length y)
                                (map_option (\<lambda>X. y) (timeDomain_filter (length fInd) bins))))\<rparr>),
                           (''y_pc'', RArray \<lparr>shape = [length y_pc], flat = y_pc\<rparr>)]
                else Tuple [RArray \<lparr>shape = [length (take (ntime L) (all_or_none (length y)
                                (map_option (\<lambda>X. y) (timeDomain_filter (length fInd) bins))))],
                              flat = (take (ntime L) (all_or_none (length y)
                                (map_option (\<lambda>X. y) (timeDomain_filter (length fInd) bins))))\<rparr>,
                            RArray \<lparr>shape = [length y_pc], flat = y_pc\<rparr>])
         \<and> (\<forall>fi < length fInd.
               \<exists>cnv u.
                  those (map (\<lambda>row. row ! fi) (map (over_trials (length fInd) Cnorm_coef)
                      (timeDomain_xw (concat (d (ntime L) 1 1)) n (length fInd) L))) = Some cnv
                \<and> neg_index (snd (eigh (csd cnv))) 1 = Inr u
                \<and> snd (bins ! fi) = map_option sum_list
                     (those (map2 (\<lambda>wt y. case (wt, y) of
                                            (Some a, Some b) \<Rightarrow> Some (cnj a * b)
                                          | _ \<Rightarrow> None) (cwts u)
                        (map (\<lambda>row. row ! fi) (map (over_trials (length fInd) fmean)
                           (timeDomain_xw (concat (d (ntime L) 1 1)) n (length fInd) L))))))"
    using m rest w by blast
next
  fix u :: "complex list" assume "sum_list (map cmod u) \<noteq> 0"
  then show "cwts u = map (\<lambda>z. Some (z / complex_of_real (sum_list (map cmod u)))) u"
    and "sum_list (map (\<lambda>z. cmod (z / complex_of_real (sum_list (map cmod u)))) u) = 1"
    by (rule cwts_eq)+
qed

text \<open>
  Claim C3 as stated fails on \<open>x34\<close>: the power eigenvector that \<open>mtcpca_all\<close> returns at
  each bin is the solver's unit vector \<open>(3/5, 4/5)\<close>, whose entries sum to \<open>7/5\<close>; divided
  by the sum of its entries it would be \<open>(3/7, 4/7)\<close>.
\<close>

theorem raw_eigenvector_counterexample:
  "mtcpca_all ex_dpss eigh_exact x34 ex_params_vec
     = Inr (Tuple [Dict [(''spectrum'', RArray \<lparr>shape = [2], flat = [Some (25 / 2), Some (25 / 2)]\<rparr>),
                    (''plv'', RArray \<lparr>shape = [2], flat = [Some 1, Some 1]\<rparr>),
                    (''itc'', RArray \<lparr>shape = [2], flat = [Some 1, Some 1]\<rparr>),
                    (''spectrumV'', CArray \<lparr>shape = [2, 2],
                        flat = [Some (3 / 5), Some (3 / 5), Some (4 / 5), Some (4 / 5)]\<rparr>),
                    (''plvV'', CArray \<lparr>shape = [2, 2],
                        flat = [Some (1 / complex_of_real (sqrt 2)), Some (1 / complex_of_real (sqrt 2)),
                                Some (1 / complex_of_real (sqrt 2)), Some (1 / complex_of_real (sqrt 2))]\<rparr>),
                    (''itcV'', CArray \<lparr>shape = [2, 2],
                        flat = [Some (1 / complex_of_real (sqrt 2)), Some (1 / complex_of_real (sqrt 2)),
                                Some (1 / complex_of_real (sqrt 2)), Some (1 / complex_of_real (sqrt 2))]\<rparr>)],
              freq_array [1, 2]])
   \<and> snd (eigh_exact (csd [3, 4])) = [[- (4 / 5), 3 / 5], [3 / 5, 4 / 5]]
   \<and> sum_list [3 / 5, 4 / 5 :: complex] = 7 / 5"
proof -
  have nc: "nchans x34_layout = 2" by (simp add: x34_layout_def)
  have "mtcpca_all ex_dpss eigh_exact x34 ex_params_vec
        = Inr (mtcpca_all_result ex_params_vec (nchans x34_layout) [1, 2] [[bin34, bin34]])"
    by (rule cpca_results(3)[OF x34_cpca_layout x34_freq x34_B])
  then show ?thesis unfolding nc x34_result by (simp add: eigh_exact_34)
qed

lemma x34_column:
  "map (\<lambda>row. row ! 0) (map (over_trials (length [1, 2 :: real]) mean_coef)
      (mtcpca_all_xw 4 [False, True, True] (windows ex_dpss x34_layout ex_params_vec ! 0) x34_layout))
   = [Some 3, Some 4]"
proof -
  have l: "length [1, 2 :: real] = 2" by simp
  have w: "windows ex_dpss x34_layout ex_params_vec ! 0 = [1, 1]" by (simp add: x34_windows)
  show ?thesis unfolding l w x34_xw by (simp add: over_trials_2 mean_coef_pair)
qed

lemma ones2_td_bins:
  "mapE (\<lambda>fi. timeDomain_bin eigh_exact
                   (map (\<lambda>row. row ! fi) (map (over_trials (length [False, True, True]) Cnorm_coef)
                      (timeDomain_xw (concat (ex_dpss (ntime ones_layout2) 1 1)) 4 (length [False, True, True]) ones_layout2)))
                   (map (\<lambda>row. row ! fi) (map (over_trials (length [False, True, True]) fmean)
                      (timeDomain_xw (concat (ex_dpss (ntime ones_layout2) 1 1)) 4 (length [False, True, True]) ones_layout2))))
                [0..<length [False, True, True]]
   = Inr [(2, Some 1), (2, Some 1), (2, Some 1)]"
proof -
  have nb: "length [False, True, True] = 3" by simp
  have nt: "ntime ones_layout2 = 2" by (simp add: ones_layout2_def)
  show ?thesis unfolding nb nt td_w0 td_xw_ones td_C td_Cnorm by (rule td_bins)
qed

lemma ones2_td_columns:
  "map (\<lambda>row. row ! 0) (map (over_trials (length [False, True, True]) Cnorm_coef)
      (timeDomain_xw (concat (ex_dpss (ntime ones_layout2) 1 1)) 4 (length [False, True, True]) ones_layout2)) = [Some 1, Some 1]"
  "map (\<lambda>row. row ! 0) (map (over_trials (length [False, True, True]) fmean)
      (timeDomain_xw (concat (ex_dpss (ntime ones_layout2) 1 1)) 4 (length [False, True, True]) ones_layout2)) = [Some 1, Some 1]"
proof -
  have nb: "length [False, True, True] = 3" by simp
  have nt: "ntime ones_layout2 = 2" by (simp add: ones_layout2_def)
  show "map (\<lambda>row. row ! 0) (map (over_trials (length [False, True, True]) Cnorm_coef)
      (timeDomain_xw (concat (ex_dpss (ntime ones_layout2) 1 1)) 4 (length [False, True, True]) ones_layout2)) = [Some 1, Some 1]"
    unfolding nb nt td_w0 td_xw_ones td_Cnorm by simp
  show "map (\<lambda>row. row ! 0) (map (over_trials (length [False, True, True]) fmean)
      (timeDomain_xw (concat (ex_dpss (ntime ones_layout2) 1 1)) 4 (length [False, True, True]) ones_layout2)) = [Some 1, Some 1]"
    unfolding nb nt td_w0 td_xw_ones td_C by simp
qed

lemma dominant_11:
  "neg_index (snd (eigh_exact (csd [1, 1]))) 1 = Inr [1 / complex_of_real (sqrt 2), 1 / complex_of_real (sqrt 2)]"
  by (simp add: eigh_exact_11 neg_index_def)

theorem eigenvector_normalisation_witness:
  "mtcpca_all ex_dpss eigh_exact x34 ex_params_vec
     = Inr (mtcpca_all_result ex_params_vec (nchans x34_layout) [1, 2] [[bin34, bin34]])
   \<and> result_field ''spectrumV'' (mtcpca_all_result ex_params_vec (nchans x34_layout) [1, 2] [[bin34, bin34]])
       = Some (CArray (eigenvector_array (length (pc_ranks ex_params_vec)) (nchans x34_layout) (length [1, 2 :: real]) b_spectrumV [[bin34, bin34]]))
   \<and> neg_index (snd (eigh_exact (csd [3, 4]))) (pc_ranks ex_params_vec ! 0)
       = Inr (b_spectrumV ([[bin34, bin34]] ! 0 ! 0) ! 0)
   \<and> flat (eigenvector_array (length (pc_ranks ex_params_vec)) (nchans x34_layout) (length [1, 2 :: real]) b_spectrumV [[bin34, bin34]])
         ! (((0 * length (pc_ranks ex_params_vec) + 0) * nchans x34_layout + 1) * length [1, 2 :: real] + 0)
       = Some (b_spectrumV ([[bin34, bin34]] ! 0 ! 0) ! 0 ! 1)
   \<and> b_spectrumV ([[bin34, bin34]] ! 0 ! 0) ! 0 ! 1 = 4 / 5
   \<and> mtcpca_timeDomain ex_dpss eigh_exact eigh_real_exact \<lparr>shape = [2, 2, 2], flat = [1, 0, 1, 0, 1, 0, 1, 0]\<rparr> ex_params
       = Inr (Tuple [RArray \<lparr>shape = [2], flat = [Some 1, Some 0]\<rparr>, RArray \<lparr>shape = [2], flat = [Some 1, Some 0]\<rparr>])
   \<and> map_option sum_list
         (those (map2 (\<lambda>wt y. case (wt, y) of
                                (Some a, Some b) \<Rightarrow> Some (cnj a * b)
                              | _ \<Rightarrow> None)
                   (cwts [1 / complex_of_real (sqrt 2), 1 / complex_of_real (sqrt 2)]) [Some 1, Some 1])) = Some 1
   \<and> cwts [1 / complex_of_real (sqrt 2), 1 / complex_of_real (sqrt 2)]
       = map (\<lambda>z. Some (z / complex_of_real (sum_list (map cmod [1 / complex_of_real (sqrt 2), 1 / complex_of_real (sqrt 2)]))))
           [1 / complex_of_real (sqrt 2), 1 / complex_of_real (sqrt 2)]
   \<and> sum_list (map (\<lambda>z. cmod (z / complex_of_real (sum_list (map cmod [1 / complex_of_real (sqrt 2), 1 / complex_of_real (sqrt 2)]))))
         [1 / complex_of_real (sqrt 2), 1 / complex_of_real (sqrt 2)]) = 1"
proof -
  note t1 = eigenvector_normalisation[where x = x34 and p = ex_params_vec and d = ex_dpss
      and eigh = eigh_exact and eighr = eigh_real_exact]
  note t2 = eigenvector_normalisation[where x = "\<lparr>shape = [2, 2, 2], flat = [1, 0, 1, 0, 1, 0, 1, 0]\<rparr>" and p = ex_params and d = ex_dpss
      and eigh = eigh_exact and eighr = eigh_real_exact]
  have rv: "returnEigenvectors ex_params_vec = Some True" by (simp add: ex_params_vec_def)
  have h1: "cpca_layout x34 = Inr x34_layout
      \<and> get_freq_vector (ntime x34_layout) ex_params_vec = Inr (4, [1, 2], [False, True, True])
      \<and> returnEigenvectors ex_params_vec = Some True
      \<and> mapE (\<lambda>tap. mtcpca_all_taper eigh_exact x34_layout ex_params_vec (length [1, 2 :: real])
                  (mtcpca_all_xw 4 [False, True, True] tap x34_layout))
              (windows ex_dpss x34_layout ex_params_vec) = Inr [[bin34, bin34]]"
    using x34_cpca_layout x34_freq rv x34_B by blast
  note a = t1[THEN conjunct1, rule_format, OF h1]
  note a1 = a[THEN conjunct1]
  note a2 = a[THEN conjunct2, THEN conjunct1]
  have i: "0 < length (windows ex_dpss x34_layout ex_params_vec) \<and> 0 < length [1, 2 :: real]
      \<and> 0 < length (pc_ranks ex_params_vec) \<and> 1 < nchans x34_layout"
    unfolding x34_windows vec_pc_ranks by (simp add: x34_layout_def)
  note e = a[THEN conjunct2, THEN conjunct2, THEN conjunct2, THEN conjunct2, THEN conjunct2,
      rule_format, OF i]
  from e[THEN conjunct1] obtain cv where
    cv: "those (map (\<lambda>row. row ! 0) (map (over_trials (length [1, 2 :: real]) mean_coef)
            (mtcpca_all_xw 4 [False, True, True] (windows ex_dpss x34_layout ex_params_vec ! 0)
               x34_layout))) = Some cv"
    and n: "neg_index (snd (eigh_exact (csd cv))) (pc_ranks ex_params_vec ! 0)
            = Inr (b_spectrumV ([[bin34, bin34]] ! 0 ! 0) ! 0)"
    by blast
  from cv have "cv = [3, 4]" unfolding x34_column by simp
  with n have a3: "neg_index (snd (eigh_exact (csd [3, 4]))) (pc_ranks ex_params_vec ! 0)
            = Inr (b_spectrumV ([[bin34, bin34]] ! 0 ! 0) ! 0)" by simp
  note a4 = e[THEN conjunct2, THEN conjunct1]
  have a5: "b_spectrumV ([[bin34, bin34]] ! 0 ! 0) ! 0 ! 1 = 4 / 5" by (simp add: bin34_def)
  have b: "bootstrap ex_params = False" by (simp add: bootstrap_def ex_params_def)
  note r10 = ones2_timeDomain[OF ex_freq_vector2, unfolded b if_False]
  have h2: "cpca_layout \<lparr>shape = [2, 2, 2], flat = [1, 0, 1, 0, 1, 0, 1, 0]\<rparr> = Inr ones_layout2
      \<and> get_freq_vector (ntime ones_layout2) ex_params = Inr (4, [1, 2], [False, True, True])
      \<and> mtcpca_timeDomain ex_dpss eigh_exact eigh_real_exact \<lparr>shape = [2, 2, 2], flat = [1, 0, 1, 0, 1, 0, 1, 0]\<rparr> ex_params
          = Inr (Tuple [RArray \<lparr>shape = [2], flat = [Some 1, Some 0]\<rparr>, RArray \<lparr>shape = [2], flat = [Some 1, Some 0]\<rparr>])"
    using ones2_cpca_layout ones2_freq r10 by blast
  from t2[THEN conjunct2, THEN conjunct1, rule_format, OF h2]
  obtain bins where
    m: "mapE (\<lambda>fi. timeDomain_bin eigh_exact
                   (map (\<lambda>row. row ! fi) (map (over_trials (length [False, True, True]) Cnorm_coef)
                      (timeDomain_xw (concat (ex_dpss (ntime ones_layout2) 1 1)) 4 (length [False, True, True]) ones_layout2)))
                   (map (\<lambda>row. row ! fi) (map (over_trials (length [False, True, True]) fmean)
                      (timeDomain_xw (concat (ex_dpss (ntime ones_layout2) 1 1)) 4 (length [False, True, True]) ones_layout2))))
                [0..<length [False, True, True]] = Inr bins"
    and w: "\<forall>fi < length [False, True, True].
               \<exists>cnv u.
                  those (map (\<lambda>row. row ! fi) (map (over_trials (length [False, True, True]) Cnorm_coef)
                      (timeDomain_xw (concat (ex_dpss (ntime ones_layout2) 1 1)) 4 (length [False, True, True]) ones_layout2))) = Some cnv
                \<and> neg_index (snd (eigh_exact (csd cnv))) 1 = Inr u
                \<and> snd (bins ! fi) = map_option sum_list
                     (those (map2 (\<lambda>wt y. case (wt, y) of
                                            (Some a, Some b) \<Rightarrow> Some (cnj a * b)
                                          | _ \<Rightarrow> None) (cwts u)
                        (map (\<lambda>row. row ! fi) (map (over_trials (length [False, True, True]) fmean)
                           (timeDomain_xw (concat (ex_dpss (ntime ones_layout2) 1 1)) 4 (length [False, True, True]) ones_layout2)))))"
    by blast
  from m have bins: "bins = [(2, Some 1), (2, Some 1), (2, Some 1)]"
    unfolding ones2_td_bins by simp
  have "0 < length [False, True, True]" by simp
  with w obtain cnv u where
    c1: "those (map (\<lambda>row. row ! 0) (map (over_trials (length [False, True, True]) Cnorm_coef)
                      (timeDomain_xw (concat (ex_dpss (ntime ones_layout2) 1 1)) 4 (length [False, True, True]) ones_layout2))) = Some cnv"
    and c2: "neg_index (snd (eigh_exact (csd cnv))) 1 = Inr u"
    and c3: "snd (bins ! 0) = map_option sum_list
                     (those (map2 (\<lambda>wt y. case (wt, y) of
                                            (Some a, Some b) \<Rightarrow> Some (cnj a * b)
                                          | _ \<Rightarrow> None) (cwts u)
                        (map (\<lambda>row. row ! 0) (map (over_trials (length [False, True, True]) fmean)
                           (timeDomain_xw (concat (ex_dpss (ntime ones_layout2) 1 1)) 4 (length [False, True, True]) ones_layout2)))))"
    by blast
  from c1 have cnv: "cnv = [1, 1]" unfolding ones2_td_columns by simp
  from c2 have u: "u = [1 / complex_of_real (sqrt 2), 1 / complex_of_real (sqrt 2)]"
    unfolding cnv dominant_11 by simp
  from c3 have a7: "map_option sum_list
         (those (map2 (\<lambda>wt y. case (wt, y) of
                                (Some a, Some b) \<Rightarrow> Some (cnj a * b)
                              | _ \<Rightarrow> None)
                   (cwts [1 / complex_of_real (sqrt 2), 1 / complex_of_real (sqrt 2)]) [Some 1, Some 1])) = Some 1"
    unfolding u ones2_td_columns bins by simp
  have nz: "sum_list (map cmod [1 / complex_of_real (sqrt 2), 1 / complex_of_real (sqrt 2)]) \<noteq> 0"
    by (simp add: norm_divide)
  note c = t1[THEN conjunct2, THEN conjunct2, rule_format, OF nz]
  note a8 = c[THEN conjunct1]
  note a9 = c[THEN conjunct2]
  show ?thesis by (intro conjI a1 a2 a3 a4 a5 r10 a7 a8 a9)
qed

section \<open>One channel\<close>

lemma cpca_layout_one_channel: "shape x = [1, t, n] \<Longrightarrow> cpca_layout x = Inl UnboundLocalError"
  by (simp add: cpca_layout_def shape_squeeze split: list.splits)

lemma cpca_layout_nchans: "cpca_layout x = Inr L \<Longrightarrow> nchans L \<noteq> 1"
proof -
  assume a: "cpca_layout x = Inr L"
  then obtain c t n where s: "shape (squeeze x) = [c, t, n]" and c: "nchans L = c"
    by (auto simp: cpca_layout_def split: list.splits)
  have "c \<in> set (filter (\<lambda>d. d \<noteq> 1) (shape x))" using s by (simp add: shape_squeeze)
  then show ?thesis using c by simp
qed

lemma per_channel_layout_short:
  "shape x = [1, t, n] \<Longrightarrow> t = 1 \<or> n = 1 \<Longrightarrow> per_channel_layout x = Inl UnboundLocalError"
  by (auto simp: per_channel_layout_def shape_squeeze split: list.splits)

text \<open>
  Claim C4, as amended. On every one-channel recording, of shape \<open>(1, t, n)\<close>, \<open>mtcpca\<close>
  raises \<open>UnboundLocalError\<close>: \<open>squeeze\<close> removes the channel axis, the array is no longer
  three-dimensional and the estimator runs into its shape branch; no layout on which
  \<open>mtcpca\<close> proceeds has one channel. \<open>mtplv\<close> on the same recording, when \<open>t \<noteq> 1\<close> and
  \<open>n \<noteq> 1\<close>, lays it out as one channel of \<open>t\<close> trials and, whenever \<open>_get_freq_vector\<close>
  returns, returns the masked taper mean of that channel's PLV and the frequency axis; when
  \<open>t = 1\<close> or \<open>n = 1\<close> it raises \<open>UnboundLocalError\<close> as well.
\<close>

theorem single_channel_cpca:
  "(shape x = [1, t, n] \<longrightarrow> mtcpca d eigh x p = Inl UnboundLocalError)
   \<and> (\<forall>L. cpca_layout x = Inr L \<longrightarrow> nchans L \<noteq> 1)
   \<and> (shape x = [1, t, n] \<and> t \<noteq> 1 \<and> n \<noteq> 1 \<longrightarrow>
        (\<forall>nf f fInd. get_freq_vector n p = Inr (nf, f, fInd) \<longrightarrow>
           mtplv d x p = Inr (pack p ''mtplv''
             (RArray (masked_rows [1, length f] fInd
                (mean_tapers 1 (nf div 2 + 1)
                   (mtplv_tapers d \<lparr>timedim = 1, trialdim = 0, nchans = 1, ntrials = t, ntime = n,
                                    chans = [rows t n (flat x)]\<rparr> p nf (nf div 2 + 1))))) f)))
   \<and> (shape x = [1, t, n] \<and> (t = 1 \<or> n = 1) \<longrightarrow> mtplv d x p = Inl UnboundLocalError)"
proof (intro conjI allI impI)
  assume "shape x = [1, t, n]"
  then show "mtcpca d eigh x p = Inl UnboundLocalError"
    by (simp add: mtcpca_def cpca_layout_one_channel)
next
  fix L assume "cpca_layout x = Inr L"
  then show "nchans L \<noteq> 1" by (rule cpca_layout_nchans)
next
  fix nf f fInd
  assume h: "shape x = [1, t, n] \<and> t \<noteq> 1 \<and> n \<noteq> 1"
    and f: "get_freq_vector n p = Inr (nf, f, fInd)"
  let ?L = "\<lparr>timedim = 1, trialdim = 0, nchans = 1, ntrials = t, ntime = n,
             chans = [rows t n (flat x)]\<rparr>"
  from h have L: "per_channel_layout x = Inr ?L" using single_channel_layout(1)[of x t n] by simp
  have f': "get_freq_vector (ntime ?L) p = Inr (nf, f, fInd)" using f by simp
  from per_channel_results(1)[OF L f', of d]
  show "mtplv d x p = Inr (pack p ''mtplv''
             (RArray (masked_rows [1, length f] fInd
                (mean_tapers 1 (nf div 2 + 1) (mtplv_tapers d ?L p nf (nf div 2 + 1))))) f)"
    by simp
next
  assume "shape x = [1, t, n] \<and> (t = 1 \<or> n = 1)"
  then have "per_channel_layout x = Inl UnboundLocalError"
    using per_channel_layout_short[of x t n] by blast
  then show "mtplv d x p = Inl UnboundLocalError" by (simp add: mtplv_def)
qed

text \<open>
  Claim C4 as stated fails: on the one-channel recording of two trials \<open>[1, 0]\<close>, \<open>mtcpca\<close>
  raises where \<open>mtplv\<close> returns the PLV 1 at both passband bins.
\<close>

theorem single_channel_counterexample:
  "mtcpca ex_dpss eigh_exact \<lparr>shape = [1, 2, 2], flat = [1, 0, 1, 0]\<rparr> ex_params
     = Inl UnboundLocalError
   \<and> mtplv ex_dpss \<lparr>shape = [1, 2, 2], flat = [1, 0, 1, 0]\<rparr> ex_params
     = Inr (Tuple [RArray \<lparr>shape = [2], flat = [Some 1, Some 1]\<rparr>, freq_array [1, 2]])"
proof -
  have a: "mtcpca ex_dpss eigh_exact \<lparr>shape = [1, 2, 2], flat = [1, 0, 1, 0]\<rparr> ex_params
     = Inl UnboundLocalError"
    by (simp add: mtcpca_def cpca_layout_one_channel)
  have l: "per_channel_layout \<lparr>shape = [1, 2, 2], flat = [1, 0, 1, 0]\<rparr>
           = per_channel_layout \<lparr>shape = [2, 2], flat = [1, 0, 1, 0]\<rparr>"
    using single_channel_layout(2)[of "\<lparr>shape = [1, 2, 2], flat = [1, 0, 1, 0]\<rparr>" 2 2] by simp
  have "mtplv ex_dpss \<lparr>shape = [1, 2, 2], flat = [1, 0, 1, 0]\<rparr> ex_params
        = mtplv ex_dpss \<lparr>shape = [2, 2], flat = [1, 0, 1, 0]\<rparr> ex_params"
    unfolding mtplv_def l by (rule refl)
  then have b: "mtplv ex_dpss \<lparr>shape = [1, 2, 2], flat = [1, 0, 1, 0]\<rparr> ex_params
     = Inr (Tuple [RArray \<lparr>shape = [2], flat = [Some 1, Some 1]\<rparr>, freq_array [1, 2]])"
    using ones_mtplv by simp
  show ?thesis using a b by (rule conjI)
qed

theorem single_channel_cpca_witness:
  "mtcpca ex_dpss eigh_exact \<lparr>shape = [1, 2, 2], flat = [1, 0, 1, 0]\<rparr> ex_params
     = Inl UnboundLocalError
   \<and> nchans ones_layout2 \<noteq> 1
   \<and> mtplv ex_dpss \<lparr>shape = [1, 2, 2], flat = [1, 0, 1, 0]\<rparr> ex_params
       = Inr (pack ex_params ''mtplv''
           (RArray (masked_rows [1, length [1, 2 :: real]] [False, True, True]
              (mean_tapers 1 (4 div 2 + 1)
                 (mtplv_tapers ex_dpss \<lparr>timedim = 1, trialdim = 0, nchans = 1, ntrials = 2, ntime = 2,
                                    chans = [rows 2 2 (flat \<lparr>shape = [1, 2, 2], flat = [1, 0, 1, 0 :: real]\<rparr>)]\<rparr>
                    ex_params 4 (4 div 2 + 1))))) [1, 2])
   \<and> mtplv ex_dpss \<lparr>shape = [1, 1, 2], flat = [1, 2]\<rparr> ex_params = Inl UnboundLocalError"
proof -
  note t = single_channel_cpca[of "\<lparr>shape = [1, 2, 2], flat = [1, 0, 1, 0]\<rparr>" 2 2
      ex_dpss eigh_exact ex_params]
  have s: "shape \<lparr>shape = [1, 2, 2], flat = [1, 0, 1, 0 :: real]\<rparr> = [1, 2, 2]" by simp
  have h: "shape \<lparr>shape = [1, 2, 2], flat = [1, 0, 1, 0 :: real]\<rparr> = [1, 2, 2]
             \<and> (2 :: nat) \<noteq> 1 \<and> (2 :: nat) \<noteq> 1" by simp
  note a = t[THEN conjunct1, rule_format, OF s]
  note c = t[THEN conjunct2, THEN conjunct2, THEN conjunct1, rule_format, OF h ex_freq_vector2]
  note b = single_channel_cpca[of "\<lparr>shape = [2, 2, 2], flat = [1, 0, 1, 0, 1, 0, 1, 0]\<rparr>" 0 0
      ex_dpss eigh_exact ex_params, THEN conjunct2, THEN conjunct1, rule_format,
      OF ones2_cpca_layout]
  have h2: "shape \<lparr>shape = [1, 1, 2], flat = [1, 2 :: real]\<rparr> = [1, 1, 2]
             \<and> ((1 :: nat) = 1 \<or> (2 :: nat) = 1)" by simp
  note e = single_channel_cpca[of "\<lparr>shape = [1, 1, 2], flat = [1, 2]\<rparr>" 1 2
      ex_dpss eigh_exact ex_params, THEN conjunct2, THEN conjunct2, THEN conjunct2, rule_format,
      OF h2]
  show ?thesis by (intro conjI a b c e)
qed

section \<open>Coefficients of zero magnitude\<close>

lemma mapE_Inl:
  "x \<in> set xs \<Longrightarrow> g x = Inl e \<Longrightarrow> \<exists>e'. mapE g xs = Inl e'"
proof (induction xs)
  case Nil
  then show ?case by simp
next
  case (Cons a xs)
  then show ?case by (cases "g a"; cases "mapE g xs") auto
qed

lemma in_set_map_nth: "i < length xs \<Longrightarrow> g (xs ! i) = v \<Longrightarrow> v \<in> set (map g xs)"
  by (auto simp: in_set_conv_nth intro!: image_eqI[where x = "xs ! i"])

lemma plv_coef_None_iff: "plv_coef xs = None \<longleftrightarrow> xs = [] \<or> 0 \<in> set xs"
  unfolding plv_coef_def by (simp add: fmean_None_iff None_in_unit_phase del: set_map)

lemma mtplv_returns:
  assumes "per_channel_layout x = Inr L" "get_freq_vector (ntime L) p = Inr (n, f, fInd)"
  shows "\<exists>r. mtplv d x p = Inr r"
  using assms by (simp add: mtplv_def Let_def)

lemma mtplv_tapers_plv_entry:
  assumes "\<not> itc p" "k < length (windows d L p)" "c < length (chans L)" "fi < nb"
  shows "mtplv_tapers d L p n nb ! k ! c ! fi
         = plv_stat (map (\<lambda>tr. tr ! fi) (taper_rfft n (windows d L p ! k) (chans L) ! c))"
  using assms by (simp add: mtplv_tapers_def length_taper_rfft over_trials_nth)

lemma length_mtplv_tapers: "length (mtplv_tapers d L p n nb) = length (windows d L p)"
  by (simp add: mtplv_tapers_def)

lemma mean_tapers_nth:
  "c < nc \<Longrightarrow> fi < nb \<Longrightarrow> mean_tapers nc nb A ! c ! fi = fmean (map (\<lambda>S. S ! c ! fi) A)"
  by (simp add: mean_tapers_def del: upt_Suc)

lemma mean_tapers_None:
  assumes "c < nc" "fi < nb" "k < length A" "A ! k ! c ! fi = None"
  shows "mean_tapers nc nb A ! c ! fi = None"
proof -
  have "None \<in> set (map (\<lambda>S. S ! c ! fi) A)"
    using assms(3,4) by (intro in_set_map_nth[of k]) simp_all
  then show ?thesis using assms(1,2) by (simp add: mean_tapers_nth fmean_None_iff del: set_map)
qed

lemma top_eigenvalue_None: "None \<in> set col \<Longrightarrow> top_eigenvalue eigh nc col = Inl ValueError"
  by (simp add: top_eigenvalue_def eigh_csd_def those_None_iff[THEN iffD2])

lemma mtcpca_aborts:
  assumes L: "cpca_layout x = Inr L" and f: "get_freq_vector (ntime L) p = Inr (n, f, fInd)"
    and i: "\<not> itc p" and k: "k < length (windows d L p)" and c: "c < nchans L"
    and fi: "fi < length fInd"
    and z: "0 \<in> set (map (\<lambda>tr. tr ! fi) (taper_rfft n (windows d L p ! k) (chans L) ! c))"
  shows "\<exists>e. mtcpca d eigh x p = Inl e"
proof -
  let ?nb = "length fInd"
  let ?C = "\<lambda>tap. map (over_trials ?nb (if itc p then itc_coef else plv_coef))
                        (taper_rfft n tap (chans L))"
  let ?tap = "windows d L p ! k"
  have cl: "c < length (chans L)" using c cpca_layout_chans[OF L] by simp
  have "?C ?tap ! c ! fi = plv_coef (map (\<lambda>tr. tr ! fi) (taper_rfft n ?tap (chans L) ! c))"
    using i cl fi by (simp add: length_taper_rfft over_trials_nth)
  then have "?C ?tap ! c ! fi = None" using z by (simp add: plv_coef_None_iff del: set_map)
  then have "None \<in> set (map (\<lambda>row. row ! fi) (?C ?tap))"
    using cl by (intro in_set_map_nth[of c]) (simp_all add: length_taper_rfft)
  then have t: "top_eigenvalue eigh (nchans L) (map (\<lambda>row. row ! fi) (?C ?tap)) = Inl ValueError"
    by (rule top_eigenvalue_None)
  have "\<exists>e. cpca_bins eigh (nchans L) ?nb (?C ?tap) = Inl e"
  proof (cases "?nb = 1")
    case True
    then show ?thesis by (simp add: cpca_bins_def)
  next
    case False
    have "fi \<in> set [0..<?nb]" using fi by simp
    from mapE_Inl[of fi "[0..<?nb]"
        "\<lambda>fi. top_eigenvalue eigh (nchans L) (map (\<lambda>row. row ! fi) (?C ?tap))" ValueError, OF this t]
      False show ?thesis by (simp add: cpca_bins_def)
  qed
  then obtain e where e: "cpca_bins eigh (nchans L) ?nb (?C ?tap) = Inl e" ..
  have "?tap \<in> set (windows d L p)" using k by simp
  from mapE_Inl[of ?tap "windows d L p" "\<lambda>tap. cpca_bins eigh (nchans L) ?nb (?C tap)" e,
      OF this e]
  obtain e' where "mtcpca_tapers d eigh L p n ?nb = Inl e'"
    unfolding mtcpca_tapers_def by blast
  then show ?thesis using L f by (simp add: mtcpca_def)
qed

lemma flat_masked_rows: "flat (masked_rows dims fInd A) = concat (map (bool_index fInd) A)"
  by (simp add: masked_rows_def squeezed_def squeeze_def)

lemma length_mean_tapers: "length (mean_tapers nc nb A) = nc"
  and length_mean_tapers_row: "c < nc \<Longrightarrow> length (mean_tapers nc nb A ! c) = nb"
  by (simp_all add: mean_tapers_def del: upt_Suc)

lemma masked_entry:
  assumes f: "get_freq_vector nt p = Inr (n, f, fInd)"
    and c: "c < nc" and fi: "fi < length fInd" and m: "fInd ! fi"
  shows "flat (masked_rows dims fInd (mean_tapers nc (length fInd) A))
           ! (c * length f + length (filter (\<lambda>b. b) (take fi fInd)))
         = mean_tapers nc (length fInd) A ! c ! fi"
proof -
  let ?M = "mean_tapers nc (length fInd) A"
  let ?j = "length (filter (\<lambda>b. b) (take fi fInd))"
  have lf: "length fInd = n div 2 + 1" by (rule length_fInd[OF f])
  have rows: "\<forall>r \<in> set (map (bool_index fInd) ?M). length r = length f"
  proof
    fix r assume "r \<in> set (map (bool_index fInd) ?M)"
    then obtain row where row: "row \<in> set ?M" and r: "r = bool_index fInd row" by auto
    from row have "length row = length fInd" by (auto simp: mean_tapers_def)
    then show "length r = length f" unfolding r using length_masked[OF f, of row] lf by simp
  qed
  have lr: "length (?M ! c) = length fInd" using c by (simp add: length_mean_tapers_row)
  note b = bool_index_nth[OF lr fi m]
  have j: "?j < length f"
    using b length_masked[OF f, of "?M ! c"] lr lf by simp
  have "concat (map (bool_index fInd) ?M) ! (c * length f + ?j) = map (bool_index fInd) ?M ! c ! ?j"
    by (rule concat_nth_uniform[OF rows _ j]) (simp add: length_mean_tapers c)
  also have "\<dots> = bool_index fInd (?M ! c) ! ?j" using c by (simp add: length_mean_tapers)
  also have "\<dots> = ?M ! c ! fi" using b by simp
  finally show ?thesis by (simp add: flat_masked_rows)
qed

lemma mapE_error:
  assumes "mapE g xs = Inl e" "\<And>x e'. x \<in> set xs \<Longrightarrow> g x = Inl e' \<Longrightarrow> e' = E"
  shows "e = E"
  using assms
proof (induction xs arbitrary: e)
  case Nil
  then show ?case by simp
next
  case (Cons a xs)
  show ?case
  proof (cases "g a")
    case (Inl e')
    then have "e' = e" using Cons.prems(1) by simp
    then show ?thesis using Cons.prems(2)[of a e'] Inl by simp
  next
    case (Inr y)
    then have "mapE g xs = Inl e"
      using Cons.prems(1) by (cases "mapE g xs") simp_all
    then show ?thesis by (rule Cons.IH) (rule Cons.prems(2), simp_all)
  qed
qed

lemma top_eigenvalue_error:
  assumes "top_eigenvalue eigh nc col = Inl e" "\<forall>v. length v = length col \<longrightarrow> fst (eigh (csd v)) \<noteq> []"
  shows "e = ValueError"
proof (cases "those col")
  case None
  then show ?thesis using assms(1) by (simp add: top_eigenvalue_def eigh_csd_def)
next
  case (Some v)
  then have "length v = length col" by (simp add: those_Some_iff)
  then have "fst (eigh (csd v)) \<noteq> []" using assms(2) by blast
  then show ?thesis using assms(1) Some
    by (auto simp: top_eigenvalue_def eigh_csd_def neg_index_def Suc_le_eq
        split: prod.splits if_splits)
qed

lemma mtcpca_aborts_ValueError:
  assumes L: "cpca_layout x = Inr L" and f: "get_freq_vector (ntime L) p = Inr (n, f, fInd)"
    and e: "mtcpca d eigh x p = Inl e"
    and nb: "length fInd \<noteq> 1"
    and s: "\<forall>v. length v = nchans L \<longrightarrow> fst (eigh (csd v)) \<noteq> []"
  shows "e = ValueError"
proof -
  let ?nb = "length fInd"
  from e L f have t: "mtcpca_tapers d eigh L p n ?nb = Inl e"
    by (simp add: mtcpca_def Let_def split: sum.splits)
  have cl: "length (chans L) = nchans L" by (rule cpca_layout_chans[OF L])
  show ?thesis
  proof (rule mapE_error[OF t[unfolded mtcpca_tapers_def]])
    fix tap e'
    assume "cpca_bins eigh (nchans L) ?nb
              (map (over_trials ?nb (if itc p then itc_coef else plv_coef))
                 (taper_rfft n tap (chans L))) = Inl e'"
    then have b: "mapE (\<lambda>fi. top_eigenvalue eigh (nchans L)
                      (map (\<lambda>row. row ! fi)
                         (map (over_trials ?nb (if itc p then itc_coef else plv_coef))
                            (taper_rfft n tap (chans L))))) [0..<?nb] = Inl e'"
      using nb by (simp add: cpca_bins_def)
    show "e' = ValueError"
    proof (rule mapE_error[OF b])
      fix fi e''
      assume "top_eigenvalue eigh (nchans L)
                (map (\<lambda>row. row ! fi)
                   (map (over_trials ?nb (if itc p then itc_coef else plv_coef))
                      (taper_rfft n tap (chans L)))) = Inl e''"
      then show "e'' = ValueError"
        by (rule top_eigenvalue_error) (use s cl in \<open>simp add: length_taper_rfft\<close>)
    qed
  qed
qed

text \<open>
  Claim C9, as amended. No policy is applied to a coefficient of zero magnitude: its unit
  normalisation is undefined, and so are the PLV statistic and the channel statistic of its
  bin. In PLV mode, when a coefficient of channel \<open>c\<close> at bin \<open>fi\<close> is zero in some trial
  under some taper, \<open>mtplv\<close> does not abort: it returns the masked taper mean, which is
  undefined at that channel and bin, so that the returned array holds the undefined value at
  the place of that channel and bin whenever the bin lies in the passband. \<open>mtcpca\<close> in PLV
  mode aborts the whole call; when there is more than one bin and the solver returns
  eigenvalues for every matrix of the channel count, the error is the \<open>ValueError\<close> of the
  solver's finiteness check.
\<close>

theorem zero_magnitude_coefficient:
  "(\<forall>xs. 0 \<in> set xs \<longrightarrow> plv_stat xs = None \<and> plv_coef xs = None)
   \<and> (\<forall>L n f fInd k c fi.
         per_channel_layout x = Inr L \<and> get_freq_vector (ntime L) p = Inr (n, f, fInd)
         \<and> \<not> itc p \<and> k < length (windows d L p) \<and> c < nchans L \<and> fi < length fInd
         \<and> 0 \<in> set (map (\<lambda>tr. tr ! fi) (taper_rfft n (windows d L p ! k) (chans L) ! c)) \<longrightarrow>
         mtplv d x p = Inr (pack p ''mtplv''
            (RArray (masked_rows [nchans L, length f] fInd
               (mean_tapers (nchans L) (length fInd) (mtplv_tapers d L p n (length fInd))))) f)
         \<and> mean_tapers (nchans L) (length fInd) (mtplv_tapers d L p n (length fInd)) ! c ! fi = None
         \<and> (fInd ! fi \<longrightarrow>
              flat (masked_rows [nchans L, length f] fInd
                     (mean_tapers (nchans L) (length fInd) (mtplv_tapers d L p n (length fInd))))
                ! (c * length f + length (filter (\<lambda>b. b) (take fi fInd))) = None))
   \<and> (\<forall>L n f fInd k c fi.
         cpca_layout x = Inr L \<and> get_freq_vector (ntime L) p = Inr (n, f, fInd)
         \<and> \<not> itc p \<and> k < length (windows d L p) \<and> c < nchans L \<and> fi < length fInd
         \<and> 0 \<in> set (map (\<lambda>tr. tr ! fi) (taper_rfft n (windows d L p ! k) (chans L) ! c)) \<longrightarrow>
         (\<exists>e. mtcpca d eigh x p = Inl e)
         \<and> (length fInd \<noteq> 1 \<and> (\<forall>v. length v = nchans L \<longrightarrow> fst (eigh (csd v)) \<noteq> []) \<longrightarrow>
              mtcpca d eigh x p = Inl ValueError))"
proof (intro conjI allI impI)
  fix xs :: "complex list" assume "0 \<in> set xs"
  then show "plv_stat xs = None" "plv_coef xs = None"
    by (simp_all add: plv_stat_None_iff plv_coef_None_iff)
next
  fix L n f fInd k c fi
  assume h: "per_channel_layout x = Inr L \<and> get_freq_vector (ntime L) p = Inr (n, f, fInd)
         \<and> \<not> itc p \<and> k < length (windows d L p) \<and> c < nchans L \<and> fi < length fInd
         \<and> 0 \<in> set (map (\<lambda>tr. tr ! fi) (taper_rfft n (windows d L p ! k) (chans L) ! c))"
  then have cl: "c < length (chans L)" using per_channel_layout_chans[of x L] by simp
  let ?M = "mean_tapers (nchans L) (length fInd) (mtplv_tapers d L p n (length fInd))"
  show "mtplv d x p = Inr (pack p ''mtplv'' (RArray (masked_rows [nchans L, length f] fInd ?M)) f)"
    using h by (simp add: mtplv_def)
  have e: "mtplv_tapers d L p n (length fInd) ! k ! c ! fi = None"
    using mtplv_tapers_plv_entry[of p k d L c fi "length fInd" n] h cl
    by (simp add: plv_stat_None_iff del: set_map)
  show M: "?M ! c ! fi = None"
    by (rule mean_tapers_None[OF _ _ _ e]) (use h in \<open>simp_all add: length_mtplv_tapers\<close>)
  {
    assume m: "fInd ! fi"
    from h have f: "get_freq_vector (ntime L) p = Inr (n, f, fInd)" and c: "c < nchans L"
      and fi: "fi < length fInd" by simp_all
    show "flat (masked_rows [nchans L, length f] fInd ?M)
            ! (c * length f + length (filter (\<lambda>b. b) (take fi fInd))) = None"
      unfolding masked_entry[OF f c fi m] by (rule M)
  }
next
  fix L n f fInd k c fi
  assume h: "cpca_layout x = Inr L \<and> get_freq_vector (ntime L) p = Inr (n, f, fInd)
         \<and> \<not> itc p \<and> k < length (windows d L p) \<and> c < nchans L \<and> fi < length fInd
         \<and> 0 \<in> set (map (\<lambda>tr. tr ! fi) (taper_rfft n (windows d L p ! k) (chans L) ! c))"
  then show a: "\<exists>e. mtcpca d eigh x p = Inl e"
    using mtcpca_aborts[of x L p n f fInd k d c fi eigh] by blast
  {
    assume s: "length fInd \<noteq> 1 \<and> (\<forall>v. length v = nchans L \<longrightarrow> fst (eigh (csd v)) \<noteq> [])"
    from a obtain e where e: "mtcpca d eigh x p = Inl e" by blast
    from h s have "e = ValueError"
      by (intro mtcpca_aborts_ValueError[OF _ _ e, of L n f fInd]) simp_all
    with e show "mtcpca d eigh x p = Inl ValueError" by simp
  }
qed

lemma rfft_4_zero: "rfft 4 [0, 0] = [0, 0, 0]"
  by (simp add: rfft_4_pair)

lemma blank_layout: "per_channel_layout \<lparr>shape = [2, 2], flat = [1, 0, 0, 0]\<rparr> = Inr blank_layout"
  by (simp add: per_channel_layout_22 blank_layout_def)

lemma blank_layout2:
  "cpca_layout \<lparr>shape = [2, 2, 2], flat = [1, 0, 0, 0, 1, 0, 0, 0]\<rparr> = Inr blank_layout2"
  by (simp add: cpca_layout_222 blank_layout2_def)

lemma blank_freq: "get_freq_vector (ntime blank_layout) ex_params = Inr (4, [1, 2], [False, True, True])"
  using ex_freq_vector2 by (simp add: blank_layout_def)

lemma blank_freq2: "get_freq_vector (ntime blank_layout2) ex_params = Inr (4, [1, 2], [False, True, True])"
  using ex_freq_vector2 by (simp add: blank_layout2_def)

lemma blank_windows: "windows ex_dpss blank_layout ex_params = [[1, 1]]"
  by (rule ex_windows) (simp add: blank_layout_def)

lemma blank_windows2: "windows ex_dpss blank_layout2 ex_params = [[1, 1]]"
  by (rule ex_windows) (simp add: blank_layout2_def)

lemma blank_xw: "taper_rfft 4 [1, 1] (chans blank_layout) = [[[1, 1, 1], [0, 0, 0]]]"
  by (simp add: blank_layout_def taper_rfft_ones rfft_4_one rfft_4_zero)

lemma blank_xw2:
  "taper_rfft 4 [1, 1] (chans blank_layout2) = [[[1, 1, 1], [0, 0, 0]], [[1, 1, 1], [0, 0, 0]]]"
  by (simp add: blank_layout2_def taper_rfft_ones2 rfft_4_one rfft_4_zero)

lemma ex_itc: "itc ex_params = False"
  by (simp add: ex_params_def)

lemma blank_mtplv:
  "mtplv ex_dpss \<lparr>shape = [2, 2], flat = [1, 0, 0, 0]\<rparr> ex_params
     = Inr (Tuple [RArray \<lparr>shape = [2], flat = [None, None]\<rparr>, freq_array [1, 2]])"
proof -
  have s: "plv_stat [1, 0] = None" by (simp add: plv_stat_None_iff)
  have t: "mtplv_tapers ex_dpss blank_layout ex_params 4 3 = [[[None, None, None]]]"
    unfolding mtplv_tapers_def blank_windows
    by (simp add: blank_xw over_trials_3 ex_itc s)
  have m: "mean_tapers (nchans blank_layout) 3 [[[None, None, None]]]
           = [[None, None, None :: real option]]"
    by (simp add: blank_layout_def mean_tapers_1_3 fmean_single)
  have r: "masked_rows [nchans blank_layout, length [1, 2 :: real]] [False, True, True]
             [[None, None, None :: real option]] = \<lparr>shape = [2], flat = [None, None]\<rparr>"
    by (simp add: masked_rows_def bool_index_ex squeezed_def squeeze_def blank_layout_def)
  have "mtplv ex_dpss \<lparr>shape = [2, 2], flat = [1, 0, 0, 0]\<rparr> ex_params
      = Inr (pack ex_params ''mtplv'' (RArray \<lparr>shape = [2], flat = [None, None]\<rparr>) [1, 2])"
    by (rule mtplv_eval[OF blank_layout blank_freq _ t m r]) simp
  then show ?thesis by (simp add: pack_normal ex_params_def)
qed

lemma mtcpca_eval_Inl:
  assumes "cpca_layout x = Inr L"
    and "get_freq_vector (ntime L) p = Inr (n, f, fInd)"
    and "length fInd = nb"
    and "mtcpca_tapers d eigh L p n nb = Inl e"
  shows "mtcpca d eigh x p = Inl e"
  using assms by (simp add: mtcpca_def)

lemma blank_mtcpca:
  "mtcpca ex_dpss eigh_exact \<lparr>shape = [2, 2, 2], flat = [1, 0, 0, 0, 1, 0, 0, 0]\<rparr> ex_params
     = Inl ValueError"
proof -
  have s: "plv_coef [1, 0] = None" by (simp add: plv_coef_None_iff)
  have C: "map (over_trials 3 (if itc ex_params then itc_coef else plv_coef))
             (taper_rfft 4 [1, 1] (chans blank_layout2))
           = [[None, None, None], [None, None, None]]"
    by (simp add: blank_xw2 over_trials_3 ex_itc s)
  have b: "cpca_bins eigh_exact (nchans blank_layout2) 3 [[None, None, None], [None, None, None]]
           = Inl ValueError"
    by (simp add: cpca_bins_def mapE_3 top_eigenvalue_None)
  have t: "mtcpca_tapers ex_dpss eigh_exact blank_layout2 ex_params 4 3 = Inl ValueError"
    unfolding mtcpca_tapers_def blank_windows2 by (simp add: C b)
  show ?thesis
    by (rule mtcpca_eval_Inl[OF blank_layout2 blank_freq2 _ t]) simp
qed

text \<open>
  Claim C9 as stated fails on a recording with one blank trial: \<open>mtplv\<close> returns the
  undefined value at every bin, where a zero contribution of the blank trial would give
  one quarter, and \<open>mtcpca\<close> aborts.
\<close>

theorem blank_trial_counterexample:
  "mtplv ex_dpss \<lparr>shape = [2, 2], flat = [1, 0, 0, 0]\<rparr> ex_params
     = Inr (Tuple [RArray \<lparr>shape = [2], flat = [None, None]\<rparr>, freq_array [1, 2]])
   \<and> mtcpca ex_dpss eigh_exact \<lparr>shape = [2, 2, 2], flat = [1, 0, 0, 0, 1, 0, 0, 0]\<rparr> ex_params
     = Inl ValueError"
  using blank_mtplv blank_mtcpca by blast

lemma eigh_exact_vals_nonempty: "length v = 2 \<Longrightarrow> fst (eigh_exact (csd v)) \<noteq> []"
proof -
  assume "length v = 2"
  then obtain a b where v: "v = [a, b]"
    by (cases v; cases "tl v") (auto simp: numeral_2_eq_2)
  show ?thesis unfolding v by (simp add: fst_eigh_exact csd_2)
qed

theorem zero_magnitude_coefficient_witness:
  "plv_stat [1, 0] = None
   \<and> mtplv ex_dpss \<lparr>shape = [2, 2], flat = [1, 0, 0, 0]\<rparr> ex_params
       = Inr (pack ex_params ''mtplv''
            (RArray (masked_rows [nchans blank_layout, length [1, 2 :: real]] [False, True, True]
               (mean_tapers (nchans blank_layout) (length [False, True, True])
                  (mtplv_tapers ex_dpss blank_layout ex_params 4 (length [False, True, True]))))) [1, 2])
   \<and> mean_tapers (nchans blank_layout) (length [False, True, True])
         (mtplv_tapers ex_dpss blank_layout ex_params 4 (length [False, True, True])) ! 0 ! 1 = None
   \<and> flat (masked_rows [nchans blank_layout, length [1, 2 :: real]] [False, True, True]
               (mean_tapers (nchans blank_layout) (length [False, True, True])
                  (mtplv_tapers ex_dpss blank_layout ex_params 4 (length [False, True, True]))))
         ! (0 * length [1, 2 :: real] + length (filter (\<lambda>b. b) (take 1 [False, True, True]))) = None
   \<and> mtcpca ex_dpss eigh_exact \<lparr>shape = [2, 2, 2], flat = [1, 0, 0, 0, 1, 0, 0, 0]\<rparr> ex_params
       = Inl ValueError"
proof -
  note t1 = zero_magnitude_coefficient[of "\<lparr>shape = [2, 2], flat = [1, 0, 0, 0]\<rparr>" ex_params ex_dpss]
  note t2 = zero_magnitude_coefficient[of "\<lparr>shape = [2, 2, 2], flat = [1, 0, 0, 0, 1, 0, 0, 0]\<rparr>"
      ex_params ex_dpss eigh_exact]
  from t1 have a: "plv_stat [1, 0] = None" by simp
  have z1: "0 \<in> set (map (\<lambda>tr. tr ! 1)
              (taper_rfft 4 (windows ex_dpss blank_layout ex_params ! 0) (chans blank_layout) ! 0))"
    by (simp add: blank_windows blank_xw)
  have z2: "0 \<in> set (map (\<lambda>tr. tr ! 1)
              (taper_rfft 4 (windows ex_dpss blank_layout2 ex_params ! 0) (chans blank_layout2) ! 0))"
    by (simp add: blank_windows2 blank_xw2)
  have i1: "0 < length (windows ex_dpss blank_layout ex_params)" by (simp add: blank_windows)
  have i2: "0 < length (windows ex_dpss blank_layout2 ex_params)" by (simp add: blank_windows2)
  have c1: "0 < nchans blank_layout" by (simp add: blank_layout_def)
  have c2: "0 < nchans blank_layout2" by (simp add: blank_layout2_def)
  have f: "1 < length [False, True, True]" by simp
  have ni: "\<not> itc ex_params" by (simp add: ex_itc)
  have h1: "per_channel_layout \<lparr>shape = [2, 2], flat = [1, 0, 0, 0]\<rparr> = Inr blank_layout
      \<and> get_freq_vector (ntime blank_layout) ex_params = Inr (4, [1, 2], [False, True, True])
      \<and> \<not> itc ex_params \<and> 0 < length (windows ex_dpss blank_layout ex_params)
      \<and> 0 < nchans blank_layout \<and> 1 < length [False, True, True]
      \<and> 0 \<in> set (map (\<lambda>tr. tr ! 1)
              (taper_rfft 4 (windows ex_dpss blank_layout ex_params ! 0) (chans blank_layout) ! 0))"
    using blank_layout blank_freq ni i1 c1 f z1 by blast
  have h2: "cpca_layout \<lparr>shape = [2, 2, 2], flat = [1, 0, 0, 0, 1, 0, 0, 0]\<rparr> = Inr blank_layout2
      \<and> get_freq_vector (ntime blank_layout2) ex_params = Inr (4, [1, 2], [False, True, True])
      \<and> \<not> itc ex_params \<and> 0 < length (windows ex_dpss blank_layout2 ex_params)
      \<and> 0 < nchans blank_layout2 \<and> 1 < length [False, True, True]
      \<and> 0 \<in> set (map (\<lambda>tr. tr ! 1)
              (taper_rfft 4 (windows ex_dpss blank_layout2 ex_params ! 0) (chans blank_layout2) ! 0))"
    using blank_layout2 blank_freq2 ni i2 c2 f z2 by blast
  note b = t1[THEN conjunct2, THEN conjunct1, rule_format, OF h1]
  have m: "[False, True, True] ! 1" by simp
  note b1 = b[THEN conjunct1]
  note b2 = b[THEN conjunct2, THEN conjunct1]
  note b3 = b[THEN conjunct2, THEN conjunct2, rule_format, OF m]
  note c = t2[THEN conjunct2, THEN conjunct2, rule_format, OF h2]
  have s: "length [False, True, True] \<noteq> 1
      \<and> (\<forall>v. length v = nchans blank_layout2 \<longrightarrow> fst (eigh_exact (csd v)) \<noteq> [])"
    using eigh_exact_vals_nonempty by (simp add: blank_layout2_def)
  note c3 = c[THEN conjunct2, rule_format, OF s]
  show ?thesis by (intro conjI a b1 b2 b3 c3)
qed

section \<open>The position of the passband mask\<close>





end
